theory Spec2Isabelle
  imports Complex_Main "HOL-Library.Word"
begin

unbundle bit_operations_syntax

section \<open>CardPing Multi: session state machine and UDP synchronisation\<close>

text \<open>
  A shallow embedding of \<^verbatim>\<open>src/Pong_Multi/src/main.cpp\<close>. The program keeps its
  whole session in global variables and runs one \<^verbatim>\<open>loop()\<close> per frame. Here the
  globals are one record that every function takes and returns, and what the
  firmware reads from its surroundings (the clock, the keyboard, the UDP socket, the
  random generator, the Wi-Fi driver) is an explicit argument.
\<close>

subsection \<open>Machine types and constants\<close>

type_synonym u8 = "8 word"
type_synonym u16 = "16 word"
type_synonym u32 = "32 word"

datatype Role = RoleNone | Host | Client

datatype Screen =
  WifiSelect | WifiPassword | NameEntry | RoleSelect | HostWaiting
  | ClientSearching | Lobby | Playing | GameOver | Error

text \<open>The enumerators' values, for the comparisons \<^verbatim>\<open>g_screen >= Screen::Playing\<close>.\<close>

fun screen_index :: "Screen \<Rightarrow> nat" where
  "screen_index WifiSelect = 0"
| "screen_index WifiPassword = 1"
| "screen_index NameEntry = 2"
| "screen_index RoleSelect = 3"
| "screen_index HostWaiting = 4"
| "screen_index ClientSearching = 5"
| "screen_index Lobby = 6"
| "screen_index Playing = 7"
| "screen_index GameOver = 8"
| "screen_index Error = 9"

definition PLAYER_NAME_MAX_LEN :: nat where "PLAYER_NAME_MAX_LEN = 16"
definition UDP_PORT :: u16 where "UDP_PORT = 41000"
definition MAX_SCORE :: u8 where "MAX_SCORE = 7"
definition SERVE_DELAY_MS :: u32 where "SERVE_DELAY_MS = 1300"
definition STATE_SEND_INTERVAL_MS :: u32 where "STATE_SEND_INTERVAL_MS = 32"
definition PADDLE_SEND_INTERVAL_MS :: u32 where "PADDLE_SEND_INTERVAL_MS = 45"
definition JOIN_BROADCAST_INTERVAL_MS :: u32 where "JOIN_BROADCAST_INTERVAL_MS = 800"
definition CONNECTION_TIMEOUT_MS :: u32 where "CONNECTION_TIMEOUT_MS = 4000"

definition FLAG_MATCH_ACTIVE :: u8 where "FLAG_MATCH_ACTIVE = 0x01"
definition FLAG_WAITING_SERVE :: u8 where "FLAG_WAITING_SERVE = 0x02"
definition FLAG_GAME_OVER :: u8 where "FLAG_GAME_OVER = 0x04"
definition FLAG_PAUSED :: u8 where "FLAG_PAUSED = 0x08"

subsection \<open>Single-precision values\<close>

text \<open>
  A C \<^verbatim>\<open>float\<close> is modelled by the value it denotes: a real number, one of the two
  infinities, or a NaN. Comparisons follow IEEE 754 (every comparison with a NaN is
  false). Arithmetic on two finite values is exact real arithmetic: rounding to a
  24-bit significand and overflow to an infinity are not modelled, and the sign of a
  zero is dropped. The results proved below only use the comparisons and the cases
  where a NaN or an infinity is an operand; where one of them states a position that
  was computed, the inputs are such that the arithmetic of the program is exact too.
\<close>

datatype float = FNaN | FNegInf | FVal real | FPosInf

fun flt :: "float \<Rightarrow> float \<Rightarrow> bool" where
  "flt (FVal a) (FVal b) = (a < b)"
| "flt FNegInf (FVal b) = True"
| "flt FNegInf FPosInf = True"
| "flt (FVal a) FPosInf = True"
| "flt _ _ = False"

fun fle :: "float \<Rightarrow> float \<Rightarrow> bool" where
  "fle (FVal a) (FVal b) = (a \<le> b)"
| "fle FNaN _ = False"
| "fle _ FNaN = False"
| "fle FNegInf _ = True"
| "fle _ FPosInf = True"
| "fle _ _ = False"

definition fgt :: "float \<Rightarrow> float \<Rightarrow> bool" where "fgt a b = flt b a"
definition fge :: "float \<Rightarrow> float \<Rightarrow> bool" where "fge a b = fle b a"

fun fneg :: "float \<Rightarrow> float" where
  "fneg FNaN = FNaN"
| "fneg FNegInf = FPosInf"
| "fneg FPosInf = FNegInf"
| "fneg (FVal a) = FVal (- a)"

fun fabsf :: "float \<Rightarrow> float" where
  "fabsf FNaN = FNaN"
| "fabsf FNegInf = FPosInf"
| "fabsf FPosInf = FPosInf"
| "fabsf (FVal a) = FVal \<bar>a\<bar>"

fun fadd :: "float \<Rightarrow> float \<Rightarrow> float" where
  "fadd (FVal a) (FVal b) = FVal (a + b)"
| "fadd FNaN _ = FNaN"
| "fadd _ FNaN = FNaN"
| "fadd FPosInf FNegInf = FNaN"
| "fadd FNegInf FPosInf = FNaN"
| "fadd FPosInf _ = FPosInf"
| "fadd _ FPosInf = FPosInf"
| "fadd FNegInf _ = FNegInf"
| "fadd _ FNegInf = FNegInf"

definition fsub :: "float \<Rightarrow> float \<Rightarrow> float" where
  "fsub a b = fadd a (fneg b)"

text \<open>The infinity with the sign of \<open>a * b\<close>, for the products and quotients below.\<close>

definition signed_inf :: "bool \<Rightarrow> float" where
  "signed_inf negative = (if negative then FNegInf else FPosInf)"

fun fmul :: "float \<Rightarrow> float \<Rightarrow> float" where
  "fmul (FVal a) (FVal b) = FVal (a * b)"
| "fmul FNaN _ = FNaN"
| "fmul _ FNaN = FNaN"
| "fmul (FVal a) FPosInf = (if a = 0 then FNaN else signed_inf (a < 0))"
| "fmul (FVal a) FNegInf = (if a = 0 then FNaN else signed_inf (0 < a))"
| "fmul FPosInf (FVal b) = (if b = 0 then FNaN else signed_inf (b < 0))"
| "fmul FNegInf (FVal b) = (if b = 0 then FNaN else signed_inf (0 < b))"
| "fmul FPosInf FPosInf = FPosInf"
| "fmul FNegInf FNegInf = FPosInf"
| "fmul FPosInf FNegInf = FNegInf"
| "fmul FNegInf FPosInf = FNegInf"

fun fdiv :: "float \<Rightarrow> float \<Rightarrow> float" where
  "fdiv (FVal a) (FVal b) =
     (if b = 0 then (if a = 0 then FNaN else signed_inf (a < 0)) else FVal (a / b))"
| "fdiv FNaN _ = FNaN"
| "fdiv _ FNaN = FNaN"
| "fdiv (FVal a) _ = FVal 0"
| "fdiv FPosInf (FVal b) = signed_inf (b < 0)"
| "fdiv FNegInf (FVal b) = signed_inf (0 \<le> b)"
| "fdiv _ _ = FNaN"

text \<open>
  The value of an IEEE 754 binary32 bit pattern, as \<^verbatim>\<open>memcpy\<close> into a \<^verbatim>\<open>float\<close>
  field reads it: sign bit 31, exponent bits 30..23, fraction bits 22..0.
\<close>

definition float_of_bits :: "u32 \<Rightarrow> float" where
  "float_of_bits w =
     (let negative = bit w 31;
          e = unat (drop_bit 23 w AND 0xFF);
          m = unat (w AND 0x7FFFFF);
          sgn = (if negative then - 1 else 1 :: real)
      in if e = 255 then (if m = 0 then signed_inf negative else FNaN)
         else if e = 0 then FVal (sgn * real m / 2 ^ 149)
         else if 150 \<le> e then FVal (sgn * real (2 ^ 23 + m) * 2 ^ (e - 150))
         else FVal (sgn * real (2 ^ 23 + m) / 2 ^ (150 - e)))"

definition SCREEN_WIDTH :: int where "SCREEN_WIDTH = 240"
definition SCREEN_HEIGHT :: int where "SCREEN_HEIGHT = 135"

definition float_of_int :: "int \<Rightarrow> float" where
  "float_of_int i = FVal (of_int i)"

definition PADDLE_WIDTH :: float where "PADDLE_WIDTH = FVal 8"
definition PADDLE_HEIGHT :: float where "PADDLE_HEIGHT = FVal 34"
definition PADDLE_HALF_HEIGHT :: float where
  "PADDLE_HALF_HEIGHT = fmul PADDLE_HEIGHT (FVal (1 / 2))"
definition HOST_PADDLE_X :: float where "HOST_PADDLE_X = FVal 16"
definition CLIENT_PADDLE_X :: float where
  "CLIENT_PADDLE_X = fsub (fsub (float_of_int SCREEN_WIDTH) HOST_PADDLE_X) PADDLE_WIDTH"
definition PADDLE_SPEED :: float where "PADDLE_SPEED = FVal 170"
definition BALL_RADIUS :: float where "BALL_RADIUS = FVal 5"
definition BALL_SPEED_INITIAL :: float where "BALL_SPEED_INITIAL = FVal 170"
definition BALL_SPEED_GROWTH :: float where "BALL_SPEED_GROWTH = FVal (106 / 100)"

text \<open>\<^verbatim>\<open>template <typename T> T clampValue(T value, T minValue, T maxValue)\<close> at \<^verbatim>\<open>float\<close>.\<close>

definition clampValue :: "float \<Rightarrow> float \<Rightarrow> float \<Rightarrow> float" where
  "clampValue v minValue maxValue =
     (if flt v minValue then minValue
      else if fgt v maxValue then maxValue
      else v)"

subsection \<open>Wire packets\<close>

text \<open>
  The packed structs. The leading \<^verbatim>\<open>type\<close> byte of each struct is the constructor
  of \<open>Packet\<close>; a name is the 16 bytes of the \<^verbatim>\<open>char name[16]\<close> array.
\<close>

record StatePacket =
  flags :: u8
  hostScore :: u8
  clientScore :: u8
  frameId :: u32
  ballX :: float
  ballY :: float
  ballVX :: float
  ballVY :: float
  hostPaddleY :: float
  clientPaddleY :: float

datatype Packet =
  JoinPacket "u8 list"
  | JoinAckPacket "u8 list"
  | StartPacket u32
  | PaddlePacket float
  | StatePkt StatePacket

text \<open>\<^verbatim>\<open>sizeof\<close> of the packed structs, by the type byte (0 for an unknown type).\<close>

definition sizeof_JoinPacket :: nat where "sizeof_JoinPacket = 1 + PLAYER_NAME_MAX_LEN"
definition sizeof_JoinAckPacket :: nat where "sizeof_JoinAckPacket = 1 + PLAYER_NAME_MAX_LEN"
definition sizeof_StartPacket :: nat where "sizeof_StartPacket = 1 + 4"
definition sizeof_PaddlePacket :: nat where "sizeof_PaddlePacket = 1 + 4"
definition sizeof_StatePacket :: nat where "sizeof_StatePacket = 1 + 1 + 1 + 1 + 4 + 6 * 4"

text \<open>
  An inbound datagram: its bytes and the source address and port that
  \<^verbatim>\<open>g_udp.remoteIP()\<close> and \<^verbatim>\<open>g_udp.remotePort()\<close> report for it, and the value
  \<^verbatim>\<open>millis()\<close> returns while it is handled.
\<close>

record Datagram =
  d_bytes :: "u8 list"
  d_remoteIP :: u32
  d_remotePort :: u16
  d_millis :: u32

text \<open>A little-endian 32-bit field at offset \<open>i\<close> of the receive buffer.\<close>

definition u32_at :: "u8 list \<Rightarrow> nat \<Rightarrow> u32" where
  "u32_at buf i =
     ucast (buf ! i) OR push_bit 8 (ucast (buf ! (i + 1)))
       OR push_bit 16 (ucast (buf ! (i + 2))) OR push_bit 24 (ucast (buf ! (i + 3)))"

definition float_at :: "u8 list \<Rightarrow> nat \<Rightarrow> float" where
  "float_at buf i = float_of_bits (u32_at buf i)"

text \<open>\<^verbatim>\<open>memcpy(&pkt, buffer, sizeof(StatePacket))\<close>, called with at least 32 bytes.\<close>

definition decode_StatePacket :: "u8 list \<Rightarrow> StatePacket" where
  "decode_StatePacket buf =
     \<lparr> flags = buf ! 1, hostScore = buf ! 2, clientScore = buf ! 3,
       frameId = u32_at buf 4,
       ballX = float_at buf 8, ballY = float_at buf 12,
       ballVX = float_at buf 16, ballVY = float_at buf 20,
       hostPaddleY = float_at buf 24, clientPaddleY = float_at buf 28 \<rparr>"

subsection \<open>The globals\<close>

text \<open>
  The session globals of the program. Left out are the globals of the collaborators
  that the session logic never reads: the Wi-Fi scan list and credentials, the key
  latch, the star field and the confetti. Two fields are added: \<open>udp_sent\<close> lists
  what was written to the socket (destination address, port, packet), newest last,
  and \<open>random_seed\<close> is the last argument of \<^verbatim>\<open>randomSeed\<close>.
\<close>

record globals =
  g_role :: Role
  g_screen :: Screen
  g_screenDirty :: bool
  g_localPlayerName :: string
  g_remotePlayerName :: string
  g_peerIp :: u32
  g_peerPort :: u16
  g_hasPeer :: bool
  g_hostPaddleY :: float
  g_clientPaddleY :: float
  g_ballX :: float
  g_ballY :: float
  g_ballVX :: float
  g_ballVY :: float
  g_hostScore :: u8
  g_clientScore :: u8
  g_matchActive :: bool
  g_waitingForServe :: bool
  g_gameOver :: bool
  g_serveDirection :: int
  g_lastStateSent :: u32
  g_lastPaddleSent :: u32
  g_lastJoinBroadcast :: u32
  g_lastStateReceived :: u32
  g_lastFrameTick :: u32
  g_serveRequestTs :: u32
  g_frameCounter :: u32
  g_errorMessage :: string
  g_gamePaused :: bool
  udp_sent :: "(u32 \<times> u16 \<times> Packet) list"
  random_seed :: u32

text \<open>The initialisers of the global variables.\<close>

definition initial_globals :: globals where
  "initial_globals =
     \<lparr> g_role = RoleNone, g_screen = WifiSelect, g_screenDirty = True,
       g_localPlayerName = ''Player'', g_remotePlayerName = ''Opponent'',
       g_peerIp = 0, g_peerPort = UDP_PORT, g_hasPeer = False,
       g_hostPaddleY = fmul (float_of_int SCREEN_HEIGHT) (FVal (1 / 2)),
       g_clientPaddleY = fmul (float_of_int SCREEN_HEIGHT) (FVal (1 / 2)),
       g_ballX = fmul (float_of_int SCREEN_WIDTH) (FVal (1 / 2)),
       g_ballY = fmul (float_of_int SCREEN_HEIGHT) (FVal (1 / 2)),
       g_ballVX = FVal 0, g_ballVY = FVal 0,
       g_hostScore = 0, g_clientScore = 0,
       g_matchActive = False, g_waitingForServe = False, g_gameOver = False,
       g_serveDirection = 1,
       g_lastStateSent = 0, g_lastPaddleSent = 0, g_lastJoinBroadcast = 0,
       g_lastStateReceived = 0, g_lastFrameTick = 0, g_serveRequestTs = 0,
       g_frameCounter = 0, g_errorMessage = [], g_gamePaused = False,
       udp_sent = [], random_seed = 0 \<rparr>"

subsection \<open>Screen changes\<close>

text \<open>
  \<^verbatim>\<open>onScreenEnter\<close>: of what it does, the session sees the cleared error message;
  the rescan, the password mask, the stars and the confetti are the collaborators'.
\<close>

definition onScreenEnter :: "Screen \<Rightarrow> globals \<Rightarrow> globals" where
  "onScreenEnter screen s =
     (case screen of
        WifiSelect \<Rightarrow> s\<lparr>g_errorMessage := []\<rparr>
      | WifiPassword \<Rightarrow> s\<lparr>g_errorMessage := []\<rparr>
      | NameEntry \<Rightarrow> s\<lparr>g_errorMessage := []\<rparr>
      | _ \<Rightarrow> s)"

definition setScreen :: "Screen \<Rightarrow> globals \<Rightarrow> globals" where
  "setScreen next s =
     (if g_screen s \<noteq> next
      then onScreenEnter next (s\<lparr>g_screen := next, g_screenDirty := True\<rparr>)
      else s)"

subsection \<open>Receiving a State packet\<close>

definition processStatePacket :: "StatePacket \<Rightarrow> u32 \<Rightarrow> globals \<Rightarrow> globals" where
  "processStatePacket packet millis s =
     (let s1 = s\<lparr>g_hostScore := hostScore packet,
                  g_clientScore := clientScore packet,
                  g_ballX := ballX packet,
                  g_ballY := ballY packet,
                  g_ballVX := ballVX packet,
                  g_ballVY := ballVY packet,
                  g_hostPaddleY := hostPaddleY packet,
                  g_clientPaddleY := clientPaddleY packet\<rparr>;
          wasGameOver = g_gameOver s1;
          s2 = s1\<lparr>g_gameOver := (flags packet AND FLAG_GAME_OVER) \<noteq> 0\<rparr>;
          s3 = s2\<lparr>g_waitingForServe := (flags packet AND FLAG_WAITING_SERVE) \<noteq> 0\<rparr>;
          s4 = s3\<lparr>g_gamePaused := (flags packet AND FLAG_PAUSED) \<noteq> 0\<rparr>;
          s5 = s4\<lparr>g_matchActive :=
                    ((flags packet AND FLAG_MATCH_ACTIVE) \<noteq> 0 \<or> g_waitingForServe s4)\<rparr>;
          s6 = (if g_gameOver s5 \<and> \<not> wasGameOver then setScreen GameOver s5
                else if \<not> g_gameOver s5 \<and> g_matchActive s5 \<and> g_screen s5 \<noteq> Playing
                then setScreen Playing s5
                else s5)
      in s6\<lparr>g_lastStateReceived := millis\<rparr>)"

subsection \<open>Names on the wire\<close>

text \<open>
  \<^verbatim>\<open>memset(packet.name, 0, 16); g_localPlayerName.toCharArray(packet.name, 16)\<close>:
  at most 15 characters, then zero bytes up to 16.
\<close>

definition name_to_wire :: "string \<Rightarrow> u8 list" where
  "name_to_wire name =
     (let cs = take (PLAYER_NAME_MAX_LEN - 1) (map of_char name)
      in cs @ replicate (PLAYER_NAME_MAX_LEN - length cs) 0)"

definition isspace :: "char \<Rightarrow> bool" where
  "isspace c = (c = CHR '' '' \<or> (9 \<le> (of_char c :: nat) \<and> (of_char c :: nat) \<le> 13))"

text \<open>\<^verbatim>\<open>String::trim\<close>: white space removed at both ends.\<close>

definition trim :: "string \<Rightarrow> string" where
  "trim str = rev (dropWhile isspace (rev (dropWhile isspace str)))"

text \<open>
  The received name: bytes 1..16 of the buffer with the last one overwritten by
  \<^verbatim>\<open>'\0'\<close>, read as a C string (up to the first zero byte).
\<close>

definition wire_to_cstring :: "u8 list \<Rightarrow> string" where
  "wire_to_cstring buf =
     map (\<lambda>b. char_of (unat b)) (takeWhile (\<lambda>b. b \<noteq> 0) (take (PLAYER_NAME_MAX_LEN - 1) (drop 1 buf)))"

definition setRemotePlayerName :: "string \<Rightarrow> globals \<Rightarrow> globals" where
  "setRemotePlayerName name s =
     (if name = []
      then s\<lparr>g_remotePlayerName := (if g_role s = Host then ''Challenger'' else ''Host'')\<rparr>
      else let candidate = trim name
           in if candidate = []
              then s\<lparr>g_remotePlayerName :=
                       (if g_role s = Host then ''Challenger'' else ''Host'')\<rparr>
              else s\<lparr>g_remotePlayerName := candidate\<rparr>)"

subsection \<open>Match state helpers\<close>

definition nextRandomSeed :: "u32 \<Rightarrow> u32 \<Rightarrow> u32" where
  "nextRandomSeed millis micros = millis XOR push_bit 8 micros"

definition centerBallStationary :: "globals \<Rightarrow> globals" where
  "centerBallStationary s =
     s\<lparr>g_ballX := fmul (float_of_int SCREEN_WIDTH) (FVal (1 / 2)),
       g_ballY := fmul (float_of_int SCREEN_HEIGHT) (FVal (1 / 2)),
       g_ballVX := FVal 0,
       g_ballVY := FVal 0\<rparr>"

definition prepareServe :: "int \<Rightarrow> u32 \<Rightarrow> globals \<Rightarrow> globals" where
  "prepareServe direction millis s =
     centerBallStationary
       (s\<lparr>g_serveDirection := direction,
          g_waitingForServe := True,
          g_matchActive := True,
          g_serveRequestTs := millis\<rparr>)"

text \<open>\<open>r\<close> is what \<^verbatim>\<open>random(-60, 61)\<close> returns.\<close>

definition launchBall :: "int \<Rightarrow> globals \<Rightarrow> globals" where
  "launchBall r s =
     (let speed = BALL_SPEED_INITIAL;
          arc = fdiv (float_of_int r) (FVal 100)
      in s\<lparr>g_waitingForServe := False,
            g_ballVX := fmul speed (float_of_int (g_serveDirection s)),
            g_ballVY := fmul (fmul speed (FVal (6 / 10))) arc\<rparr>)"

definition resetPaddles :: "globals \<Rightarrow> globals" where
  "resetPaddles s =
     s\<lparr>g_hostPaddleY := fmul (float_of_int SCREEN_HEIGHT) (FVal (1 / 2)),
       g_clientPaddleY := fmul (float_of_int SCREEN_HEIGHT) (FVal (1 / 2))\<rparr>"

definition resetMatchState :: "globals \<Rightarrow> globals" where
  "resetMatchState s =
     centerBallStationary
       (resetPaddles
          (s\<lparr>g_hostScore := 0,
             g_clientScore := 0,
             g_gameOver := False,
             g_matchActive := False,
             g_waitingForServe := False,
             g_gamePaused := False,
             g_frameCounter := 0\<rparr>))"

subsection \<open>Sending\<close>

definition udp_write :: "u32 \<Rightarrow> u16 \<Rightarrow> Packet \<Rightarrow> globals \<Rightarrow> globals" where
  "udp_write ip port packet s = s\<lparr>udp_sent := udp_sent s @ [(ip, port, packet)]\<rparr>"

definition sendJoinBroadcast :: "globals \<Rightarrow> globals" where
  "sendJoinBroadcast s =
     udp_write 0xFFFFFFFF UDP_PORT (JoinPacket (name_to_wire (g_localPlayerName s))) s"

definition sendJoinAck :: "globals \<Rightarrow> globals" where
  "sendJoinAck s =
     (if \<not> g_hasPeer s then s
      else udp_write (g_peerIp s) (g_peerPort s)
             (JoinAckPacket (name_to_wire (g_localPlayerName s))) s)"

definition sendStartPacket :: "u32 \<Rightarrow> globals \<Rightarrow> globals" where
  "sendStartPacket seed s =
     (if \<not> g_hasPeer s then s
      else udp_write (g_peerIp s) (g_peerPort s) (StartPacket seed) s)"

text \<open>The flags byte that \<^verbatim>\<open>sendStatePacket\<close> builds with \<^verbatim>\<open>|=\<close>.\<close>

definition state_flags :: "globals \<Rightarrow> u8" where
  "state_flags s =
     (let f0 = 0;
          f1 = (if g_matchActive s then f0 OR FLAG_MATCH_ACTIVE else f0);
          f2 = (if g_waitingForServe s then f1 OR FLAG_WAITING_SERVE else f1);
          f3 = (if g_gameOver s then f2 OR FLAG_GAME_OVER else f2)
      in if g_gamePaused s then f3 OR FLAG_PAUSED else f3)"

definition sendStatePacket :: "u32 \<Rightarrow> globals \<Rightarrow> globals" where
  "sendStatePacket millis s =
     (if \<not> g_hasPeer s \<or> g_role s \<noteq> Host then s
      else let s1 = s\<lparr>g_frameCounter := g_frameCounter s + 1\<rparr>;
               packet = \<lparr> flags = state_flags s1,
                          hostScore = g_hostScore s1,
                          clientScore = g_clientScore s1,
                          frameId = g_frameCounter s1,
                          ballX = g_ballX s1, ballY = g_ballY s1,
                          ballVX = g_ballVX s1, ballVY = g_ballVY s1,
                          hostPaddleY = g_hostPaddleY s1,
                          clientPaddleY = g_clientPaddleY s1 \<rparr>
           in (udp_write (g_peerIp s1) (g_peerPort s1) (StatePkt packet) s1)
                \<lparr>g_lastStateSent := millis\<rparr>)"

definition sendPaddlePacket :: "u32 \<Rightarrow> globals \<Rightarrow> globals" where
  "sendPaddlePacket millis s =
     (if \<not> g_hasPeer s \<or> g_role s \<noteq> Client then s
      else (udp_write (g_peerIp s) (g_peerPort s) (PaddlePacket (g_clientPaddleY s)) s)
             \<lparr>g_lastPaddleSent := millis\<rparr>)"

definition markGameOver :: "u32 \<Rightarrow> globals \<Rightarrow> globals" where
  "markGameOver millis s =
     (let s1 = centerBallStationary
                 (s\<lparr>g_gameOver := True, g_matchActive := False,
                    g_waitingForServe := False\<rparr>);
          s2 = (if g_role s1 = Host then sendStatePacket millis s1 else s1)
      in setScreen GameOver s2)"

subsection \<open>Starting a match\<close>

definition hostStartMatch :: "u32 \<Rightarrow> u32 \<Rightarrow> globals \<Rightarrow> globals" where
  "hostStartMatch seed millis s =
     sendStatePacket millis
       (setScreen Playing
          (prepareServe 1 millis
             (resetMatchState (s\<lparr>random_seed := seed\<rparr>))))"

definition clientStartMatch :: "u32 \<Rightarrow> globals \<Rightarrow> globals" where
  "clientStartMatch seed s =
     setScreen Playing
       ((resetMatchState (s\<lparr>random_seed := seed\<rparr>))
          \<lparr>g_waitingForServe := True, g_matchActive := True, g_serveDirection := 1\<rparr>)"

subsection \<open>Receiving\<close>

text \<open>
  One turn of the \<^verbatim>\<open>while\<close> loop of \<^verbatim>\<open>processNetwork\<close>, for a datagram of
  \<open>packetSize > 0\<close> bytes. \<^verbatim>\<open>g_udp.read(buffer, packetSize)\<close> fills the buffer with
  the datagram and returns its length.
\<close>

definition processDatagram :: "Datagram \<Rightarrow> globals \<Rightarrow> globals" where
  "processDatagram d s =
     (let packetSize = length (d_bytes d) in
      if packetSize > 128 then s
      else
        let buffer = d_bytes d; len = length buffer in
        if len \<le> 0 then s
        else
          let type = buffer ! 0 in
          if type = 1 then
            (if len \<ge> sizeof_JoinPacket \<and> g_role s = Host \<and> g_screen s = HostWaiting
             then let s1 = setRemotePlayerName (wire_to_cstring buffer) s;
                      s2 = s1\<lparr>g_peerIp := d_remoteIP d, g_peerPort := d_remotePort d,
                              g_hasPeer := True\<rparr>
                  in setScreen Lobby (resetMatchState (sendJoinAck s2))
             else s)
          else if type = 2 then
            (if len \<ge> sizeof_JoinAckPacket \<and> g_role s = Client
                  \<and> g_screen s = ClientSearching
             then let s1 = setRemotePlayerName (wire_to_cstring buffer) s;
                      s2 = s1\<lparr>g_peerIp := d_remoteIP d, g_peerPort := d_remotePort d,
                              g_hasPeer := True\<rparr>
                  in setScreen Lobby (resetMatchState s2)
             else s)
          else if type = 5 then
            (if len \<ge> sizeof_StartPacket
             then if g_role s = Host then hostStartMatch (u32_at buffer 1) (d_millis d) s
                  else clientStartMatch (u32_at buffer 1) s
             else s)
          else if type = 3 then
            (if len \<ge> sizeof_StatePacket \<and> g_role s = Client
             then processStatePacket (decode_StatePacket buffer) (d_millis d) s
             else s)
          else if type = 4 then
            (if len \<ge> sizeof_PaddlePacket \<and> g_role s = Host \<and> g_hasPeer s
             then s\<lparr>g_clientPaddleY :=
                      clampValue (float_at buffer 1) PADDLE_HALF_HEIGHT
                        (fsub (float_of_int SCREEN_HEIGHT) PADDLE_HALF_HEIGHT)\<rparr>
             else s)
          else s)"

text \<open>
  \<^verbatim>\<open>while ((packetSize = g_udp.parsePacket()) > 0)\<close>: the argument lists the
  datagrams that \<^verbatim>\<open>parsePacket\<close> delivers in this call; the loop ends when none is
  pending or when the size reported is 0.
\<close>

fun processNetwork :: "Datagram list \<Rightarrow> globals \<Rightarrow> globals" where
  "processNetwork [] s = s"
| "processNetwork (d # ds) s =
     (if length (d_bytes d) > 0 then processNetwork ds (processDatagram d s) else s)"

subsection \<open>Game logic\<close>

definition handleConnectionTimeout :: "u32 \<Rightarrow> globals \<Rightarrow> globals" where
  "handleConnectionTimeout now s =
     (if \<not> g_hasPeer s then s
      else if g_role s = Client \<and> screen_index (g_screen s) \<ge> screen_index Playing
      then (if now - g_lastStateReceived s > CONNECTION_TIMEOUT_MS
            then (setScreen Error (s\<lparr>g_errorMessage := ''Lost connection to host.''\<rparr>))
                   \<lparr>g_hasPeer := False\<rparr>
            else s)
      else s)"

definition checkForServeLaunch :: "u32 \<Rightarrow> int \<Rightarrow> globals \<Rightarrow> globals" where
  "checkForServeLaunch millis r s =
     (if g_waitingForServe s
      then (if millis - g_serveRequestTs s \<ge> SERVE_DELAY_MS then launchBall r s else s)
      else s)"

subsection \<open>What one frame reads from its surroundings\<close>

datatype ConnectResult = Connected | NoSsidSelected | ConnectTimeout

text \<open>
  The inputs of one call of \<^verbatim>\<open>loop()\<close>:
  \<^item> the datagrams pending on the socket;
  \<^item> three readings of the clock, in the order in which the frame takes them:
    \<open>in_millis_timeout\<close> is what \<^verbatim>\<open>millis()\<close> returns in \<^verbatim>\<open>handleConnectionTimeout\<close>,
    \<open>in_millis\<close> is the value \<^verbatim>\<open>now\<close> that \<^verbatim>\<open>loop()\<close> reads next, and
    \<open>in_millis_later\<close> is what \<^verbatim>\<open>millis()\<close> returns to the calls made inside the
    case of the screen (serve request, serve launch, send stamps, seed); no relation
    between the three is assumed. \<open>in_micros\<close> is what \<^verbatim>\<open>micros()\<close> returns and
    \<open>in_random\<close> what \<^verbatim>\<open>random(-60, 61)\<close> returns;
  \<^item> \<open>held_semicolon\<close>, \<open>held_dot\<close>: what \<^verbatim>\<open>cardKeyPressed\<close> answers for the two
    paddle keys; \<open>jp_\<dots>\<close>: what \<^verbatim>\<open>cardKeyJustPressed\<close> answers for each key the
    frame may ask about (the latch that makes these edge-triggered belongs to the
    input collaborator); \<open>keys_fn\<close>, \<open>kb_\<dots>\<close>: the keyboard state;
  \<^item> \<open>wifi_\<dots>\<close>, \<open>udp_begin_ok\<close>: the answers of the Wi-Fi driver, of the scan list
    kept by the Wi-Fi menu, and of \<^verbatim>\<open>g_udp.begin\<close>.
\<close>

record Inputs =
  in_datagrams :: "Datagram list"
  in_millis_timeout :: u32
  in_millis :: u32
  in_millis_later :: u32
  in_micros :: u32
  in_random :: int
  held_semicolon :: bool
  held_dot :: bool
  jp_semicolon :: bool
  jp_dot :: bool
  jp_R :: bool
  jp_Q :: bool
  jp_enter :: bool
  jp_tab :: bool
  jp_H :: bool
  jp_J :: bool
  jp_space :: bool
  jp_esc :: bool
  keys_fn :: bool
  kb_isChange :: bool
  kb_isPressed :: bool
  kb_del :: bool
  kb_word :: string
  wifi_connected :: bool
  wifi_connect :: ConnectResult
  wifi_list_nonempty :: bool
  wifi_can_move_up :: bool
  wifi_can_move_down :: bool
  wifi_selected_manual :: bool
  wifi_password_changed :: bool
  udp_begin_ok :: bool

subsection \<open>Host and client gameplay\<close>

text \<open>The blocks of \<^verbatim>\<open>updateHostGameplay\<close>, in the order of the source.\<close>

definition host_move_paddle :: "float \<Rightarrow> Inputs \<Rightarrow> globals \<Rightarrow> globals" where
  "host_move_paddle dtSeconds inp s =
     (let s1 = (if held_semicolon inp
                then s\<lparr>g_hostPaddleY := fsub (g_hostPaddleY s) (fmul PADDLE_SPEED dtSeconds)\<rparr>
                else s);
          s2 = (if held_dot inp
                then s1\<lparr>g_hostPaddleY := fadd (g_hostPaddleY s1) (fmul PADDLE_SPEED dtSeconds)\<rparr>
                else s1)
      in s2\<lparr>g_hostPaddleY :=
              clampValue (g_hostPaddleY s2) PADDLE_HALF_HEIGHT
                (fsub (float_of_int SCREEN_HEIGHT) PADDLE_HALF_HEIGHT)\<rparr>)"

definition ball_integrate :: "float \<Rightarrow> globals \<Rightarrow> globals" where
  "ball_integrate dtSeconds s =
     (let s1 = s\<lparr>g_ballX := fadd (g_ballX s) (fmul (g_ballVX s) dtSeconds)\<rparr>
      in s1\<lparr>g_ballY := fadd (g_ballY s1) (fmul (g_ballVY s1) dtSeconds)\<rparr>)"

definition ball_walls :: "globals \<Rightarrow> globals" where
  "ball_walls s =
     (let s1 = (if fle (fsub (g_ballY s) BALL_RADIUS) (float_of_int 0)
                then s\<lparr>g_ballY := BALL_RADIUS, g_ballVY := fneg (g_ballVY s)\<rparr>
                else s)
      in if fge (fadd (g_ballY s1) BALL_RADIUS) (float_of_int SCREEN_HEIGHT)
         then s1\<lparr>g_ballY := fsub (float_of_int SCREEN_HEIGHT) BALL_RADIUS,
                 g_ballVY := fneg (g_ballVY s1)\<rparr>
         else s1)"

definition host_paddle_collision :: "globals \<Rightarrow> globals" where
  "host_paddle_collision s =
     (if flt (g_ballVX s) (float_of_int 0)
      then let paddleLeft = HOST_PADDLE_X;
               paddleRight = fadd HOST_PADDLE_X PADDLE_WIDTH
           in if fle (fsub (g_ballX s) BALL_RADIUS) paddleRight
                 \<and> fge (fsub (g_ballX s) BALL_RADIUS) paddleLeft
              then if fge (g_ballY s) (fsub (g_hostPaddleY s) PADDLE_HALF_HEIGHT)
                      \<and> fle (g_ballY s) (fadd (g_hostPaddleY s) PADDLE_HALF_HEIGHT)
                   then let s1 = s\<lparr>g_ballX := fadd paddleRight BALL_RADIUS,
                                     g_ballVX := fmul (fabsf (g_ballVX s)) BALL_SPEED_GROWTH\<rparr>;
                            offset = fdiv (fsub (g_ballY s1) (g_hostPaddleY s1))
                                       PADDLE_HALF_HEIGHT
                        in s1\<lparr>g_ballVY := fadd (g_ballVY s1) (fmul offset (FVal 45))\<rparr>
                   else s
              else s
      else s)"

definition client_paddle_collision :: "globals \<Rightarrow> globals" where
  "client_paddle_collision s =
     (if fgt (g_ballVX s) (float_of_int 0)
      then let paddleLeft = CLIENT_PADDLE_X;
               paddleRight = fadd CLIENT_PADDLE_X PADDLE_WIDTH
           in if fge (fadd (g_ballX s) BALL_RADIUS) paddleLeft
                 \<and> fle (fadd (g_ballX s) BALL_RADIUS) paddleRight
              then if fge (g_ballY s) (fsub (g_clientPaddleY s) PADDLE_HALF_HEIGHT)
                      \<and> fle (g_ballY s) (fadd (g_clientPaddleY s) PADDLE_HALF_HEIGHT)
                   then let s1 = s\<lparr>g_ballX := fsub paddleLeft BALL_RADIUS,
                                     g_ballVX :=
                                       fmul (fneg (fabsf (g_ballVX s))) BALL_SPEED_GROWTH\<rparr>;
                            offset = fdiv (fsub (g_ballY s1) (g_clientPaddleY s1))
                                       PADDLE_HALF_HEIGHT
                        in s1\<lparr>g_ballVY := fadd (g_ballVY s1) (fmul offset (FVal 45))\<rparr>
                   else s
              else s
      else s)"

definition host_scoring :: "u32 \<Rightarrow> globals \<Rightarrow> globals" where
  "host_scoring millis s =
     (if flt (fadd (g_ballX s) BALL_RADIUS) (float_of_int 0)
      then let s1 = s\<lparr>g_clientScore := g_clientScore s + 1\<rparr>
           in if g_clientScore s1 \<ge> MAX_SCORE then markGameOver millis s1
              else prepareServe 1 millis s1
      else if fgt (fsub (g_ballX s) BALL_RADIUS) (float_of_int SCREEN_WIDTH)
      then let s1 = s\<lparr>g_hostScore := g_hostScore s + 1\<rparr>
           in if g_hostScore s1 \<ge> MAX_SCORE then markGameOver millis s1
              else prepareServe (- 1) millis s1
      else s)"

definition updateHostGameplay :: "float \<Rightarrow> Inputs \<Rightarrow> globals \<Rightarrow> globals" where
  "updateHostGameplay dtSeconds inp s =
     (if \<not> g_matchActive s \<and> \<not> g_waitingForServe s then s
      else let s1 = host_move_paddle dtSeconds inp s;
               s2 = checkForServeLaunch (in_millis_later inp) (in_random inp) s1
           in if g_waitingForServe s2 then s2
              else host_scoring (in_millis_later inp)
                     (client_paddle_collision
                        (host_paddle_collision
                           (ball_walls (ball_integrate dtSeconds s2)))))"

definition updateClientGameplay :: "float \<Rightarrow> Inputs \<Rightarrow> globals \<Rightarrow> globals" where
  "updateClientGameplay dtSeconds inp s =
     (if \<not> g_hasPeer s then s
      else let s1 = (if held_semicolon inp
                     then s\<lparr>g_clientPaddleY :=
                              fsub (g_clientPaddleY s) (fmul PADDLE_SPEED dtSeconds)\<rparr>
                     else s);
               s2 = (if held_dot inp
                     then s1\<lparr>g_clientPaddleY :=
                               fadd (g_clientPaddleY s1) (fmul PADDLE_SPEED dtSeconds)\<rparr>
                     else s1);
               moved = (held_semicolon inp \<or> held_dot inp);
               s3 = s2\<lparr>g_clientPaddleY :=
                         clampValue (g_clientPaddleY s2) PADDLE_HALF_HEIGHT
                           (fsub (float_of_int SCREEN_HEIGHT) PADDLE_HALF_HEIGHT)\<rparr>;
               now = in_millis_later inp
           in if moved \<or> now - g_lastPaddleSent s3 > PADDLE_SEND_INTERVAL_MS
              then sendPaddlePacket (in_millis_later inp) s3
              else s3)"

subsection \<open>Session setup\<close>

text \<open>
  \<^verbatim>\<open>connectToWiFi\<close>: the driver's answer decides the result; the session sees the
  error message and the returned flag.
\<close>

definition connectToWiFi :: "ConnectResult \<Rightarrow> globals \<Rightarrow> bool \<times> globals" where
  "connectToWiFi r s =
     (let s1 = s\<lparr>g_errorMessage := []\<rparr>
      in case r of
           NoSsidSelected \<Rightarrow> (False, s1\<lparr>g_errorMessage := ''No SSID selected.''\<rparr>)
         | ConnectTimeout \<Rightarrow> (False, s1\<lparr>g_errorMessage := ''WiFi connect timeout.''\<rparr>)
         | Connected \<Rightarrow> (True, s1))"

definition resetUdp :: "bool \<Rightarrow> globals \<Rightarrow> bool \<times> globals" where
  "resetUdp begin_ok s =
     (if \<not> begin_ok
      then (False, setScreen Error (s\<lparr>g_errorMessage := ''UDP bind failed.''\<rparr>))
      else (True, s))"

definition resetToMainMenu :: "globals \<Rightarrow> globals" where
  "resetToMainMenu s =
     setScreen RoleSelect
       ((resetMatchState
           (s\<lparr>g_hasPeer := False, g_peerIp := 0, g_peerPort := UDP_PORT,
              g_role := RoleNone\<rparr>))
          \<lparr>g_remotePlayerName := ''Opponent''\<rparr>)"

text \<open>\<^verbatim>\<open>scanAvailableNetworks\<close> leaves \<^verbatim>\<open>g_screenDirty\<close> set.\<close>

definition resetToWifiSetup :: "globals \<Rightarrow> globals" where
  "resetToWifiSetup s =
     setScreen WifiSelect
       ((resetMatchState
           (s\<lparr>g_hasPeer := False, g_peerIp := 0, g_peerPort := UDP_PORT,
              g_role := RoleNone\<rparr>))
          \<lparr>g_remotePlayerName := ''Opponent'', g_screenDirty := True\<rparr>)"

definition startHosting :: "bool \<Rightarrow> globals \<Rightarrow> globals" where
  "startHosting begin_ok s =
     (case resetUdp begin_ok s of
        (False, s1) \<Rightarrow> s1
      | (True, s1) \<Rightarrow>
          setScreen HostWaiting
            ((resetMatchState (s1\<lparr>g_role := Host, g_hasPeer := False\<rparr>))
               \<lparr>g_remotePlayerName := ''Opponent''\<rparr>))"

definition startJoining :: "bool \<Rightarrow> globals \<Rightarrow> globals" where
  "startJoining begin_ok s =
     (case resetUdp begin_ok s of
        (False, s1) \<Rightarrow> s1
      | (True, s1) \<Rightarrow>
          setScreen ClientSearching
            ((resetMatchState (s1\<lparr>g_role := Client, g_hasPeer := False\<rparr>))
               \<lparr>g_lastJoinBroadcast := 0, g_remotePlayerName := ''Host''\<rparr>))"

text \<open>
  \<^verbatim>\<open>handleTextInput(buffer, maxLength)\<close> with \<^verbatim>\<open>allowSpaces = true\<close>. The loop over
  the typed characters skips control characters and stops when the buffer is full.
\<close>

fun append_typed :: "nat \<Rightarrow> string \<Rightarrow> string \<Rightarrow> string" where
  "append_typed maxLength [] buffer = buffer"
| "append_typed maxLength (c # cs) buffer =
     (if (of_char c :: nat) < 32 then append_typed maxLength cs buffer
      else if length buffer \<ge> maxLength then buffer
      else append_typed maxLength cs (buffer @ [c]))"

definition handleTextInput :: "Inputs \<Rightarrow> nat \<Rightarrow> string \<Rightarrow> string" where
  "handleTextInput inp maxLength buffer =
     (if \<not> kb_isChange inp then buffer
      else if \<not> kb_isPressed inp then buffer
      else let b1 = (if kb_del inp \<and> buffer \<noteq> [] then butlast buffer else buffer)
           in append_typed maxLength (kb_word inp) b1)"

subsection \<open>The main loop\<close>

text \<open>The cases of the \<^verbatim>\<open>switch (g_screen)\<close> of \<^verbatim>\<open>loop()\<close>, one definition each.\<close>

definition loop_WifiSelect :: "Inputs \<Rightarrow> globals \<Rightarrow> globals" where
  "loop_WifiSelect inp s =
     (let s1 = (if wifi_list_nonempty inp \<and> jp_semicolon inp \<and> wifi_can_move_up inp
                then s\<lparr>g_screenDirty := True, g_errorMessage := []\<rparr> else s);
          s2 = (if wifi_list_nonempty inp \<and> jp_dot inp \<and> wifi_can_move_down inp
                then s1\<lparr>g_screenDirty := True, g_errorMessage := []\<rparr> else s1);
          s3 = (if jp_R inp then s2\<lparr>g_errorMessage := [], g_screenDirty := True\<rparr> else s2);
          s4 = (if jp_Q inp
                then (if wifi_connected inp
                      then setScreen NameEntry (s3\<lparr>g_errorMessage := []\<rparr>)
                      else s3\<lparr>g_errorMessage := ''Connect to WiFi first.'',
                              g_screenDirty := True\<rparr>)
                else s3)
      in if jp_enter inp \<and> wifi_list_nonempty inp
         then (if wifi_selected_manual inp
               then s4\<lparr>g_errorMessage := ''No WiFi networks found.'', g_screenDirty := True\<rparr>
               else setScreen WifiPassword (s4\<lparr>g_errorMessage := []\<rparr>))
         else s4)"

definition loop_WifiPassword :: "Inputs \<Rightarrow> globals \<Rightarrow> globals" where
  "loop_WifiPassword inp s =
     (let s1 = (if wifi_password_changed inp then s\<lparr>g_screenDirty := True\<rparr> else s);
          s2 = (if jp_tab inp \<and> keys_fn inp then s1\<lparr>g_screenDirty := True\<rparr> else s1)
      in if jp_Q inp then setScreen WifiSelect s2
         else if jp_enter inp
         then (case connectToWiFi (wifi_connect inp) s2 of
                 (True, s3) \<Rightarrow> setScreen NameEntry (s3\<lparr>g_errorMessage := []\<rparr>)
               | (False, s3) \<Rightarrow> s3\<lparr>g_screenDirty := True\<rparr>)
         else s2)"

definition loop_NameEntry :: "Inputs \<Rightarrow> globals \<Rightarrow> globals" where
  "loop_NameEntry inp s =
     (let previousName = g_localPlayerName s;
          s1 = s\<lparr>g_localPlayerName :=
                   handleTextInput inp PLAYER_NAME_MAX_LEN (g_localPlayerName s)\<rparr>;
          s2 = (if previousName \<noteq> g_localPlayerName s1
                then s1\<lparr>g_screenDirty := True\<rparr> else s1)
      in if jp_Q inp \<and> keys_fn inp then resetToWifiSetup s2
         else if jp_enter inp
         then let trimmed0 = trim (g_localPlayerName s2);
                  trimmed = (if trimmed0 = [] then ''Player'' else trimmed0)
              in setScreen RoleSelect (s2\<lparr>g_localPlayerName := trimmed\<rparr>)
         else s2)"

definition loop_RoleSelect :: "Inputs \<Rightarrow> globals \<Rightarrow> globals" where
  "loop_RoleSelect inp s =
     (if jp_H inp then startHosting (udp_begin_ok inp) s
      else if jp_J inp then startJoining (udp_begin_ok inp) s
      else if jp_Q inp \<and> keys_fn inp then resetToWifiSetup s
      else s)"

definition loop_HostWaiting :: "Inputs \<Rightarrow> globals \<Rightarrow> globals" where
  "loop_HostWaiting inp s = (if jp_Q inp then resetToMainMenu s else s)"

definition loop_ClientSearching :: "u32 \<Rightarrow> Inputs \<Rightarrow> globals \<Rightarrow> globals" where
  "loop_ClientSearching now inp s =
     (if jp_Q inp then resetToMainMenu s
      else if now - g_lastJoinBroadcast s > JOIN_BROADCAST_INTERVAL_MS
      then (sendJoinBroadcast s)\<lparr>g_lastJoinBroadcast := now\<rparr>
      else s)"

text \<open>The same code serves \<^verbatim>\<open>case Screen::Lobby\<close> and, for a rematch, \<^verbatim>\<open>case Screen::GameOver\<close>.\<close>

definition loop_Lobby :: "Inputs \<Rightarrow> globals \<Rightarrow> globals" where
  "loop_Lobby inp s =
     (if jp_Q inp then resetToMainMenu s
      else if g_role s = Host \<and> jp_space inp
      then let seed = nextRandomSeed (in_millis_later inp) (in_micros inp)
           in hostStartMatch seed (in_millis_later inp) (sendStartPacket seed s)
      else s)"

definition loop_Playing :: "u32 \<Rightarrow> float \<Rightarrow> Inputs \<Rightarrow> globals \<Rightarrow> globals" where
  "loop_Playing now dt inp s =
     (let escJustPressed = jp_esc inp;
          s1 = (if escJustPressed \<and> g_role s = Host
                then s\<lparr>g_gamePaused := \<not> g_gamePaused s\<rparr> else s);
          s2 = (if g_role s1 = Host
                then let s1a = (if \<not> g_gamePaused s1 then updateHostGameplay dt inp s1
                                else s1)
                     in if escJustPressed \<or> now - g_lastStateSent s1a > STATE_SEND_INTERVAL_MS
                        then sendStatePacket (in_millis_later inp) s1a
                        else s1a
                else if \<not> g_gamePaused s1 then updateClientGameplay dt inp s1
                else s1)
      in if jp_Q inp then resetToMainMenu s2 else s2)"

definition loop_GameOver :: "Inputs \<Rightarrow> globals \<Rightarrow> globals" where
  "loop_GameOver inp s =
     (if jp_Q inp then resetToMainMenu s
      else if g_role s = Host \<and> jp_space inp
      then let seed = nextRandomSeed (in_millis_later inp) (in_micros inp)
           in hostStartMatch seed (in_millis_later inp) (sendStartPacket seed s)
      else s)"

definition loop_Error :: "Inputs \<Rightarrow> globals \<Rightarrow> globals" where
  "loop_Error inp s = (if jp_Q inp then resetToMainMenu s else s)"

text \<open>
  \<^verbatim>\<open>loop()\<close>: drain the socket, check the timeout, run the case of the current
  screen, and redraw a static screen (which clears \<^verbatim>\<open>g_screenDirty\<close>).
\<close>

definition loop :: "Inputs \<Rightarrow> globals \<Rightarrow> globals" where
  "loop inp s =
     (let s1 = processNetwork (in_datagrams inp) s;
          s2 = handleConnectionTimeout (in_millis_timeout inp) s1;
          now = in_millis inp;
          dt = fdiv (float_of_int (uint (now - g_lastFrameTick s2))) (FVal 1000);
          s3 = s2\<lparr>g_lastFrameTick := now\<rparr>;
          s4 = (case g_screen s3 of
                  WifiSelect \<Rightarrow> loop_WifiSelect inp s3
                | WifiPassword \<Rightarrow> loop_WifiPassword inp s3
                | NameEntry \<Rightarrow> loop_NameEntry inp s3
                | RoleSelect \<Rightarrow> loop_RoleSelect inp s3
                | HostWaiting \<Rightarrow> loop_HostWaiting inp s3
                | ClientSearching \<Rightarrow> loop_ClientSearching now inp s3
                | Lobby \<Rightarrow> loop_Lobby inp s3
                | Playing \<Rightarrow> loop_Playing now dt inp s3
                | GameOver \<Rightarrow> loop_GameOver inp s3
                | Error \<Rightarrow> loop_Error inp s3)
      in if g_screen s4 \<noteq> Playing \<and> g_screenDirty s4
         then s4\<lparr>g_screenDirty := False\<rparr>
         else s4)"

text \<open>
  The Arduino entry point \<^verbatim>\<open>void setup()\<close>: \<open>stored\<close> says whether a stored SSID was loaded, \<open>r\<close> is the
  driver's answer to the connection attempt made in that case.
\<close>

definition arduino_setup :: "bool \<Rightarrow> ConnectResult \<Rightarrow> u32 \<Rightarrow> globals \<Rightarrow> globals" where
  "arduino_setup stored r millis s =
     (let s1 = onScreenEnter (g_screen s) (s\<lparr>g_screenDirty := True\<rparr>);
          s2 = (if stored
                then (case connectToWiFi r s1 of
                        (True, s1a) \<Rightarrow> setScreen NameEntry (s1a\<lparr>g_errorMessage := []\<rparr>)
                      | (False, s1a) \<Rightarrow>
                          setScreen WifiSelect
                            (s1a\<lparr>g_errorMessage := ''Auto-connect failed.''\<rparr>))
                else s1)
      in s2\<lparr>g_screenDirty := False, g_lastFrameTick := millis\<rparr>)"

text \<open>
  A session: \<^verbatim>\<open>loop()\<close> called once per frame, each frame with its own inputs. The
  reachable states are \<open>run inps (arduino_setup stored r millis initial_globals)\<close>.
\<close>

fun run :: "Inputs list \<Rightarrow> globals \<Rightarrow> globals" where
  "run [] s = s"
| "run (inp # inps) s = run inps (loop inp s)"

subsection \<open>Vocabulary of the specification\<close>

text \<open>
  The fields the specification calls MatchState: the two scores, the ball (position
  and velocity), the two paddles, and the flags matchActive, waitingForServe,
  gameOver, paused.
\<close>

definition match_state ::
  "globals \<Rightarrow> (u8 \<times> u8) \<times> (float \<times> float \<times> float \<times> float) \<times> (float \<times> float)
     \<times> (bool \<times> bool \<times> bool \<times> bool)" where
  "match_state s =
     ((g_hostScore s, g_clientScore s),
      (g_ballX s, g_ballY s, g_ballVX s, g_ballVY s),
      (g_hostPaddleY s, g_clientPaddleY s),
      (g_matchActive s, g_waitingForServe s, g_gameOver s, g_gamePaused s))"

text \<open>The size that the receive path requires of a datagram whose first byte is \<open>t\<close>.\<close>

definition required_size :: "u8 \<Rightarrow> nat" where
  "required_size t =
     (if t = 1 then sizeof_JoinPacket
      else if t = 2 then sizeof_JoinAckPacket
      else if t = 5 then sizeof_StartPacket
      else if t = 3 then sizeof_StatePacket
      else if t = 4 then sizeof_PaddlePacket
      else 0)"

text \<open>A datagram that the receive path applies as a Start packet.\<close>

definition is_Start :: "Datagram \<Rightarrow> bool" where
  "is_Start d =
     (d_bytes d \<noteq> [] \<and> d_bytes d ! 0 = 5 \<and> sizeof_StartPacket \<le> length (d_bytes d)
      \<and> length (d_bytes d) \<le> 128)"

text \<open>
  The datagrams of a frame that \<open>processNetwork\<close> handles: those before the first
  report of size 0.
\<close>

definition handled_datagrams :: "Datagram list \<Rightarrow> Datagram list" where
  "handled_datagrams ds = takeWhile (\<lambda>d. length (d_bytes d) > 0) ds"

text \<open>A datagram that a client's receive path applies as a State packet.\<close>

definition is_State :: "Datagram \<Rightarrow> bool" where
  "is_State d =
     (d_bytes d \<noteq> [] \<and> d_bytes d ! 0 = 3 \<and> sizeof_StatePacket \<le> length (d_bytes d)
      \<and> length (d_bytes d) \<le> 128)"

text \<open>A datagram that the receive path of a host with a linked peer applies as a Paddle packet.\<close>

definition is_Paddle :: "Datagram \<Rightarrow> bool" where
  "is_Paddle d =
     (d_bytes d \<noteq> [] \<and> d_bytes d ! 0 = 4 \<and> sizeof_PaddlePacket \<le> length (d_bytes d)
      \<and> length (d_bytes d) \<le> 128)"

text \<open>
  What a session asks of the datagrams it handles. \<open>network_ok P ds s\<close> walks the queue
  as \<open>processNetwork\<close> does and asks \<open>P d s'\<close> of each datagram \<open>d\<close> that is handled,
  with \<open>s'\<close> the globals at that moment; \<open>run_ok P inps s\<close> does so for every frame of
  a session.
\<close>

fun network_ok :: "(Datagram \<Rightarrow> globals \<Rightarrow> bool) \<Rightarrow> Datagram list \<Rightarrow> globals \<Rightarrow> bool" where
  "network_ok P [] s = True"
| "network_ok P (d # ds) s =
     (if length (d_bytes d) > 0 then P d s \<and> network_ok P ds (processDatagram d s) else True)"

fun run_ok :: "(Datagram \<Rightarrow> globals \<Rightarrow> bool) \<Rightarrow> Inputs list \<Rightarrow> globals \<Rightarrow> bool" where
  "run_ok P [] s = True"
| "run_ok P (inp # inps) s = (network_ok P (in_datagrams inp) s \<and> run_ok P inps (loop inp s))"

text \<open>The frame ids of the State packets written to the socket so far, oldest first.\<close>

fun sent_frameIds :: "(u32 \<times> u16 \<times> Packet) list \<Rightarrow> u32 list" where
  "sent_frameIds [] = []"
| "sent_frameIds ((ip, port, StatePkt p) # rest) = frameId p # sent_frameIds rest"
| "sent_frameIds (_ # rest) = sent_frameIds rest"

subsection \<open>Concrete packets and states\<close>

text \<open>A linked client waiting in the lobby, and a linked host in the lobby.\<close>

definition client_in_lobby :: globals where
  "client_in_lobby =
     initial_globals\<lparr>g_role := Client, g_screen := Lobby, g_screenDirty := False,
       g_remotePlayerName := ''Host'', g_peerIp := 0xC0A80102, g_hasPeer := True\<rparr>"

definition host_in_lobby :: globals where
  "host_in_lobby =
     initial_globals\<lparr>g_role := Host, g_screen := Lobby, g_screenDirty := False,
       g_remotePlayerName := ''Challenger'', g_peerIp := 0xC0A80103, g_hasPeer := True\<rparr>"

text \<open>A frame in which nothing arrives and no key is down.\<close>

definition idle_inputs :: Inputs where
  "idle_inputs =
     \<lparr> in_datagrams = [], in_millis_timeout = 0, in_millis = 0, in_millis_later = 0,
       in_micros = 0, in_random = 0,
       held_semicolon = False, held_dot = False,
       jp_semicolon = False, jp_dot = False, jp_R = False, jp_Q = False,
       jp_enter = False, jp_tab = False, jp_H = False, jp_J = False,
       jp_space = False, jp_esc = False, keys_fn = False,
       kb_isChange = False, kb_isPressed = False, kb_del = False, kb_word = [],
       wifi_connected = True, wifi_connect = Connected,
       wifi_list_nonempty = True, wifi_can_move_up = False, wifi_can_move_down = False,
       wifi_selected_manual = False, wifi_password_changed = False,
       udp_begin_ok = True \<rparr>"

text \<open>
  A datagram with the layout of a State packet: type 3, flags 1 (match active), host
  score 200, client score 0, frame id 1, ball at (120, 67.5) at rest, host paddle at
  1000.0 and client paddle at 67.5.
\<close>

definition forged_state_datagram :: Datagram where
  "forged_state_datagram =
     \<lparr> d_bytes = [3, 1, 200, 0,  1, 0, 0, 0,
                   0x00, 0x00, 0xF0, 0x42,  0x00, 0x00, 0x87, 0x42,
                   0, 0, 0, 0,  0, 0, 0, 0,
                   0x00, 0x00, 0x7A, 0x44,  0x00, 0x00, 0x87, 0x42],
       d_remoteIP = 0xC0A80163, d_remotePort = 41000, d_millis = 7000 \<rparr>"

text \<open>
  From power-up to a searching client: leave the Wi-Fi menu, confirm the name, press
  J; then the forged State datagram arrives.
\<close>

definition frames_to_client :: "Inputs list" where
  "frames_to_client =
     [idle_inputs\<lparr>in_millis := 1000, jp_Q := True\<rparr>,
      idle_inputs\<lparr>in_millis := 2000, jp_enter := True\<rparr>,
      idle_inputs\<lparr>in_millis := 3000, jp_J := True\<rparr>]"

definition frames_forged_state :: "Inputs list" where
  "frames_forged_state =
     frames_to_client @ [idle_inputs\<lparr>in_millis := 7001, in_datagrams := [forged_state_datagram]\<rparr>]"

text \<open>A host waiting for a client, and a Join datagram from 192.168.1.3 named Ann.\<close>

definition host_waiting :: globals where
  "host_waiting =
     initial_globals\<lparr>g_role := Host, g_screen := HostWaiting, g_screenDirty := False\<rparr>"


text \<open>A Start datagram carrying the seed \<open>0x01020304\<close>.\<close>

definition start_datagram :: Datagram where
  "start_datagram =
     \<lparr> d_bytes = [5, 0x04, 0x03, 0x02, 0x01],
       d_remoteIP = 0xC0A80163, d_remotePort = 41000, d_millis = 9000 \<rparr>"

text \<open>
  Two frames of a host in the lobby: the serve key at 8990 ms, and, at 9000 ms, a frame
  in which no key is down and the Start datagram above arrives.
\<close>

definition serve_frame :: Inputs where
  "serve_frame =
     idle_inputs\<lparr>in_millis_timeout := 8990, in_millis := 8990, in_millis_later := 8990,
       in_micros := 8990123, jp_space := True\<rparr>"

definition start_datagram_frame :: Inputs where
  "start_datagram_frame =
     idle_inputs\<lparr>in_millis_timeout := 9000, in_millis := 9000, in_millis_later := 9000,
       in_datagrams := [start_datagram]\<rparr>"


text \<open>
  A State datagram as a host sends it in a running match: flags 1 (match active), host
  score 5, client score 3, frame id 9, ball at (120, 67.5) at rest, host paddle at 40.0
  and client paddle at 90.0. It reaches the searching client of \<open>frames_to_client\<close>.
\<close>

definition host_state_datagram :: Datagram where
  "host_state_datagram =
     \<lparr> d_bytes = [3, 1, 5, 3,  9, 0, 0, 0,
                   0x00, 0x00, 0xF0, 0x42,  0x00, 0x00, 0x87, 0x42,
                   0, 0, 0, 0,  0, 0, 0, 0,
                   0x00, 0x00, 0x20, 0x42,  0x00, 0x00, 0xB4, 0x42],
       d_remoteIP = 0xC0A80102, d_remotePort = 41000, d_millis = 7000 \<rparr>"

definition frames_host_state :: "Inputs list" where
  "frames_host_state =
     frames_to_client @ [idle_inputs\<lparr>in_millis := 7001, in_datagrams := [host_state_datagram]\<rparr>]"

text \<open>
  A host at match point: 6 to 3, the ball at (244, 60) flying toward the client's goal
  line at 170 pixels per second, last frame at 20000 ms; and the frame 125 ms later, in
  which the ball passes the goal line (it is at 265.25 then).
\<close>

definition host_match_point :: globals where
  "host_match_point =
     host_in_lobby\<lparr>g_screen := Playing, g_matchActive := True,
       g_hostScore := 6, g_clientScore := 3,
       g_ballX := FVal 244, g_ballY := FVal 60, g_ballVX := FVal 170, g_ballVY := FVal 0,
       g_lastFrameTick := 20000, g_lastStateSent := 20000\<rparr>"

definition goal_frame :: Inputs where
  "goal_frame =
     idle_inputs\<lparr>in_millis_timeout := 20125, in_millis := 20125, in_millis_later := 20125\<rparr>"



text \<open>The frame in which the Start datagram arrives while the quit key is pressed.\<close>

definition start_datagram_quit_frame :: Inputs where
  "start_datagram_quit_frame = start_datagram_frame\<lparr>jp_Q := True\<rparr>"

text \<open>
  The start of a match as the client of \<open>frames_to_client\<close> sees it. The host at
  192.168.1.2, named Bob, answers the join request: its JoinAck datagram arrives at
  5000 ms. At 5500 ms the host serves and sends a Start packet (seed \<open>0x01020304\<close>)
  and, right after it, the opening State packet (flags 3, 0 to 0, frame id 1).
  In \<open>frames_start_only\<close> the frame of the client at 5500 ms finds only the Start
  datagram on the socket; in \<open>frames_start_and_state\<close> it finds both; in
  \<open>frames_state_late\<close> the State datagram is found by the next frame, at 5516 ms, while
  the player holds the down key.
\<close>

definition host_joinack_datagram :: Datagram where
  "host_joinack_datagram =
     \<lparr> d_bytes = [2, 0x42, 0x6F, 0x62, 0, 0, 0, 0, 0, 0, 0, 0, 0, 0, 0, 0, 0],
       d_remoteIP = 0xC0A80102, d_remotePort = 41000, d_millis = 5000 \<rparr>"

definition host_start_datagram :: Datagram where
  "host_start_datagram =
     \<lparr> d_bytes = [5, 0x04, 0x03, 0x02, 0x01],
       d_remoteIP = 0xC0A80102, d_remotePort = 41000, d_millis = 5500 \<rparr>"

definition host_opening_state_datagram :: Datagram where
  "host_opening_state_datagram =
     \<lparr> d_bytes = [3, 3, 0, 0,  1, 0, 0, 0,
                   0x00, 0x00, 0xF0, 0x42,  0x00, 0x00, 0x87, 0x42,
                   0, 0, 0, 0,  0, 0, 0, 0,
                   0x00, 0x00, 0x87, 0x42,  0x00, 0x00, 0x87, 0x42],
       d_remoteIP = 0xC0A80102, d_remotePort = 41000, d_millis = 5500 \<rparr>"

definition joinack_frame :: Inputs where
  "joinack_frame =
     idle_inputs\<lparr>in_millis_timeout := 5000, in_millis := 5000, in_millis_later := 5000,
       in_datagrams := [host_joinack_datagram]\<rparr>"

definition start_only_frame :: Inputs where
  "start_only_frame =
     idle_inputs\<lparr>in_millis_timeout := 5500, in_millis := 5500, in_millis_later := 5500,
       in_datagrams := [host_start_datagram]\<rparr>"

definition start_and_state_frame :: Inputs where
  "start_and_state_frame =
     idle_inputs\<lparr>in_millis_timeout := 5500, in_millis := 5500, in_millis_later := 5500,
       in_datagrams := [host_start_datagram, host_opening_state_datagram]\<rparr>"

definition frames_joined :: "Inputs list" where
  "frames_joined = frames_to_client @ [joinack_frame]"

definition frames_start_only :: "Inputs list" where
  "frames_start_only = frames_joined @ [start_only_frame]"

definition frames_start_and_state :: "Inputs list" where
  "frames_start_and_state = frames_joined @ [start_and_state_frame]"

definition state_late_frame :: Inputs where
  "state_late_frame =
     idle_inputs\<lparr>in_millis_timeout := 5516, in_millis := 5516, in_millis_later := 5516,
       held_dot := True, in_datagrams := [host_opening_state_datagram\<lparr>d_millis := 5516\<rparr>]\<rparr>"

definition frames_state_late :: "Inputs list" where
  "frames_state_late = frames_start_only @ [state_late_frame]"

text \<open>A State datagram cut after four bytes, and a datagram of 129 bytes.\<close>

definition truncated_state_datagram :: Datagram where
  "truncated_state_datagram =
     \<lparr> d_bytes = [3, 15, 7, 7], d_remoteIP = 0xC0A80102, d_remotePort = 41000,
       d_millis = 5000 \<rparr>"

definition oversized_datagram :: Datagram where
  "oversized_datagram =
     \<lparr> d_bytes = 3 # replicate 128 0, d_remoteIP = 0xC0A80102, d_remotePort = 41000,
       d_millis = 5000 \<rparr>"

text \<open>A State packet whose flags byte has only the waiting-for-serve bit.\<close>

definition serve_only_packet :: StatePacket where
  "serve_only_packet =
     \<lparr> flags = 0x02, hostScore = 3, clientScore = 2, frameId = 41,
       ballX = FVal 120, ballY = FVal (135 / 2), ballVX = FVal 0, ballVY = FVal 0,
       hostPaddleY = FVal 40, clientPaddleY = FVal 90 \<rparr>"

subsection \<open>Invariants\<close>

text \<open>Both scores within \<open>0..MAX_SCORE\<close>.\<close>

definition scores_bounded :: "globals \<Rightarrow> bool" where
  "scores_bounded s = (g_hostScore s \<le> MAX_SCORE \<and> g_clientScore s \<le> MAX_SCORE)"

text \<open>On the host, a match that is running or waiting for a serve has no winner yet.\<close>

definition host_scores_inv :: "globals \<Rightarrow> bool" where
  "host_scores_inv s =
     (if g_role s = Host \<and> (g_matchActive s \<or> g_waitingForServe s)
      then g_hostScore s < MAX_SCORE \<and> g_clientScore s < MAX_SCORE
      else True)"

text \<open>
  A datagram that is applied as a State packet (by a client) carries scores within
  \<open>0..MAX_SCORE\<close> in its two score bytes.
\<close>

definition applied_scores_ok :: "Datagram \<Rightarrow> globals \<Rightarrow> bool" where
  "applied_scores_ok d s =
     (if is_State d \<and> g_role s = Client
      then d_bytes d ! 2 \<le> MAX_SCORE \<and> d_bytes d ! 3 \<le> MAX_SCORE
      else True)"

definition score_view :: "globals \<Rightarrow> Role \<times> u8 \<times> u8 \<times> bool \<times> bool" where
  "score_view s =
     (g_role s, g_hostScore s, g_clientScore s, g_matchActive s, g_waitingForServe s)"

text \<open>
  The score invariant. The bound is stated for a peer that is not a client, and for a
  client too when \<open>trusted\<close> says that the State datagrams it applied were
  \<open>applied_scores_ok\<close>.
\<close>

definition score_inv :: "bool \<Rightarrow> globals \<Rightarrow> bool" where
  "score_inv trusted s =
     ((if g_role s \<noteq> Client \<or> trusted then scores_bounded s else True)
      \<and> host_scores_inv s)"


text \<open>
  The frame counter and the State packets sent: the frame ids sent so far follow each
  other from 0, and the counter is 0, or it is the frame id of the last State packet
  that was sent.
\<close>

definition fc_view :: "globals \<Rightarrow> u32 \<times> u32 list" where
  "fc_view s = (g_frameCounter s, sent_frameIds (udp_sent s))"






definition paddle_view :: "globals \<Rightarrow> Role \<times> float \<times> float" where
  "paddle_view s = (g_role s, g_hostPaddleY s, g_clientPaddleY s)"


text \<open>A host on the Playing screen at 0 to 0, as \<^verbatim>\<open>hostStartMatch\<close> leaves it.\<close>

definition match_opened :: "globals \<Rightarrow> bool" where
  "match_opened s =
     (g_role s = Host \<and> g_screen s = Playing \<and> g_hostScore s = 0 \<and> g_clientScore s = 0)"

text \<open>Waiting for a serve only happens in an active match.\<close>

definition serve_inv :: "globals \<Rightarrow> bool" where
  "serve_inv s = (if g_waitingForServe s then g_matchActive s else True)"

section \<open>Verified properties\<close>

subsection \<open>Basic facts\<close>

lemma sizeof_values:
  "sizeof_JoinPacket = 17" "sizeof_JoinAckPacket = 17" "sizeof_StartPacket = 5"
  "sizeof_PaddlePacket = 5" "sizeof_StatePacket = 32"
  by (simp_all add: sizeof_JoinPacket_def sizeof_JoinAckPacket_def sizeof_StartPacket_def
      sizeof_PaddlePacket_def sizeof_StatePacket_def PLAYER_NAME_MAX_LEN_def)

text \<open>Testing a flag with a mask is reading one bit of the flags byte.\<close>

lemma flag_bits:
  "((f::u8) AND FLAG_MATCH_ACTIVE \<noteq> 0) = bit f 0"
  "((f::u8) AND FLAG_WAITING_SERVE \<noteq> 0) = bit f 1"
  "((f::u8) AND FLAG_GAME_OVER \<noteq> 0) = bit f 2"
  "((f::u8) AND FLAG_PAUSED \<noteq> 0) = bit f 3"
  unfolding FLAG_MATCH_ACTIVE_def FLAG_WAITING_SERVE_def FLAG_GAME_OVER_def FLAG_PAUSED_def
  using bit_iff_and_push_bit_not_eq_0[of f 0] bit_iff_and_push_bit_not_eq_0[of f 1]
    bit_iff_and_push_bit_not_eq_0[of f 2] bit_iff_and_push_bit_not_eq_0[of f 3]
  by simp_all

text \<open>A screen change touches the screen, the dirty flag and the error message only.\<close>

lemma setScreen_fields [simp]:
  "g_role (setScreen next s) = g_role s"
  "g_localPlayerName (setScreen next s) = g_localPlayerName s"
  "g_remotePlayerName (setScreen next s) = g_remotePlayerName s"
  "g_peerIp (setScreen next s) = g_peerIp s"
  "g_peerPort (setScreen next s) = g_peerPort s"
  "g_hasPeer (setScreen next s) = g_hasPeer s"
  "g_hostPaddleY (setScreen next s) = g_hostPaddleY s"
  "g_clientPaddleY (setScreen next s) = g_clientPaddleY s"
  "g_ballX (setScreen next s) = g_ballX s"
  "g_ballY (setScreen next s) = g_ballY s"
  "g_ballVX (setScreen next s) = g_ballVX s"
  "g_ballVY (setScreen next s) = g_ballVY s"
  "g_hostScore (setScreen next s) = g_hostScore s"
  "g_clientScore (setScreen next s) = g_clientScore s"
  "g_matchActive (setScreen next s) = g_matchActive s"
  "g_waitingForServe (setScreen next s) = g_waitingForServe s"
  "g_gameOver (setScreen next s) = g_gameOver s"
  "g_serveDirection (setScreen next s) = g_serveDirection s"
  "g_lastStateSent (setScreen next s) = g_lastStateSent s"
  "g_lastPaddleSent (setScreen next s) = g_lastPaddleSent s"
  "g_lastJoinBroadcast (setScreen next s) = g_lastJoinBroadcast s"
  "g_lastStateReceived (setScreen next s) = g_lastStateReceived s"
  "g_lastFrameTick (setScreen next s) = g_lastFrameTick s"
  "g_serveRequestTs (setScreen next s) = g_serveRequestTs s"
  "g_frameCounter (setScreen next s) = g_frameCounter s"
  "g_gamePaused (setScreen next s) = g_gamePaused s"
  "udp_sent (setScreen next s) = udp_sent s"
  "random_seed (setScreen next s) = random_seed s"
  by (simp_all add: setScreen_def onScreenEnter_def split: Screen.splits)

lemma g_screen_setScreen [simp]: "g_screen (setScreen next s) = next"
  by (simp add: setScreen_def onScreenEnter_def split: Screen.splits)

lemma match_state_setScreen [simp]: "match_state (setScreen next s) = match_state s"
  by (simp add: match_state_def)

subsection \<open>What each function changes\<close>

text \<open>
  For every function that the main loop is built from: the value of each global after
  the call. A global that is not listed with a new value is left as it was.
\<close>

lemma half_screen:
  "fmul (float_of_int SCREEN_WIDTH) (FVal (1 / 2)) = FVal 120"
  "fmul (float_of_int SCREEN_HEIGHT) (FVal (1 / 2)) = FVal (135 / 2)"
  by (simp_all add: float_of_int_def SCREEN_WIDTH_def SCREEN_HEIGHT_def)

lemma setRemotePlayerName_fields [simp]:
  "g_role (setRemotePlayerName name s) = g_role s"
  "g_screen (setRemotePlayerName name s) = g_screen s"
  "g_screenDirty (setRemotePlayerName name s) = g_screenDirty s"
  "g_localPlayerName (setRemotePlayerName name s) = g_localPlayerName s"
  "g_peerIp (setRemotePlayerName name s) = g_peerIp s"
  "g_peerPort (setRemotePlayerName name s) = g_peerPort s"
  "g_hasPeer (setRemotePlayerName name s) = g_hasPeer s"
  "g_hostPaddleY (setRemotePlayerName name s) = g_hostPaddleY s"
  "g_clientPaddleY (setRemotePlayerName name s) = g_clientPaddleY s"
  "g_ballX (setRemotePlayerName name s) = g_ballX s"
  "g_ballY (setRemotePlayerName name s) = g_ballY s"
  "g_ballVX (setRemotePlayerName name s) = g_ballVX s"
  "g_ballVY (setRemotePlayerName name s) = g_ballVY s"
  "g_hostScore (setRemotePlayerName name s) = g_hostScore s"
  "g_clientScore (setRemotePlayerName name s) = g_clientScore s"
  "g_matchActive (setRemotePlayerName name s) = g_matchActive s"
  "g_waitingForServe (setRemotePlayerName name s) = g_waitingForServe s"
  "g_gameOver (setRemotePlayerName name s) = g_gameOver s"
  "g_serveDirection (setRemotePlayerName name s) = g_serveDirection s"
  "g_lastStateSent (setRemotePlayerName name s) = g_lastStateSent s"
  "g_lastPaddleSent (setRemotePlayerName name s) = g_lastPaddleSent s"
  "g_lastJoinBroadcast (setRemotePlayerName name s) = g_lastJoinBroadcast s"
  "g_lastStateReceived (setRemotePlayerName name s) = g_lastStateReceived s"
  "g_lastFrameTick (setRemotePlayerName name s) = g_lastFrameTick s"
  "g_serveRequestTs (setRemotePlayerName name s) = g_serveRequestTs s"
  "g_frameCounter (setRemotePlayerName name s) = g_frameCounter s"
  "g_errorMessage (setRemotePlayerName name s) = g_errorMessage s"
  "g_gamePaused (setRemotePlayerName name s) = g_gamePaused s"
  "udp_sent (setRemotePlayerName name s) = udp_sent s"
  "random_seed (setRemotePlayerName name s) = random_seed s"
  by (simp_all add: setRemotePlayerName_def Let_def)

lemma centerBallStationary_fields [simp]:
  "g_role (centerBallStationary s) = g_role s"
  "g_screen (centerBallStationary s) = g_screen s"
  "g_screenDirty (centerBallStationary s) = g_screenDirty s"
  "g_localPlayerName (centerBallStationary s) = g_localPlayerName s"
  "g_remotePlayerName (centerBallStationary s) = g_remotePlayerName s"
  "g_peerIp (centerBallStationary s) = g_peerIp s"
  "g_peerPort (centerBallStationary s) = g_peerPort s"
  "g_hasPeer (centerBallStationary s) = g_hasPeer s"
  "g_hostPaddleY (centerBallStationary s) = g_hostPaddleY s"
  "g_clientPaddleY (centerBallStationary s) = g_clientPaddleY s"
  "g_ballX (centerBallStationary s) = FVal 120"
  "g_ballY (centerBallStationary s) = FVal (135 / 2)"
  "g_ballVX (centerBallStationary s) = FVal 0"
  "g_ballVY (centerBallStationary s) = FVal 0"
  "g_hostScore (centerBallStationary s) = g_hostScore s"
  "g_clientScore (centerBallStationary s) = g_clientScore s"
  "g_matchActive (centerBallStationary s) = g_matchActive s"
  "g_waitingForServe (centerBallStationary s) = g_waitingForServe s"
  "g_gameOver (centerBallStationary s) = g_gameOver s"
  "g_serveDirection (centerBallStationary s) = g_serveDirection s"
  "g_lastStateSent (centerBallStationary s) = g_lastStateSent s"
  "g_lastPaddleSent (centerBallStationary s) = g_lastPaddleSent s"
  "g_lastJoinBroadcast (centerBallStationary s) = g_lastJoinBroadcast s"
  "g_lastStateReceived (centerBallStationary s) = g_lastStateReceived s"
  "g_lastFrameTick (centerBallStationary s) = g_lastFrameTick s"
  "g_serveRequestTs (centerBallStationary s) = g_serveRequestTs s"
  "g_frameCounter (centerBallStationary s) = g_frameCounter s"
  "g_errorMessage (centerBallStationary s) = g_errorMessage s"
  "g_gamePaused (centerBallStationary s) = g_gamePaused s"
  "udp_sent (centerBallStationary s) = udp_sent s"
  "random_seed (centerBallStationary s) = random_seed s"
  by (simp_all add: centerBallStationary_def half_screen)

lemma resetPaddles_fields [simp]:
  "g_role (resetPaddles s) = g_role s"
  "g_screen (resetPaddles s) = g_screen s"
  "g_screenDirty (resetPaddles s) = g_screenDirty s"
  "g_localPlayerName (resetPaddles s) = g_localPlayerName s"
  "g_remotePlayerName (resetPaddles s) = g_remotePlayerName s"
  "g_peerIp (resetPaddles s) = g_peerIp s"
  "g_peerPort (resetPaddles s) = g_peerPort s"
  "g_hasPeer (resetPaddles s) = g_hasPeer s"
  "g_hostPaddleY (resetPaddles s) = FVal (135 / 2)"
  "g_clientPaddleY (resetPaddles s) = FVal (135 / 2)"
  "g_ballX (resetPaddles s) = g_ballX s"
  "g_ballY (resetPaddles s) = g_ballY s"
  "g_ballVX (resetPaddles s) = g_ballVX s"
  "g_ballVY (resetPaddles s) = g_ballVY s"
  "g_hostScore (resetPaddles s) = g_hostScore s"
  "g_clientScore (resetPaddles s) = g_clientScore s"
  "g_matchActive (resetPaddles s) = g_matchActive s"
  "g_waitingForServe (resetPaddles s) = g_waitingForServe s"
  "g_gameOver (resetPaddles s) = g_gameOver s"
  "g_serveDirection (resetPaddles s) = g_serveDirection s"
  "g_lastStateSent (resetPaddles s) = g_lastStateSent s"
  "g_lastPaddleSent (resetPaddles s) = g_lastPaddleSent s"
  "g_lastJoinBroadcast (resetPaddles s) = g_lastJoinBroadcast s"
  "g_lastStateReceived (resetPaddles s) = g_lastStateReceived s"
  "g_lastFrameTick (resetPaddles s) = g_lastFrameTick s"
  "g_serveRequestTs (resetPaddles s) = g_serveRequestTs s"
  "g_frameCounter (resetPaddles s) = g_frameCounter s"
  "g_errorMessage (resetPaddles s) = g_errorMessage s"
  "g_gamePaused (resetPaddles s) = g_gamePaused s"
  "udp_sent (resetPaddles s) = udp_sent s"
  "random_seed (resetPaddles s) = random_seed s"
  by (simp_all add: resetPaddles_def half_screen)

lemma resetMatchState_fields [simp]:
  "g_role (resetMatchState s) = g_role s"
  "g_screen (resetMatchState s) = g_screen s"
  "g_screenDirty (resetMatchState s) = g_screenDirty s"
  "g_localPlayerName (resetMatchState s) = g_localPlayerName s"
  "g_remotePlayerName (resetMatchState s) = g_remotePlayerName s"
  "g_peerIp (resetMatchState s) = g_peerIp s"
  "g_peerPort (resetMatchState s) = g_peerPort s"
  "g_hasPeer (resetMatchState s) = g_hasPeer s"
  "g_hostPaddleY (resetMatchState s) = FVal (135 / 2)"
  "g_clientPaddleY (resetMatchState s) = FVal (135 / 2)"
  "g_ballX (resetMatchState s) = FVal 120"
  "g_ballY (resetMatchState s) = FVal (135 / 2)"
  "g_ballVX (resetMatchState s) = FVal 0"
  "g_ballVY (resetMatchState s) = FVal 0"
  "g_hostScore (resetMatchState s) = 0"
  "g_clientScore (resetMatchState s) = 0"
  "g_matchActive (resetMatchState s) = False"
  "g_waitingForServe (resetMatchState s) = False"
  "g_gameOver (resetMatchState s) = False"
  "g_serveDirection (resetMatchState s) = g_serveDirection s"
  "g_lastStateSent (resetMatchState s) = g_lastStateSent s"
  "g_lastPaddleSent (resetMatchState s) = g_lastPaddleSent s"
  "g_lastJoinBroadcast (resetMatchState s) = g_lastJoinBroadcast s"
  "g_lastStateReceived (resetMatchState s) = g_lastStateReceived s"
  "g_lastFrameTick (resetMatchState s) = g_lastFrameTick s"
  "g_serveRequestTs (resetMatchState s) = g_serveRequestTs s"
  "g_frameCounter (resetMatchState s) = 0"
  "g_errorMessage (resetMatchState s) = g_errorMessage s"
  "g_gamePaused (resetMatchState s) = False"
  "udp_sent (resetMatchState s) = udp_sent s"
  "random_seed (resetMatchState s) = random_seed s"
  by (simp_all add: resetMatchState_def)

lemma prepareServe_fields [simp]:
  "g_role (prepareServe direction millis s) = g_role s"
  "g_screen (prepareServe direction millis s) = g_screen s"
  "g_screenDirty (prepareServe direction millis s) = g_screenDirty s"
  "g_localPlayerName (prepareServe direction millis s) = g_localPlayerName s"
  "g_remotePlayerName (prepareServe direction millis s) = g_remotePlayerName s"
  "g_peerIp (prepareServe direction millis s) = g_peerIp s"
  "g_peerPort (prepareServe direction millis s) = g_peerPort s"
  "g_hasPeer (prepareServe direction millis s) = g_hasPeer s"
  "g_hostPaddleY (prepareServe direction millis s) = g_hostPaddleY s"
  "g_clientPaddleY (prepareServe direction millis s) = g_clientPaddleY s"
  "g_ballX (prepareServe direction millis s) = FVal 120"
  "g_ballY (prepareServe direction millis s) = FVal (135 / 2)"
  "g_ballVX (prepareServe direction millis s) = FVal 0"
  "g_ballVY (prepareServe direction millis s) = FVal 0"
  "g_hostScore (prepareServe direction millis s) = g_hostScore s"
  "g_clientScore (prepareServe direction millis s) = g_clientScore s"
  "g_matchActive (prepareServe direction millis s) = True"
  "g_waitingForServe (prepareServe direction millis s) = True"
  "g_gameOver (prepareServe direction millis s) = g_gameOver s"
  "g_serveDirection (prepareServe direction millis s) = direction"
  "g_lastStateSent (prepareServe direction millis s) = g_lastStateSent s"
  "g_lastPaddleSent (prepareServe direction millis s) = g_lastPaddleSent s"
  "g_lastJoinBroadcast (prepareServe direction millis s) = g_lastJoinBroadcast s"
  "g_lastStateReceived (prepareServe direction millis s) = g_lastStateReceived s"
  "g_lastFrameTick (prepareServe direction millis s) = g_lastFrameTick s"
  "g_serveRequestTs (prepareServe direction millis s) = millis"
  "g_frameCounter (prepareServe direction millis s) = g_frameCounter s"
  "g_errorMessage (prepareServe direction millis s) = g_errorMessage s"
  "g_gamePaused (prepareServe direction millis s) = g_gamePaused s"
  "udp_sent (prepareServe direction millis s) = udp_sent s"
  "random_seed (prepareServe direction millis s) = random_seed s"
  by (simp_all add: prepareServe_def)

lemma launchBall_fields [simp]:
  "g_role (launchBall r s) = g_role s"
  "g_screen (launchBall r s) = g_screen s"
  "g_screenDirty (launchBall r s) = g_screenDirty s"
  "g_localPlayerName (launchBall r s) = g_localPlayerName s"
  "g_remotePlayerName (launchBall r s) = g_remotePlayerName s"
  "g_peerIp (launchBall r s) = g_peerIp s"
  "g_peerPort (launchBall r s) = g_peerPort s"
  "g_hasPeer (launchBall r s) = g_hasPeer s"
  "g_hostPaddleY (launchBall r s) = g_hostPaddleY s"
  "g_clientPaddleY (launchBall r s) = g_clientPaddleY s"
  "g_ballX (launchBall r s) = g_ballX s"
  "g_ballY (launchBall r s) = g_ballY s"
  "g_hostScore (launchBall r s) = g_hostScore s"
  "g_clientScore (launchBall r s) = g_clientScore s"
  "g_matchActive (launchBall r s) = g_matchActive s"
  "g_waitingForServe (launchBall r s) = False"
  "g_gameOver (launchBall r s) = g_gameOver s"
  "g_serveDirection (launchBall r s) = g_serveDirection s"
  "g_lastStateSent (launchBall r s) = g_lastStateSent s"
  "g_lastPaddleSent (launchBall r s) = g_lastPaddleSent s"
  "g_lastJoinBroadcast (launchBall r s) = g_lastJoinBroadcast s"
  "g_lastStateReceived (launchBall r s) = g_lastStateReceived s"
  "g_lastFrameTick (launchBall r s) = g_lastFrameTick s"
  "g_serveRequestTs (launchBall r s) = g_serveRequestTs s"
  "g_frameCounter (launchBall r s) = g_frameCounter s"
  "g_errorMessage (launchBall r s) = g_errorMessage s"
  "g_gamePaused (launchBall r s) = g_gamePaused s"
  "udp_sent (launchBall r s) = udp_sent s"
  "random_seed (launchBall r s) = random_seed s"
  by (simp_all add: launchBall_def Let_def)

lemma udp_write_fields [simp]:
  "g_role (udp_write ip port packet s) = g_role s"
  "g_screen (udp_write ip port packet s) = g_screen s"
  "g_screenDirty (udp_write ip port packet s) = g_screenDirty s"
  "g_localPlayerName (udp_write ip port packet s) = g_localPlayerName s"
  "g_remotePlayerName (udp_write ip port packet s) = g_remotePlayerName s"
  "g_peerIp (udp_write ip port packet s) = g_peerIp s"
  "g_peerPort (udp_write ip port packet s) = g_peerPort s"
  "g_hasPeer (udp_write ip port packet s) = g_hasPeer s"
  "g_hostPaddleY (udp_write ip port packet s) = g_hostPaddleY s"
  "g_clientPaddleY (udp_write ip port packet s) = g_clientPaddleY s"
  "g_ballX (udp_write ip port packet s) = g_ballX s"
  "g_ballY (udp_write ip port packet s) = g_ballY s"
  "g_ballVX (udp_write ip port packet s) = g_ballVX s"
  "g_ballVY (udp_write ip port packet s) = g_ballVY s"
  "g_hostScore (udp_write ip port packet s) = g_hostScore s"
  "g_clientScore (udp_write ip port packet s) = g_clientScore s"
  "g_matchActive (udp_write ip port packet s) = g_matchActive s"
  "g_waitingForServe (udp_write ip port packet s) = g_waitingForServe s"
  "g_gameOver (udp_write ip port packet s) = g_gameOver s"
  "g_serveDirection (udp_write ip port packet s) = g_serveDirection s"
  "g_lastStateSent (udp_write ip port packet s) = g_lastStateSent s"
  "g_lastPaddleSent (udp_write ip port packet s) = g_lastPaddleSent s"
  "g_lastJoinBroadcast (udp_write ip port packet s) = g_lastJoinBroadcast s"
  "g_lastStateReceived (udp_write ip port packet s) = g_lastStateReceived s"
  "g_lastFrameTick (udp_write ip port packet s) = g_lastFrameTick s"
  "g_serveRequestTs (udp_write ip port packet s) = g_serveRequestTs s"
  "g_frameCounter (udp_write ip port packet s) = g_frameCounter s"
  "g_errorMessage (udp_write ip port packet s) = g_errorMessage s"
  "g_gamePaused (udp_write ip port packet s) = g_gamePaused s"
  "udp_sent (udp_write ip port packet s) = udp_sent s @ [(ip, port, packet)]"
  "random_seed (udp_write ip port packet s) = random_seed s"
  by (simp_all add: udp_write_def)

lemma sendJoinBroadcast_fields [simp]:
  "g_role (sendJoinBroadcast s) = g_role s"
  "g_screen (sendJoinBroadcast s) = g_screen s"
  "g_screenDirty (sendJoinBroadcast s) = g_screenDirty s"
  "g_localPlayerName (sendJoinBroadcast s) = g_localPlayerName s"
  "g_remotePlayerName (sendJoinBroadcast s) = g_remotePlayerName s"
  "g_peerIp (sendJoinBroadcast s) = g_peerIp s"
  "g_peerPort (sendJoinBroadcast s) = g_peerPort s"
  "g_hasPeer (sendJoinBroadcast s) = g_hasPeer s"
  "g_hostPaddleY (sendJoinBroadcast s) = g_hostPaddleY s"
  "g_clientPaddleY (sendJoinBroadcast s) = g_clientPaddleY s"
  "g_ballX (sendJoinBroadcast s) = g_ballX s"
  "g_ballY (sendJoinBroadcast s) = g_ballY s"
  "g_ballVX (sendJoinBroadcast s) = g_ballVX s"
  "g_ballVY (sendJoinBroadcast s) = g_ballVY s"
  "g_hostScore (sendJoinBroadcast s) = g_hostScore s"
  "g_clientScore (sendJoinBroadcast s) = g_clientScore s"
  "g_matchActive (sendJoinBroadcast s) = g_matchActive s"
  "g_waitingForServe (sendJoinBroadcast s) = g_waitingForServe s"
  "g_gameOver (sendJoinBroadcast s) = g_gameOver s"
  "g_serveDirection (sendJoinBroadcast s) = g_serveDirection s"
  "g_lastStateSent (sendJoinBroadcast s) = g_lastStateSent s"
  "g_lastPaddleSent (sendJoinBroadcast s) = g_lastPaddleSent s"
  "g_lastJoinBroadcast (sendJoinBroadcast s) = g_lastJoinBroadcast s"
  "g_lastStateReceived (sendJoinBroadcast s) = g_lastStateReceived s"
  "g_lastFrameTick (sendJoinBroadcast s) = g_lastFrameTick s"
  "g_serveRequestTs (sendJoinBroadcast s) = g_serveRequestTs s"
  "g_frameCounter (sendJoinBroadcast s) = g_frameCounter s"
  "g_errorMessage (sendJoinBroadcast s) = g_errorMessage s"
  "g_gamePaused (sendJoinBroadcast s) = g_gamePaused s"
  "udp_sent (sendJoinBroadcast s) = udp_sent s @ [(0xFFFFFFFF, UDP_PORT, JoinPacket (name_to_wire (g_localPlayerName s)))]"
  "random_seed (sendJoinBroadcast s) = random_seed s"
  by (simp_all add: sendJoinBroadcast_def)

lemma sendJoinAck_fields [simp]:
  "g_role (sendJoinAck s) = g_role s"
  "g_screen (sendJoinAck s) = g_screen s"
  "g_screenDirty (sendJoinAck s) = g_screenDirty s"
  "g_localPlayerName (sendJoinAck s) = g_localPlayerName s"
  "g_remotePlayerName (sendJoinAck s) = g_remotePlayerName s"
  "g_peerIp (sendJoinAck s) = g_peerIp s"
  "g_peerPort (sendJoinAck s) = g_peerPort s"
  "g_hasPeer (sendJoinAck s) = g_hasPeer s"
  "g_hostPaddleY (sendJoinAck s) = g_hostPaddleY s"
  "g_clientPaddleY (sendJoinAck s) = g_clientPaddleY s"
  "g_ballX (sendJoinAck s) = g_ballX s"
  "g_ballY (sendJoinAck s) = g_ballY s"
  "g_ballVX (sendJoinAck s) = g_ballVX s"
  "g_ballVY (sendJoinAck s) = g_ballVY s"
  "g_hostScore (sendJoinAck s) = g_hostScore s"
  "g_clientScore (sendJoinAck s) = g_clientScore s"
  "g_matchActive (sendJoinAck s) = g_matchActive s"
  "g_waitingForServe (sendJoinAck s) = g_waitingForServe s"
  "g_gameOver (sendJoinAck s) = g_gameOver s"
  "g_serveDirection (sendJoinAck s) = g_serveDirection s"
  "g_lastStateSent (sendJoinAck s) = g_lastStateSent s"
  "g_lastPaddleSent (sendJoinAck s) = g_lastPaddleSent s"
  "g_lastJoinBroadcast (sendJoinAck s) = g_lastJoinBroadcast s"
  "g_lastStateReceived (sendJoinAck s) = g_lastStateReceived s"
  "g_lastFrameTick (sendJoinAck s) = g_lastFrameTick s"
  "g_serveRequestTs (sendJoinAck s) = g_serveRequestTs s"
  "g_frameCounter (sendJoinAck s) = g_frameCounter s"
  "g_errorMessage (sendJoinAck s) = g_errorMessage s"
  "g_gamePaused (sendJoinAck s) = g_gamePaused s"
  "udp_sent (sendJoinAck s) = (if g_hasPeer s
        then udp_sent s @ [(g_peerIp s, g_peerPort s, JoinAckPacket (name_to_wire (g_localPlayerName s)))]
        else udp_sent s)"
  "random_seed (sendJoinAck s) = random_seed s"
  by (simp_all add: sendJoinAck_def)

lemma sendStartPacket_fields [simp]:
  "g_role (sendStartPacket seed s) = g_role s"
  "g_screen (sendStartPacket seed s) = g_screen s"
  "g_screenDirty (sendStartPacket seed s) = g_screenDirty s"
  "g_localPlayerName (sendStartPacket seed s) = g_localPlayerName s"
  "g_remotePlayerName (sendStartPacket seed s) = g_remotePlayerName s"
  "g_peerIp (sendStartPacket seed s) = g_peerIp s"
  "g_peerPort (sendStartPacket seed s) = g_peerPort s"
  "g_hasPeer (sendStartPacket seed s) = g_hasPeer s"
  "g_hostPaddleY (sendStartPacket seed s) = g_hostPaddleY s"
  "g_clientPaddleY (sendStartPacket seed s) = g_clientPaddleY s"
  "g_ballX (sendStartPacket seed s) = g_ballX s"
  "g_ballY (sendStartPacket seed s) = g_ballY s"
  "g_ballVX (sendStartPacket seed s) = g_ballVX s"
  "g_ballVY (sendStartPacket seed s) = g_ballVY s"
  "g_hostScore (sendStartPacket seed s) = g_hostScore s"
  "g_clientScore (sendStartPacket seed s) = g_clientScore s"
  "g_matchActive (sendStartPacket seed s) = g_matchActive s"
  "g_waitingForServe (sendStartPacket seed s) = g_waitingForServe s"
  "g_gameOver (sendStartPacket seed s) = g_gameOver s"
  "g_serveDirection (sendStartPacket seed s) = g_serveDirection s"
  "g_lastStateSent (sendStartPacket seed s) = g_lastStateSent s"
  "g_lastPaddleSent (sendStartPacket seed s) = g_lastPaddleSent s"
  "g_lastJoinBroadcast (sendStartPacket seed s) = g_lastJoinBroadcast s"
  "g_lastStateReceived (sendStartPacket seed s) = g_lastStateReceived s"
  "g_lastFrameTick (sendStartPacket seed s) = g_lastFrameTick s"
  "g_serveRequestTs (sendStartPacket seed s) = g_serveRequestTs s"
  "g_frameCounter (sendStartPacket seed s) = g_frameCounter s"
  "g_errorMessage (sendStartPacket seed s) = g_errorMessage s"
  "g_gamePaused (sendStartPacket seed s) = g_gamePaused s"
  "udp_sent (sendStartPacket seed s) = (if g_hasPeer s then udp_sent s @ [(g_peerIp s, g_peerPort s, StartPacket seed)]
        else udp_sent s)"
  "random_seed (sendStartPacket seed s) = random_seed s"
  by (simp_all add: sendStartPacket_def)

lemma sendStatePacket_fields [simp]:
  "g_role (sendStatePacket millis s) = g_role s"
  "g_screen (sendStatePacket millis s) = g_screen s"
  "g_screenDirty (sendStatePacket millis s) = g_screenDirty s"
  "g_localPlayerName (sendStatePacket millis s) = g_localPlayerName s"
  "g_remotePlayerName (sendStatePacket millis s) = g_remotePlayerName s"
  "g_peerIp (sendStatePacket millis s) = g_peerIp s"
  "g_peerPort (sendStatePacket millis s) = g_peerPort s"
  "g_hasPeer (sendStatePacket millis s) = g_hasPeer s"
  "g_hostPaddleY (sendStatePacket millis s) = g_hostPaddleY s"
  "g_clientPaddleY (sendStatePacket millis s) = g_clientPaddleY s"
  "g_ballX (sendStatePacket millis s) = g_ballX s"
  "g_ballY (sendStatePacket millis s) = g_ballY s"
  "g_ballVX (sendStatePacket millis s) = g_ballVX s"
  "g_ballVY (sendStatePacket millis s) = g_ballVY s"
  "g_hostScore (sendStatePacket millis s) = g_hostScore s"
  "g_clientScore (sendStatePacket millis s) = g_clientScore s"
  "g_matchActive (sendStatePacket millis s) = g_matchActive s"
  "g_waitingForServe (sendStatePacket millis s) = g_waitingForServe s"
  "g_gameOver (sendStatePacket millis s) = g_gameOver s"
  "g_serveDirection (sendStatePacket millis s) = g_serveDirection s"
  "g_lastStateSent (sendStatePacket millis s) = (if g_hasPeer s \<and> g_role s = Host then millis else g_lastStateSent s)"
  "g_lastPaddleSent (sendStatePacket millis s) = g_lastPaddleSent s"
  "g_lastJoinBroadcast (sendStatePacket millis s) = g_lastJoinBroadcast s"
  "g_lastStateReceived (sendStatePacket millis s) = g_lastStateReceived s"
  "g_lastFrameTick (sendStatePacket millis s) = g_lastFrameTick s"
  "g_serveRequestTs (sendStatePacket millis s) = g_serveRequestTs s"
  "g_frameCounter (sendStatePacket millis s) = (if g_hasPeer s \<and> g_role s = Host then g_frameCounter s + 1 else g_frameCounter s)"
  "g_errorMessage (sendStatePacket millis s) = g_errorMessage s"
  "g_gamePaused (sendStatePacket millis s) = g_gamePaused s"
  "random_seed (sendStatePacket millis s) = random_seed s"
  by (simp_all add: sendStatePacket_def Let_def)

lemma sendPaddlePacket_fields [simp]:
  "g_role (sendPaddlePacket millis s) = g_role s"
  "g_screen (sendPaddlePacket millis s) = g_screen s"
  "g_screenDirty (sendPaddlePacket millis s) = g_screenDirty s"
  "g_localPlayerName (sendPaddlePacket millis s) = g_localPlayerName s"
  "g_remotePlayerName (sendPaddlePacket millis s) = g_remotePlayerName s"
  "g_peerIp (sendPaddlePacket millis s) = g_peerIp s"
  "g_peerPort (sendPaddlePacket millis s) = g_peerPort s"
  "g_hasPeer (sendPaddlePacket millis s) = g_hasPeer s"
  "g_hostPaddleY (sendPaddlePacket millis s) = g_hostPaddleY s"
  "g_clientPaddleY (sendPaddlePacket millis s) = g_clientPaddleY s"
  "g_ballX (sendPaddlePacket millis s) = g_ballX s"
  "g_ballY (sendPaddlePacket millis s) = g_ballY s"
  "g_ballVX (sendPaddlePacket millis s) = g_ballVX s"
  "g_ballVY (sendPaddlePacket millis s) = g_ballVY s"
  "g_hostScore (sendPaddlePacket millis s) = g_hostScore s"
  "g_clientScore (sendPaddlePacket millis s) = g_clientScore s"
  "g_matchActive (sendPaddlePacket millis s) = g_matchActive s"
  "g_waitingForServe (sendPaddlePacket millis s) = g_waitingForServe s"
  "g_gameOver (sendPaddlePacket millis s) = g_gameOver s"
  "g_serveDirection (sendPaddlePacket millis s) = g_serveDirection s"
  "g_lastStateSent (sendPaddlePacket millis s) = g_lastStateSent s"
  "g_lastPaddleSent (sendPaddlePacket millis s) = (if g_hasPeer s \<and> g_role s = Client then millis else g_lastPaddleSent s)"
  "g_lastJoinBroadcast (sendPaddlePacket millis s) = g_lastJoinBroadcast s"
  "g_lastStateReceived (sendPaddlePacket millis s) = g_lastStateReceived s"
  "g_lastFrameTick (sendPaddlePacket millis s) = g_lastFrameTick s"
  "g_serveRequestTs (sendPaddlePacket millis s) = g_serveRequestTs s"
  "g_frameCounter (sendPaddlePacket millis s) = g_frameCounter s"
  "g_errorMessage (sendPaddlePacket millis s) = g_errorMessage s"
  "g_gamePaused (sendPaddlePacket millis s) = g_gamePaused s"
  "udp_sent (sendPaddlePacket millis s) = (if g_hasPeer s \<and> g_role s = Client
        then udp_sent s @ [(g_peerIp s, g_peerPort s, PaddlePacket (g_clientPaddleY s))]
        else udp_sent s)"
  "random_seed (sendPaddlePacket millis s) = random_seed s"
  by (simp_all add: sendPaddlePacket_def)

lemma markGameOver_fields [simp]:
  "g_role (markGameOver millis s) = g_role s"
  "g_screen (markGameOver millis s) = GameOver"
  "g_localPlayerName (markGameOver millis s) = g_localPlayerName s"
  "g_remotePlayerName (markGameOver millis s) = g_remotePlayerName s"
  "g_peerIp (markGameOver millis s) = g_peerIp s"
  "g_peerPort (markGameOver millis s) = g_peerPort s"
  "g_hasPeer (markGameOver millis s) = g_hasPeer s"
  "g_hostPaddleY (markGameOver millis s) = g_hostPaddleY s"
  "g_clientPaddleY (markGameOver millis s) = g_clientPaddleY s"
  "g_ballX (markGameOver millis s) = FVal 120"
  "g_ballY (markGameOver millis s) = FVal (135 / 2)"
  "g_ballVX (markGameOver millis s) = FVal 0"
  "g_ballVY (markGameOver millis s) = FVal 0"
  "g_hostScore (markGameOver millis s) = g_hostScore s"
  "g_clientScore (markGameOver millis s) = g_clientScore s"
  "g_matchActive (markGameOver millis s) = False"
  "g_waitingForServe (markGameOver millis s) = False"
  "g_gameOver (markGameOver millis s) = True"
  "g_serveDirection (markGameOver millis s) = g_serveDirection s"
  "g_lastStateSent (markGameOver millis s) = (if g_hasPeer s \<and> g_role s = Host then millis else g_lastStateSent s)"
  "g_lastPaddleSent (markGameOver millis s) = g_lastPaddleSent s"
  "g_lastJoinBroadcast (markGameOver millis s) = g_lastJoinBroadcast s"
  "g_lastStateReceived (markGameOver millis s) = g_lastStateReceived s"
  "g_lastFrameTick (markGameOver millis s) = g_lastFrameTick s"
  "g_serveRequestTs (markGameOver millis s) = g_serveRequestTs s"
  "g_frameCounter (markGameOver millis s) = (if g_hasPeer s \<and> g_role s = Host then g_frameCounter s + 1 else g_frameCounter s)"
  "g_gamePaused (markGameOver millis s) = g_gamePaused s"
  "random_seed (markGameOver millis s) = random_seed s"
  by (simp_all add: markGameOver_def Let_def)

lemma hostStartMatch_fields [simp]:
  "g_role (hostStartMatch seed millis s) = g_role s"
  "g_screen (hostStartMatch seed millis s) = Playing"
  "g_localPlayerName (hostStartMatch seed millis s) = g_localPlayerName s"
  "g_remotePlayerName (hostStartMatch seed millis s) = g_remotePlayerName s"
  "g_peerIp (hostStartMatch seed millis s) = g_peerIp s"
  "g_peerPort (hostStartMatch seed millis s) = g_peerPort s"
  "g_hasPeer (hostStartMatch seed millis s) = g_hasPeer s"
  "g_hostPaddleY (hostStartMatch seed millis s) = FVal (135 / 2)"
  "g_clientPaddleY (hostStartMatch seed millis s) = FVal (135 / 2)"
  "g_ballX (hostStartMatch seed millis s) = FVal 120"
  "g_ballY (hostStartMatch seed millis s) = FVal (135 / 2)"
  "g_ballVX (hostStartMatch seed millis s) = FVal 0"
  "g_ballVY (hostStartMatch seed millis s) = FVal 0"
  "g_hostScore (hostStartMatch seed millis s) = 0"
  "g_clientScore (hostStartMatch seed millis s) = 0"
  "g_matchActive (hostStartMatch seed millis s) = True"
  "g_waitingForServe (hostStartMatch seed millis s) = True"
  "g_gameOver (hostStartMatch seed millis s) = False"
  "g_serveDirection (hostStartMatch seed millis s) = 1"
  "g_lastStateSent (hostStartMatch seed millis s) = (if g_hasPeer s \<and> g_role s = Host then millis else g_lastStateSent s)"
  "g_lastPaddleSent (hostStartMatch seed millis s) = g_lastPaddleSent s"
  "g_lastJoinBroadcast (hostStartMatch seed millis s) = g_lastJoinBroadcast s"
  "g_lastStateReceived (hostStartMatch seed millis s) = g_lastStateReceived s"
  "g_lastFrameTick (hostStartMatch seed millis s) = g_lastFrameTick s"
  "g_serveRequestTs (hostStartMatch seed millis s) = millis"
  "g_frameCounter (hostStartMatch seed millis s) = (if g_hasPeer s \<and> g_role s = Host then 1 else 0)"
  "g_gamePaused (hostStartMatch seed millis s) = False"
  "random_seed (hostStartMatch seed millis s) = seed"
  by (simp_all add: hostStartMatch_def)

lemma clientStartMatch_fields [simp]:
  "g_role (clientStartMatch seed s) = g_role s"
  "g_screen (clientStartMatch seed s) = Playing"
  "g_localPlayerName (clientStartMatch seed s) = g_localPlayerName s"
  "g_remotePlayerName (clientStartMatch seed s) = g_remotePlayerName s"
  "g_peerIp (clientStartMatch seed s) = g_peerIp s"
  "g_peerPort (clientStartMatch seed s) = g_peerPort s"
  "g_hasPeer (clientStartMatch seed s) = g_hasPeer s"
  "g_hostPaddleY (clientStartMatch seed s) = FVal (135 / 2)"
  "g_clientPaddleY (clientStartMatch seed s) = FVal (135 / 2)"
  "g_ballX (clientStartMatch seed s) = FVal 120"
  "g_ballY (clientStartMatch seed s) = FVal (135 / 2)"
  "g_ballVX (clientStartMatch seed s) = FVal 0"
  "g_ballVY (clientStartMatch seed s) = FVal 0"
  "g_hostScore (clientStartMatch seed s) = 0"
  "g_clientScore (clientStartMatch seed s) = 0"
  "g_matchActive (clientStartMatch seed s) = True"
  "g_waitingForServe (clientStartMatch seed s) = True"
  "g_gameOver (clientStartMatch seed s) = False"
  "g_serveDirection (clientStartMatch seed s) = 1"
  "g_lastStateSent (clientStartMatch seed s) = g_lastStateSent s"
  "g_lastPaddleSent (clientStartMatch seed s) = g_lastPaddleSent s"
  "g_lastJoinBroadcast (clientStartMatch seed s) = g_lastJoinBroadcast s"
  "g_lastStateReceived (clientStartMatch seed s) = g_lastStateReceived s"
  "g_lastFrameTick (clientStartMatch seed s) = g_lastFrameTick s"
  "g_serveRequestTs (clientStartMatch seed s) = g_serveRequestTs s"
  "g_frameCounter (clientStartMatch seed s) = 0"
  "g_gamePaused (clientStartMatch seed s) = False"
  "udp_sent (clientStartMatch seed s) = udp_sent s"
  "random_seed (clientStartMatch seed s) = seed"
  by (simp_all add: clientStartMatch_def)

lemma processStatePacket_fields [simp]:
  "g_role (processStatePacket packet millis s) = g_role s"
  "g_localPlayerName (processStatePacket packet millis s) = g_localPlayerName s"
  "g_remotePlayerName (processStatePacket packet millis s) = g_remotePlayerName s"
  "g_peerIp (processStatePacket packet millis s) = g_peerIp s"
  "g_peerPort (processStatePacket packet millis s) = g_peerPort s"
  "g_hasPeer (processStatePacket packet millis s) = g_hasPeer s"
  "g_hostPaddleY (processStatePacket packet millis s) = hostPaddleY packet"
  "g_clientPaddleY (processStatePacket packet millis s) = clientPaddleY packet"
  "g_ballX (processStatePacket packet millis s) = ballX packet"
  "g_ballY (processStatePacket packet millis s) = ballY packet"
  "g_ballVX (processStatePacket packet millis s) = ballVX packet"
  "g_ballVY (processStatePacket packet millis s) = ballVY packet"
  "g_hostScore (processStatePacket packet millis s) = hostScore packet"
  "g_clientScore (processStatePacket packet millis s) = clientScore packet"
  "g_matchActive (processStatePacket packet millis s) = (bit (flags packet) 0 \<or> bit (flags packet) 1)"
  "g_waitingForServe (processStatePacket packet millis s) = bit (flags packet) 1"
  "g_gameOver (processStatePacket packet millis s) = bit (flags packet) 2"
  "g_serveDirection (processStatePacket packet millis s) = g_serveDirection s"
  "g_lastStateSent (processStatePacket packet millis s) = g_lastStateSent s"
  "g_lastPaddleSent (processStatePacket packet millis s) = g_lastPaddleSent s"
  "g_lastJoinBroadcast (processStatePacket packet millis s) = g_lastJoinBroadcast s"
  "g_lastStateReceived (processStatePacket packet millis s) = millis"
  "g_lastFrameTick (processStatePacket packet millis s) = g_lastFrameTick s"
  "g_serveRequestTs (processStatePacket packet millis s) = g_serveRequestTs s"
  "g_frameCounter (processStatePacket packet millis s) = g_frameCounter s"
  "g_gamePaused (processStatePacket packet millis s) = bit (flags packet) 3"
  "udp_sent (processStatePacket packet millis s) = udp_sent s"
  "random_seed (processStatePacket packet millis s) = random_seed s"
  by (simp_all add: processStatePacket_def Let_def flag_bits)

lemma handleConnectionTimeout_fields [simp]:
  "g_role (handleConnectionTimeout now s) = g_role s"
  "g_localPlayerName (handleConnectionTimeout now s) = g_localPlayerName s"
  "g_remotePlayerName (handleConnectionTimeout now s) = g_remotePlayerName s"
  "g_peerIp (handleConnectionTimeout now s) = g_peerIp s"
  "g_peerPort (handleConnectionTimeout now s) = g_peerPort s"
  "g_hostPaddleY (handleConnectionTimeout now s) = g_hostPaddleY s"
  "g_clientPaddleY (handleConnectionTimeout now s) = g_clientPaddleY s"
  "g_ballX (handleConnectionTimeout now s) = g_ballX s"
  "g_ballY (handleConnectionTimeout now s) = g_ballY s"
  "g_ballVX (handleConnectionTimeout now s) = g_ballVX s"
  "g_ballVY (handleConnectionTimeout now s) = g_ballVY s"
  "g_hostScore (handleConnectionTimeout now s) = g_hostScore s"
  "g_clientScore (handleConnectionTimeout now s) = g_clientScore s"
  "g_matchActive (handleConnectionTimeout now s) = g_matchActive s"
  "g_waitingForServe (handleConnectionTimeout now s) = g_waitingForServe s"
  "g_gameOver (handleConnectionTimeout now s) = g_gameOver s"
  "g_serveDirection (handleConnectionTimeout now s) = g_serveDirection s"
  "g_lastStateSent (handleConnectionTimeout now s) = g_lastStateSent s"
  "g_lastPaddleSent (handleConnectionTimeout now s) = g_lastPaddleSent s"
  "g_lastJoinBroadcast (handleConnectionTimeout now s) = g_lastJoinBroadcast s"
  "g_lastStateReceived (handleConnectionTimeout now s) = g_lastStateReceived s"
  "g_lastFrameTick (handleConnectionTimeout now s) = g_lastFrameTick s"
  "g_serveRequestTs (handleConnectionTimeout now s) = g_serveRequestTs s"
  "g_frameCounter (handleConnectionTimeout now s) = g_frameCounter s"
  "g_gamePaused (handleConnectionTimeout now s) = g_gamePaused s"
  "udp_sent (handleConnectionTimeout now s) = udp_sent s"
  "random_seed (handleConnectionTimeout now s) = random_seed s"
  by (simp_all add: handleConnectionTimeout_def)

lemma resetToMainMenu_fields [simp]:
  "g_role (resetToMainMenu s) = RoleNone"
  "g_screen (resetToMainMenu s) = RoleSelect"
  "g_localPlayerName (resetToMainMenu s) = g_localPlayerName s"
  "g_remotePlayerName (resetToMainMenu s) = ''Opponent''"
  "g_peerIp (resetToMainMenu s) = 0"
  "g_peerPort (resetToMainMenu s) = UDP_PORT"
  "g_hasPeer (resetToMainMenu s) = False"
  "g_hostPaddleY (resetToMainMenu s) = FVal (135 / 2)"
  "g_clientPaddleY (resetToMainMenu s) = FVal (135 / 2)"
  "g_ballX (resetToMainMenu s) = FVal 120"
  "g_ballY (resetToMainMenu s) = FVal (135 / 2)"
  "g_ballVX (resetToMainMenu s) = FVal 0"
  "g_ballVY (resetToMainMenu s) = FVal 0"
  "g_hostScore (resetToMainMenu s) = 0"
  "g_clientScore (resetToMainMenu s) = 0"
  "g_matchActive (resetToMainMenu s) = False"
  "g_waitingForServe (resetToMainMenu s) = False"
  "g_gameOver (resetToMainMenu s) = False"
  "g_serveDirection (resetToMainMenu s) = g_serveDirection s"
  "g_lastStateSent (resetToMainMenu s) = g_lastStateSent s"
  "g_lastPaddleSent (resetToMainMenu s) = g_lastPaddleSent s"
  "g_lastJoinBroadcast (resetToMainMenu s) = g_lastJoinBroadcast s"
  "g_lastStateReceived (resetToMainMenu s) = g_lastStateReceived s"
  "g_lastFrameTick (resetToMainMenu s) = g_lastFrameTick s"
  "g_serveRequestTs (resetToMainMenu s) = g_serveRequestTs s"
  "g_frameCounter (resetToMainMenu s) = 0"
  "g_gamePaused (resetToMainMenu s) = False"
  "udp_sent (resetToMainMenu s) = udp_sent s"
  "random_seed (resetToMainMenu s) = random_seed s"
  by (simp_all add: resetToMainMenu_def)

lemma resetToWifiSetup_fields [simp]:
  "g_role (resetToWifiSetup s) = RoleNone"
  "g_screen (resetToWifiSetup s) = WifiSelect"
  "g_localPlayerName (resetToWifiSetup s) = g_localPlayerName s"
  "g_remotePlayerName (resetToWifiSetup s) = ''Opponent''"
  "g_peerIp (resetToWifiSetup s) = 0"
  "g_peerPort (resetToWifiSetup s) = UDP_PORT"
  "g_hasPeer (resetToWifiSetup s) = False"
  "g_hostPaddleY (resetToWifiSetup s) = FVal (135 / 2)"
  "g_clientPaddleY (resetToWifiSetup s) = FVal (135 / 2)"
  "g_ballX (resetToWifiSetup s) = FVal 120"
  "g_ballY (resetToWifiSetup s) = FVal (135 / 2)"
  "g_ballVX (resetToWifiSetup s) = FVal 0"
  "g_ballVY (resetToWifiSetup s) = FVal 0"
  "g_hostScore (resetToWifiSetup s) = 0"
  "g_clientScore (resetToWifiSetup s) = 0"
  "g_matchActive (resetToWifiSetup s) = False"
  "g_waitingForServe (resetToWifiSetup s) = False"
  "g_gameOver (resetToWifiSetup s) = False"
  "g_serveDirection (resetToWifiSetup s) = g_serveDirection s"
  "g_lastStateSent (resetToWifiSetup s) = g_lastStateSent s"
  "g_lastPaddleSent (resetToWifiSetup s) = g_lastPaddleSent s"
  "g_lastJoinBroadcast (resetToWifiSetup s) = g_lastJoinBroadcast s"
  "g_lastStateReceived (resetToWifiSetup s) = g_lastStateReceived s"
  "g_lastFrameTick (resetToWifiSetup s) = g_lastFrameTick s"
  "g_serveRequestTs (resetToWifiSetup s) = g_serveRequestTs s"
  "g_frameCounter (resetToWifiSetup s) = 0"
  "g_gamePaused (resetToWifiSetup s) = False"
  "udp_sent (resetToWifiSetup s) = udp_sent s"
  "random_seed (resetToWifiSetup s) = random_seed s"
  by (simp_all add: resetToWifiSetup_def)

subsection \<open>Applying a State packet\<close>

lemma match_state_processStatePacket:
  "match_state (processStatePacket packet millis s) =
     ((hostScore packet, clientScore packet),
      (ballX packet, ballY packet, ballVX packet, ballVY packet),
      (hostPaddleY packet, clientPaddleY packet),
      (bit (flags packet) 0 \<or> bit (flags packet) 1, bit (flags packet) 1,
       bit (flags packet) 2, bit (flags packet) 3))"
  by (simp add: processStatePacket_def Let_def match_state_def flag_bits)

lemma g_screen_processStatePacket:
  "g_screen (processStatePacket packet millis s) =
     (if bit (flags packet) 2 \<and> \<not> g_gameOver s then GameOver
      else if \<not> bit (flags packet) 2 \<and> (bit (flags packet) 0 \<or> bit (flags packet) 1)
      then Playing
      else g_screen s)"
  by (simp add: processStatePacket_def Let_def flag_bits)

text \<open>
  C8. Applying the same State packet a second time leaves every MatchState field
  (scores, ball position and velocity, paddle positions, flags) as the first
  application left it; the screen does not move either. The second application only
  renews the time stamp of the last State packet.
\<close>

theorem processStatePacket_idempotent:
  "match_state (processStatePacket packet t2 (processStatePacket packet t1 s))
     = match_state (processStatePacket packet t1 s)
   \<and> g_screen (processStatePacket packet t2 (processStatePacket packet t1 s))
     = g_screen (processStatePacket packet t1 s)"
proof -
  have "g_gameOver (processStatePacket packet t1 s) = bit (flags packet) 2"
    using match_state_processStatePacket[of packet t1 s] by (simp add: match_state_def)
  then show ?thesis
    by (simp add: match_state_processStatePacket g_screen_processStatePacket)
qed

theorem processStatePacket_idempotent_witness:
  "match_state (processStatePacket serve_only_packet 9000
       (processStatePacket serve_only_packet 8000 client_in_lobby))
     = ((3, 2), (FVal 120, FVal (135 / 2), FVal 0, FVal 0), (FVal 40, FVal 90),
        (True, True, False, False))
   \<and> match_state (processStatePacket serve_only_packet 8000 client_in_lobby)
     = ((3, 2), (FVal 120, FVal (135 / 2), FVal 0, FVal 0), (FVal 40, FVal 90),
        (True, True, False, False))"
  using processStatePacket_idempotent[of serve_only_packet 9000 8000 client_in_lobby]
  by (simp add: match_state_processStatePacket serve_only_packet_def)

subsection \<open>Datagrams that are dropped\<close>

lemma processDatagram_oversized:
  "length (d_bytes d) > 128 \<Longrightarrow> processDatagram d s = s"
  by (simp add: processDatagram_def)

lemma processDatagram_short:
  assumes "length (d_bytes d) < required_size (d_bytes d ! 0)"
  shows "processDatagram d s = s"
proof -
  let ?t = "d_bytes d ! 0"
  consider "?t = 1" | "?t = 2" | "?t = 5" | "?t = 3" | "?t = 4"
    | "?t \<noteq> 1 \<and> ?t \<noteq> 2 \<and> ?t \<noteq> 5 \<and> ?t \<noteq> 3 \<and> ?t \<noteq> 4"
    by blast
  then show ?thesis
  proof cases
    case 1
    with assms have "\<not> length (d_bytes d) \<ge> sizeof_JoinPacket"
      by (simp add: required_size_def)
    with 1 show ?thesis by (simp add: processDatagram_def Let_def)
  next
    case 2
    with assms have "\<not> length (d_bytes d) \<ge> sizeof_JoinAckPacket"
      by (simp add: required_size_def)
    with 2 show ?thesis by (simp add: processDatagram_def Let_def)
  next
    case 3
    with assms have "\<not> length (d_bytes d) \<ge> sizeof_StartPacket"
      by (simp add: required_size_def)
    with 3 show ?thesis by (simp add: processDatagram_def Let_def)
  next
    case 4
    with assms have "\<not> length (d_bytes d) \<ge> sizeof_StatePacket"
      by (simp add: required_size_def)
    with 4 show ?thesis by (simp add: processDatagram_def Let_def)
  next
    case 5
    with assms have "\<not> length (d_bytes d) \<ge> sizeof_PaddlePacket"
      by (simp add: required_size_def)
    with 5 show ?thesis by (simp add: processDatagram_def Let_def)
  next
    case 6
    then show ?thesis by (simp add: processDatagram_def Let_def)
  qed
qed

text \<open>The ways one datagram can be handled, as a case rule.\<close>

lemma processDatagram_cases [consumes 0, case_names drop join joinack start_host start_other state paddle]:
  obtains "processDatagram d s = s"
  | "g_role s = Host" "g_screen s = HostWaiting"
    "d_bytes d ! 0 = 1" "17 \<le> length (d_bytes d)" "length (d_bytes d) \<le> 128"
    "processDatagram d s =
       setScreen Lobby (resetMatchState (sendJoinAck
         ((setRemotePlayerName (wire_to_cstring (d_bytes d)) s)
            \<lparr>g_peerIp := d_remoteIP d, g_peerPort := d_remotePort d, g_hasPeer := True\<rparr>)))"
  | "g_role s = Client" "g_screen s = ClientSearching"
    "d_bytes d ! 0 = 2" "17 \<le> length (d_bytes d)" "length (d_bytes d) \<le> 128"
    "processDatagram d s =
       setScreen Lobby (resetMatchState
         ((setRemotePlayerName (wire_to_cstring (d_bytes d)) s)
            \<lparr>g_peerIp := d_remoteIP d, g_peerPort := d_remotePort d, g_hasPeer := True\<rparr>))"
  | "g_role s = Host"
    "d_bytes d ! 0 = 5" "5 \<le> length (d_bytes d)" "length (d_bytes d) \<le> 128"
    "processDatagram d s = hostStartMatch (u32_at (d_bytes d) 1) (d_millis d) s"
  | "g_role s \<noteq> Host"
    "d_bytes d ! 0 = 5" "5 \<le> length (d_bytes d)" "length (d_bytes d) \<le> 128"
    "processDatagram d s = clientStartMatch (u32_at (d_bytes d) 1) s"
  | "g_role s = Client"
    "d_bytes d ! 0 = 3" "32 \<le> length (d_bytes d)" "length (d_bytes d) \<le> 128"
    "processDatagram d s = processStatePacket (decode_StatePacket (d_bytes d)) (d_millis d) s"
  | "g_role s = Host" "g_hasPeer s"
    "d_bytes d ! 0 = 4" "5 \<le> length (d_bytes d)" "length (d_bytes d) \<le> 128"
    "processDatagram d s =
       s\<lparr>g_clientPaddleY := clampValue (float_at (d_bytes d) 1) PADDLE_HALF_HEIGHT
            (fsub (float_of_int SCREEN_HEIGHT) PADDLE_HALF_HEIGHT)\<rparr>"
proof -
  let ?t = "d_bytes d ! 0"
  let ?n = "length (d_bytes d)"
  have "?n > 128 \<or> ?n < required_size ?t
      \<or> (?n \<le> 128 \<and> ?t = 1 \<and> 17 \<le> ?n \<and> d_bytes d \<noteq> []) \<or> (?n \<le> 128 \<and> ?t = 2 \<and> 17 \<le> ?n \<and> d_bytes d \<noteq> [])
      \<or> (?n \<le> 128 \<and> ?t = 5 \<and> 5 \<le> ?n \<and> d_bytes d \<noteq> []) \<or> (?n \<le> 128 \<and> ?t = 3 \<and> 32 \<le> ?n \<and> d_bytes d \<noteq> [])
      \<or> (?n \<le> 128 \<and> ?t = 4 \<and> 5 \<le> ?n \<and> d_bytes d \<noteq> [])
      \<or> (?t \<noteq> 1 \<and> ?t \<noteq> 2 \<and> ?t \<noteq> 5 \<and> ?t \<noteq> 3 \<and> ?t \<noteq> 4)"
    by (auto simp add: required_size_def sizeof_values)
  then consider "?n > 128" | "?n < required_size ?t"
    | "?n \<le> 128" "?t = 1" "17 \<le> ?n" "d_bytes d \<noteq> []" | "?n \<le> 128" "?t = 2" "17 \<le> ?n" "d_bytes d \<noteq> []"
    | "?n \<le> 128" "?t = 5" "5 \<le> ?n" "d_bytes d \<noteq> []" | "?n \<le> 128" "?t = 3" "32 \<le> ?n" "d_bytes d \<noteq> []"
    | "?n \<le> 128" "?t = 4" "5 \<le> ?n" "d_bytes d \<noteq> []"
    | "?t \<noteq> 1 \<and> ?t \<noteq> 2 \<and> ?t \<noteq> 5 \<and> ?t \<noteq> 3 \<and> ?t \<noteq> 4"
    by blast
  then show ?thesis
  proof cases
    case 1 then show ?thesis using processDatagram_oversized that(1) by blast
  next
    case 2 then show ?thesis using processDatagram_short that(1) by blast
  next
    case 3
    show ?thesis
    proof (cases "g_role s = Host \<and> g_screen s = HostWaiting")
      case True
      with 3 have "processDatagram d s =
       setScreen Lobby (resetMatchState (sendJoinAck
         ((setRemotePlayerName (wire_to_cstring (d_bytes d)) s)
            \<lparr>g_peerIp := d_remoteIP d, g_peerPort := d_remotePort d, g_hasPeer := True\<rparr>)))"
        by (simp add: processDatagram_def Let_def sizeof_values)
      with True 3 that(2) show ?thesis by blast
    next
      case False
      with 3 have "processDatagram d s = s"
        by (cases "g_role s = Host") (simp_all add: processDatagram_def Let_def sizeof_values)
      with that(1) show ?thesis by blast
    qed
  next
    case 4
    show ?thesis
    proof (cases "g_role s = Client \<and> g_screen s = ClientSearching")
      case True
      with 4 have "processDatagram d s =
       setScreen Lobby (resetMatchState
         ((setRemotePlayerName (wire_to_cstring (d_bytes d)) s)
            \<lparr>g_peerIp := d_remoteIP d, g_peerPort := d_remotePort d, g_hasPeer := True\<rparr>))"
        by (simp add: processDatagram_def Let_def sizeof_values)
      with True 4 that(3) show ?thesis by blast
    next
      case False
      with 4 have "processDatagram d s = s"
        by (cases "g_role s = Client") (simp_all add: processDatagram_def Let_def sizeof_values)
      with that(1) show ?thesis by blast
    qed
  next
    case 5
    show ?thesis
    proof (cases "g_role s = Host")
      case True
      with 5 have "processDatagram d s = hostStartMatch (u32_at (d_bytes d) 1) (d_millis d) s"
        by (simp add: processDatagram_def Let_def sizeof_values)
      with True 5 that(4) show ?thesis by blast
    next
      case False
      with 5 have "processDatagram d s = clientStartMatch (u32_at (d_bytes d) 1) s"
        by (simp add: processDatagram_def Let_def sizeof_values)
      with False 5 that(5) show ?thesis by blast
    qed
  next
    case 6
    show ?thesis
    proof (cases "g_role s = Client")
      case True
      with 6 have "processDatagram d s = processStatePacket (decode_StatePacket (d_bytes d)) (d_millis d) s"
        by (simp add: processDatagram_def Let_def sizeof_values)
      with True 6 that(6) show ?thesis by blast
    next
      case False
      with 6 have "processDatagram d s = s"
        by (simp add: processDatagram_def Let_def sizeof_values)
      with that(1) show ?thesis by blast
    qed
  next
    case 7
    show ?thesis
    proof (cases "g_role s = Host \<and> g_hasPeer s")
      case True
      with 7 have "processDatagram d s =
       s\<lparr>g_clientPaddleY := clampValue (float_at (d_bytes d) 1) PADDLE_HALF_HEIGHT
            (fsub (float_of_int SCREEN_HEIGHT) PADDLE_HALF_HEIGHT)\<rparr>"
        by (simp add: processDatagram_def Let_def sizeof_values)
      with True 7 that(7) show ?thesis by blast
    next
      case False
      with 7 have "processDatagram d s = s"
        by (cases "g_role s = Host") (simp_all add: processDatagram_def Let_def sizeof_values)
      with that(1) show ?thesis by blast
    qed
  next
    case 8
    then have "processDatagram d s = s"
      by (simp add: processDatagram_def Let_def)
    with that(1) show ?thesis by blast
  qed
qed

text \<open>
  C7. A datagram of more than 128 bytes, or shorter than the size that the kind named
  by its first byte requires, is dropped: the receive path returns the globals as they
  were (match state, peer link, screen, error message and the list of packets sent),
  and the rest of the queue is handled as if the datagram had not been there.
\<close>

theorem malformed_datagram_discarded:
  assumes "length (d_bytes d) > 128 \<or> length (d_bytes d) < required_size (d_bytes d ! 0)"
  shows "processDatagram d s = s
         \<and> (d_bytes d \<noteq> [] \<longrightarrow> processNetwork (d # ds) s = processNetwork ds s)"
proof -
  have "processDatagram d s = s"
    using assms processDatagram_oversized processDatagram_short by blast
  then show ?thesis by simp
qed

theorem malformed_datagram_discarded_witness:
  "length (d_bytes truncated_state_datagram)
     < required_size (d_bytes truncated_state_datagram ! 0)
   \<and> processDatagram truncated_state_datagram client_in_lobby = client_in_lobby
   \<and> processNetwork [truncated_state_datagram, oversized_datagram] client_in_lobby
       = client_in_lobby"
proof -
  have short: "length (d_bytes truncated_state_datagram)
      < required_size (d_bytes truncated_state_datagram ! 0)"
    by (simp add: truncated_state_datagram_def required_size_def sizeof_values)
  have big: "length (d_bytes oversized_datagram) > 128"
    by (simp add: oversized_datagram_def)
  have ne: "d_bytes truncated_state_datagram \<noteq> []" "d_bytes oversized_datagram \<noteq> []"
    by (simp_all add: truncated_state_datagram_def oversized_datagram_def)
  from short ne
    malformed_datagram_discarded[of truncated_state_datagram client_in_lobby
      "[oversized_datagram]"]
  have a: "processDatagram truncated_state_datagram client_in_lobby = client_in_lobby"
    and b: "processNetwork [truncated_state_datagram, oversized_datagram] client_in_lobby
            = processNetwork [oversized_datagram] client_in_lobby"
    by simp_all
  from big ne malformed_datagram_discarded[of oversized_datagram client_in_lobby "[]"]
  have c: "processNetwork [oversized_datagram] client_in_lobby = client_in_lobby"
    by simp
  from short a b c show ?thesis by simp
qed

subsection \<open>The score invariant\<close>

lemma score_step:
  "(x::u8) < MAX_SCORE \<Longrightarrow> x + 1 \<le> MAX_SCORE"
  "(x::u8) < MAX_SCORE \<Longrightarrow> \<not> x + 1 \<ge> MAX_SCORE \<Longrightarrow> x + 1 < MAX_SCORE"
  unfolding MAX_SCORE_def by unat_arith+

lemma zero_scores: "(0::u8) < MAX_SCORE" "(0::u8) \<le> MAX_SCORE"
  by (simp_all add: MAX_SCORE_def)

lemma score_inv_view: "score_view s' = score_view s \<Longrightarrow> score_inv b s' = score_inv b s"
  by (auto simp add: score_view_def score_inv_def scores_bounded_def host_scores_inv_def)

lemma score_inv_zero:
  "g_hostScore s = 0 \<Longrightarrow> g_clientScore s = 0 \<Longrightarrow> score_inv b s"
  by (simp add: score_inv_def scores_bounded_def host_scores_inv_def zero_scores)

lemma score_view_unchanged [simp]:
  "score_view (setScreen next s) = score_view s"
  "score_view (setRemotePlayerName name s) = score_view s"
  "score_view (udp_write ip port packet s) = score_view s"
  "score_view (sendJoinBroadcast s) = score_view s"
  "score_view (sendJoinAck s) = score_view s"
  "score_view (sendStartPacket seed s) = score_view s"
  "score_view (sendStatePacket millis s) = score_view s"
  "score_view (sendPaddlePacket millis s) = score_view s"
  "score_view (handleConnectionTimeout now s) = score_view s"
  by (simp_all add: score_view_def)



lemma processDatagram_state_scores:
  assumes "g_role s = Client"
    "d_bytes d ! 0 = 3" "32 \<le> length (d_bytes d)" "length (d_bytes d) \<le> 128"
    "processDatagram d s = processStatePacket (decode_StatePacket (d_bytes d)) (d_millis d) s"
  shows "g_role (processDatagram d s) = Client"
    "g_hostScore (processDatagram d s) = d_bytes d ! 2"
    "g_clientScore (processDatagram d s) = d_bytes d ! 3"
    using assms by (simp_all add: decode_StatePacket_def)

lemma processDatagram_paddle_view:
  assumes "g_role s = Host" "g_hasPeer s"
    "d_bytes d ! 0 = 4" "5 \<le> length (d_bytes d)" "length (d_bytes d) \<le> 128"
    "processDatagram d s =
       s\<lparr>g_clientPaddleY := clampValue (float_at (d_bytes d) 1) PADDLE_HALF_HEIGHT
            (fsub (float_of_int SCREEN_HEIGHT) PADDLE_HALF_HEIGHT)\<rparr>"
  shows "score_view (processDatagram d s) = score_view s"
  using assms  by (simp add: score_view_def)


lemma score_inv_processDatagram:
  assumes "score_inv b s" and "b \<longrightarrow> applied_scores_ok d s"
  shows "score_inv b (processDatagram d s)"
proof (cases rule: processDatagram_cases[of d s])
  case drop
  with assms(1) show ?thesis by simp
next
  case join
  from join(6) show ?thesis by (simp add: score_inv_zero)
next
  case joinack
  from joinack(6) show ?thesis by (simp add: score_inv_zero)
next
  case start_host
  from start_host(5) show ?thesis by (simp add: score_inv_zero)
next
  case start_other
  from start_other(5) show ?thesis by (simp add: score_inv_zero)
next
  case state
  have "g_role (processDatagram d s) = Client"
    "g_hostScore (processDatagram d s) = d_bytes d ! 2"
    "g_clientScore (processDatagram d s) = d_bytes d ! 3"
    using state by (rule processDatagram_state_scores)+
  moreover have "is_State d" using state(2,3,4) by (auto simp add: is_State_def sizeof_values)
  then have "b \<longrightarrow> d_bytes d ! 2 \<le> MAX_SCORE \<and> d_bytes d ! 3 \<le> MAX_SCORE"
    using assms(2) state(1) by (simp add: applied_scores_ok_def)
  ultimately show ?thesis
    by (simp add: score_inv_def scores_bounded_def host_scores_inv_def)
next
  case paddle
  then have "score_view (processDatagram d s) = score_view s"
    by (rule processDatagram_paddle_view)
  from score_inv_view[OF this] assms(1) show ?thesis by simp
qed

lemma score_inv_processNetwork:
  assumes "score_inv b s" and "b \<longrightarrow> network_ok applied_scores_ok ds s"
  shows "score_inv b (processNetwork ds s)"
  using assms
proof (induction ds arbitrary: s)
  case Nil
  then show ?case by simp
next
  case (Cons d ds)
  show ?case
  proof (cases "length (d_bytes d) > 0")
    case False
    with Cons.prems(1) show ?thesis by simp
  next
    case True
    with Cons.prems(2) have a: "b \<longrightarrow> applied_scores_ok d s"
      and r: "b \<longrightarrow> network_ok applied_scores_ok ds (processDatagram d s)"
      by simp_all
    from Cons.prems(1) a have "score_inv b (processDatagram d s)"
      by (rule score_inv_processDatagram)
    from Cons.IH[OF this r] True show ?thesis by simp
  qed
qed


lemma score_inv_step:
  assumes "score_inv b s"
    and "score_view s' = score_view s \<or> (g_hostScore s' = 0 \<and> g_clientScore s' = 0)"
  shows "score_inv b s'"
  using assms score_inv_view[of s' s b] score_inv_zero[of s' b] by blast

lemma score_view_gameplay [simp]:
  "score_view (host_move_paddle dt inp s) = score_view s"
  "score_view (ball_integrate dt s) = score_view s"
  "score_view (ball_walls s) = score_view s"
  "score_view (host_paddle_collision s) = score_view s"
  "score_view (client_paddle_collision s) = score_view s"
  "score_view (updateClientGameplay dt inp s) = score_view s"
  by (simp_all add: score_view_def host_move_paddle_def ball_integrate_def ball_walls_def
      host_paddle_collision_def client_paddle_collision_def updateClientGameplay_def Let_def)

lemma score_inv_host_scoring:
  assumes "g_hostScore s < MAX_SCORE" and "g_clientScore s < MAX_SCORE"
  shows "score_inv b (host_scoring millis s)"
  using assms
  by (simp add: host_scoring_def Let_def score_inv_def scores_bounded_def host_scores_inv_def
      score_step order_less_imp_le)

lemma score_inv_updateHostGameplay:
  assumes "score_inv b s" and "g_role s = Host"
  shows "score_inv b (updateHostGameplay dt inp s)"
proof (cases "\<not> g_matchActive s \<and> \<not> g_waitingForServe s")
  case True
  with assms(1) show ?thesis by (simp add: updateHostGameplay_def)
next
  case False
  with assms have lt: "g_hostScore s < MAX_SCORE" "g_clientScore s < MAX_SCORE"
    by (auto simp add: score_inv_def host_scores_inv_def)
  define s2 where "s2 = checkForServeLaunch (in_millis_later inp) (in_random inp)
                          (host_move_paddle dt inp s)"
  have s2: "g_hostScore s2 = g_hostScore s" "g_clientScore s2 = g_clientScore s"
    "g_role s2 = g_role s"
    using score_view_gameplay(1)[of dt inp s]
    by (simp_all add: s2_def checkForServeLaunch_def score_view_def)
  show ?thesis
  proof (cases "g_waitingForServe s2")
    case True
    have "score_inv b s2"
      using lt s2 by (simp add: score_inv_def scores_bounded_def host_scores_inv_def
          order_less_imp_le)
    with True False show ?thesis by (auto simp add: updateHostGameplay_def Let_def s2_def)
  next
    case ws: False
    define s3 where "s3 = client_paddle_collision (host_paddle_collision
                            (ball_walls (ball_integrate dt s2)))"
    have "score_view s3 = score_view s2" by (simp add: s3_def)
    with s2 lt have "g_hostScore s3 < MAX_SCORE" "g_clientScore s3 < MAX_SCORE"
      by (simp_all add: score_view_def)
    then have "score_inv b (host_scoring (in_millis_later inp) s3)"
      by (rule score_inv_host_scoring)
    with ws False show ?thesis by (auto simp add: updateHostGameplay_def Let_def s2_def s3_def)
  qed
qed


lemma score_inv_loop_WifiSelect:
  "score_inv b s \<Longrightarrow> score_inv b (loop_WifiSelect inp s)"
proof -
  have "score_view (loop_WifiSelect inp s) = score_view s"
    by (simp add: loop_WifiSelect_def Let_def score_view_def)
  then show "score_inv b s \<Longrightarrow> score_inv b (loop_WifiSelect inp s)"
    by (simp add: score_inv_view[of "loop_WifiSelect inp s" s])
qed

lemma score_inv_loop_WifiPassword:
  "score_inv b s \<Longrightarrow> score_inv b (loop_WifiPassword inp s)"
proof -
  have "score_view (loop_WifiPassword inp s) = score_view s"
    by (cases "wifi_connect inp")
       (simp_all add: loop_WifiPassword_def Let_def score_view_def connectToWiFi_def)
  then show "score_inv b s \<Longrightarrow> score_inv b (loop_WifiPassword inp s)"
    by (simp add: score_inv_view[of "loop_WifiPassword inp s" s])
qed

lemma score_inv_loop_NameEntry:
  assumes "score_inv b s" shows "score_inv b (loop_NameEntry inp s)"
proof -
  have "score_view (loop_NameEntry inp s) = score_view s
      \<or> (g_hostScore (loop_NameEntry inp s) = 0 \<and> g_clientScore (loop_NameEntry inp s) = 0)"
    by (simp add: loop_NameEntry_def Let_def score_view_def)
  with assms show ?thesis by (rule score_inv_step)
qed

lemma score_inv_loop_RoleSelect:
  assumes "score_inv b s" shows "score_inv b (loop_RoleSelect inp s)"
proof -
  have "score_view (loop_RoleSelect inp s) = score_view s
      \<or> (g_hostScore (loop_RoleSelect inp s) = 0 \<and> g_clientScore (loop_RoleSelect inp s) = 0)"
    by (simp add: loop_RoleSelect_def startHosting_def startJoining_def resetUdp_def
        score_view_def)
  with assms show ?thesis by (rule score_inv_step)
qed

lemma score_inv_loop_HostWaiting:
  assumes "score_inv b s" shows "score_inv b (loop_HostWaiting inp s)"
proof -
  have "score_view (loop_HostWaiting inp s) = score_view s
      \<or> (g_hostScore (loop_HostWaiting inp s) = 0 \<and> g_clientScore (loop_HostWaiting inp s) = 0)"
    by (simp add: loop_HostWaiting_def)
  with assms show ?thesis by (rule score_inv_step)
qed

lemma score_inv_loop_ClientSearching:
  assumes "score_inv b s" shows "score_inv b (loop_ClientSearching now inp s)"
proof -
  have "score_view (loop_ClientSearching now inp s) = score_view s
      \<or> (g_hostScore (loop_ClientSearching now inp s) = 0
          \<and> g_clientScore (loop_ClientSearching now inp s) = 0)"
    by (simp add: loop_ClientSearching_def score_view_def)
  with assms show ?thesis by (rule score_inv_step)
qed

lemma score_inv_loop_Lobby:
  assumes "score_inv b s" shows "score_inv b (loop_Lobby inp s)"
proof -
  have "score_view (loop_Lobby inp s) = score_view s
      \<or> (g_hostScore (loop_Lobby inp s) = 0 \<and> g_clientScore (loop_Lobby inp s) = 0)"
    by (simp add: loop_Lobby_def Let_def)
  with assms show ?thesis by (rule score_inv_step)
qed

lemma score_inv_loop_GameOver:
  assumes "score_inv b s" shows "score_inv b (loop_GameOver inp s)"
proof -
  have "score_view (loop_GameOver inp s) = score_view s
      \<or> (g_hostScore (loop_GameOver inp s) = 0 \<and> g_clientScore (loop_GameOver inp s) = 0)"
    by (simp add: loop_GameOver_def Let_def)
  with assms show ?thesis by (rule score_inv_step)
qed

lemma score_inv_loop_Error:
  assumes "score_inv b s" shows "score_inv b (loop_Error inp s)"
proof -
  have "score_view (loop_Error inp s) = score_view s
      \<or> (g_hostScore (loop_Error inp s) = 0 \<and> g_clientScore (loop_Error inp s) = 0)"
    by (simp add: loop_Error_def)
  with assms show ?thesis by (rule score_inv_step)
qed


lemma score_inv_loop_Playing:
  assumes "score_inv b s" shows "score_inv b (loop_Playing now dt inp s)"
proof -
  define s1 where "s1 = (if jp_esc inp \<and> g_role s = Host
                         then s\<lparr>g_gamePaused := \<not> g_gamePaused s\<rparr> else s)"
  have "score_view s1 = score_view s" by (simp add: s1_def score_view_def)
  from score_inv_view[OF this] assms have inv1: "score_inv b s1" by simp
  define s2 where "s2 =
     (if g_role s1 = Host
      then let s1a = (if \<not> g_gamePaused s1 then updateHostGameplay dt inp s1 else s1)
           in if jp_esc inp \<or> now - g_lastStateSent s1a > STATE_SEND_INTERVAL_MS
              then sendStatePacket (in_millis_later inp) s1a
              else s1a
      else if \<not> g_gamePaused s1 then updateClientGameplay dt inp s1
      else s1)"
  have inv2: "score_inv b s2"
  proof (cases "g_role s1 = Host")
    case True
    define s1a where "s1a = (if \<not> g_gamePaused s1 then updateHostGameplay dt inp s1 else s1)"
    have "score_inv b s1a"
      using inv1 True by (simp add: s1a_def score_inv_updateHostGameplay)
    moreover have "score_view s2 = score_view s1a"
      using True by (simp add: s2_def Let_def s1a_def)
    ultimately show ?thesis using score_inv_view[of s2 s1a b] by simp
  next
    case False
    then have "score_view s2 = score_view s1" by (simp add: s2_def)
    with inv1 show ?thesis using score_inv_view[of s2 s1 b] by simp
  qed
  have "loop_Playing now dt inp s = (if jp_Q inp then resetToMainMenu s2 else s2)"
    by (simp add: loop_Playing_def Let_def s2_def s1_def)
  then have "score_view (loop_Playing now dt inp s) = score_view s2
      \<or> (g_hostScore (loop_Playing now dt inp s) = 0
          \<and> g_clientScore (loop_Playing now dt inp s) = 0)"
    by simp
  with inv2 show ?thesis by (rule score_inv_step)
qed

lemma score_inv_loop:
  assumes "score_inv b s" and "b \<longrightarrow> network_ok applied_scores_ok (in_datagrams inp) s"
  shows "score_inv b (loop inp s)"
proof -
  define s3 where "s3 = (handleConnectionTimeout (in_millis_timeout inp)
                           (processNetwork (in_datagrams inp) s))
                          \<lparr>g_lastFrameTick := in_millis inp\<rparr>"
  define dt where "dt = fdiv (float_of_int (uint (in_millis inp - g_lastFrameTick
      (handleConnectionTimeout (in_millis_timeout inp) (processNetwork (in_datagrams inp) s)))))
      (FVal 1000)"
  define s4 where "s4 =
     (case g_screen s3 of
        WifiSelect \<Rightarrow> loop_WifiSelect inp s3
      | WifiPassword \<Rightarrow> loop_WifiPassword inp s3
      | NameEntry \<Rightarrow> loop_NameEntry inp s3
      | RoleSelect \<Rightarrow> loop_RoleSelect inp s3
      | HostWaiting \<Rightarrow> loop_HostWaiting inp s3
      | ClientSearching \<Rightarrow> loop_ClientSearching (in_millis inp) inp s3
      | Lobby \<Rightarrow> loop_Lobby inp s3
      | Playing \<Rightarrow> loop_Playing (in_millis inp) dt inp s3
      | GameOver \<Rightarrow> loop_GameOver inp s3
      | Error \<Rightarrow> loop_Error inp s3)"
  have "score_inv b (processNetwork (in_datagrams inp) s)"
    using assms by (rule score_inv_processNetwork)
  moreover have "score_view s3 = score_view (processNetwork (in_datagrams inp) s)"
    by (simp add: s3_def score_view_def)
  ultimately have inv3: "score_inv b s3"
    using score_inv_view[of s3 "processNetwork (in_datagrams inp) s" b] by simp
  have inv4: "score_inv b s4"
    unfolding s4_def using inv3
    by (cases "g_screen s3")
       (simp_all add: score_inv_loop_WifiSelect score_inv_loop_WifiPassword
         score_inv_loop_NameEntry score_inv_loop_RoleSelect score_inv_loop_HostWaiting
         score_inv_loop_ClientSearching score_inv_loop_Lobby score_inv_loop_Playing
         score_inv_loop_GameOver score_inv_loop_Error)
  have "loop inp s = (if g_screen s4 \<noteq> Playing \<and> g_screenDirty s4
                      then s4\<lparr>g_screenDirty := False\<rparr> else s4)"
    unfolding loop_def Let_def s4_def s3_def dt_def by (rule refl)
  then have "score_view (loop inp s) = score_view s4"
    by (simp add: score_view_def)
  with inv4 show ?thesis using score_inv_view[of "loop inp s" s4 b] by simp
qed

lemma score_inv_run:
  assumes "score_inv b s" and "b \<longrightarrow> run_ok applied_scores_ok inps s"
  shows "score_inv b (run inps s)"
  using assms
proof (induction inps arbitrary: s)
  case Nil
  then show ?case by simp
next
  case (Cons inp inps)
  from Cons.prems(2) have a: "b \<longrightarrow> network_ok applied_scores_ok (in_datagrams inp) s"
    and r: "b \<longrightarrow> run_ok applied_scores_ok inps (loop inp s)"
    by simp_all
  from Cons.prems(1) a have "score_inv b (loop inp s)" by (rule score_inv_loop)
  from Cons.IH[OF this r] show ?case by simp
qed

lemma score_inv_setup: "score_inv b (arduino_setup stored r millis initial_globals)"
proof -
  have "g_hostScore (arduino_setup stored r millis initial_globals) = 0"
    "g_clientScore (arduino_setup stored r millis initial_globals) = 0"
    by (cases r; simp add: arduino_setup_def Let_def onScreenEnter_def connectToWiFi_def
        initial_globals_def)+
  then show ?thesis by (rule score_inv_zero)
qed

subsection \<open>A session from power-up to a searching client\<close>

lemma frame_leave_wifi_menu:
  assumes "g_screen s = WifiSelect" "\<not> g_hasPeer s" "in_datagrams inp = []"
    "jp_Q inp" "wifi_connected inp" "\<not> jp_enter inp"
  shows "g_screen (loop inp s) = NameEntry" "g_role (loop inp s) = g_role s"
    "g_hasPeer (loop inp s) = g_hasPeer s"
    "g_lastStateReceived (loop inp s) = g_lastStateReceived s"
  using assms
  by (simp_all add: loop_def Let_def handleConnectionTimeout_def loop_WifiSelect_def)

lemma frame_confirm_name:
  assumes "g_screen s = NameEntry" "\<not> g_hasPeer s" "in_datagrams inp = []"
    "jp_enter inp" "\<not> jp_Q inp"
  shows "g_screen (loop inp s) = RoleSelect" "g_role (loop inp s) = g_role s"
    "g_hasPeer (loop inp s) = g_hasPeer s"
    "g_lastStateReceived (loop inp s) = g_lastStateReceived s"
  using assms
  by (simp_all add: loop_def Let_def handleConnectionTimeout_def loop_NameEntry_def)

lemma frame_start_joining:
  assumes "g_screen s = RoleSelect" "\<not> g_hasPeer s" "in_datagrams inp = []"
    "jp_J inp" "\<not> jp_H inp" "udp_begin_ok inp"
  shows "g_screen (loop inp s) = ClientSearching" "g_role (loop inp s) = Client"
    "g_hasPeer (loop inp s) = False"
    "g_lastStateReceived (loop inp s) = g_lastStateReceived s"
  using assms
  by (simp_all add: loop_def Let_def handleConnectionTimeout_def loop_RoleSelect_def
      startJoining_def resetUdp_def)

lemma setup_fields:
  "g_screen (arduino_setup False r millis initial_globals) = WifiSelect"
  "g_role (arduino_setup False r millis initial_globals) = RoleNone"
  "g_hasPeer (arduino_setup False r millis initial_globals) = False"
  "g_lastStateReceived (arduino_setup False r millis initial_globals) = 0"
  by (simp_all add: arduino_setup_def Let_def onScreenEnter_def initial_globals_def)

lemma client_after_frames_to_client:
  "g_screen (run frames_to_client (arduino_setup False Connected 0 initial_globals)) = ClientSearching"
  "g_role (run frames_to_client (arduino_setup False Connected 0 initial_globals)) = Client"
  "g_hasPeer (run frames_to_client (arduino_setup False Connected 0 initial_globals)) = False"
  "g_lastStateReceived (run frames_to_client (arduino_setup False Connected 0 initial_globals))
     = 0"
proof -
  let ?s0 = "arduino_setup False Connected 0 initial_globals"
  let ?i1 = "idle_inputs\<lparr>in_millis := 1000, jp_Q := True\<rparr>"
  let ?i2 = "idle_inputs\<lparr>in_millis := 2000, jp_enter := True\<rparr>"
  let ?i3 = "idle_inputs\<lparr>in_millis := 3000, jp_J := True\<rparr>"
  have s1: "g_screen (loop ?i1 ?s0) = NameEntry" "\<not> g_hasPeer (loop ?i1 ?s0)"
    "g_lastStateReceived (loop ?i1 ?s0) = 0"
    by (simp_all add: frame_leave_wifi_menu setup_fields idle_inputs_def)
  have s2: "g_screen (loop ?i2 (loop ?i1 ?s0)) = RoleSelect"
    "\<not> g_hasPeer (loop ?i2 (loop ?i1 ?s0))"
    "g_lastStateReceived (loop ?i2 (loop ?i1 ?s0)) = 0"
    using s1 by (simp_all add: frame_confirm_name idle_inputs_def)
  have s3: "g_screen (loop ?i3 (loop ?i2 (loop ?i1 ?s0))) = ClientSearching"
    "g_role (loop ?i3 (loop ?i2 (loop ?i1 ?s0))) = Client"
    "g_hasPeer (loop ?i3 (loop ?i2 (loop ?i1 ?s0))) = False"
    "g_lastStateReceived (loop ?i3 (loop ?i2 (loop ?i1 ?s0))) = 0"
    using s2 by (simp_all add: frame_start_joining idle_inputs_def)
  show "g_screen (run frames_to_client ?s0) = ClientSearching"
  "g_role (run frames_to_client ?s0) = Client"
  "g_hasPeer (run frames_to_client ?s0) = False"
  "g_lastStateReceived (run frames_to_client ?s0) = 0"
    using s3 by (simp_all add: frames_to_client_def)
qed


lemma processDatagram_state:
  assumes "g_role s = Client" "d_bytes d ! 0 = 3" "32 \<le> length (d_bytes d)"
    "length (d_bytes d) \<le> 128"
  shows "processDatagram d s
         = processStatePacket (decode_StatePacket (d_bytes d)) (d_millis d) s"
proof -
  from assms(3) have "d_bytes d \<noteq> []" by auto
  with assms show ?thesis by (simp add: processDatagram_def Let_def sizeof_values)
qed

lemma frame_client_state_datagram:
  assumes "g_role s = Client" "\<not> g_hasPeer s" "in_datagrams inp = [d]"
    "d_bytes d ! 0 = 3" "d_bytes d ! 1 = 1" "32 \<le> length (d_bytes d)"
    "length (d_bytes d) \<le> 128" "\<not> jp_Q inp"
  shows "g_hostScore (loop inp s) = d_bytes d ! 2"
    "g_hostPaddleY (loop inp s) = float_at (d_bytes d) 24"
    "g_role (loop inp s) = Client"
    "g_clientScore (loop inp s) = d_bytes d ! 3"
    "g_clientPaddleY (loop inp s) = float_at (d_bytes d) 28"
proof -
  let ?p = "decode_StatePacket (d_bytes d)"
  define s1 where "s1 = processStatePacket ?p (d_millis d) s"
  from assms(6) have ne: "length (d_bytes d) > 0" by auto
  have net: "processNetwork (in_datagrams inp) s = s1"
    using assms ne by (simp add: processDatagram_state s1_def)
  have fl: "flags ?p = 1" using assms(5) by (simp add: decode_StatePacket_def)
  have s1: "g_role s1 = Client" "\<not> g_hasPeer s1" "g_screen s1 = Playing"
    "g_hostScore s1 = d_bytes d ! 2" "g_hostPaddleY s1 = float_at (d_bytes d) 24"
    "\<not> g_gamePaused s1"
    "g_clientScore s1 = d_bytes d ! 3" "g_clientPaddleY s1 = float_at (d_bytes d) 28"
    using assms(1,2) fl
    by (simp_all add: s1_def g_screen_processStatePacket decode_StatePacket_def)
  show "g_hostScore (loop inp s) = d_bytes d ! 2"
    "g_hostPaddleY (loop inp s) = float_at (d_bytes d) 24"
    "g_role (loop inp s) = Client"
    "g_clientScore (loop inp s) = d_bytes d ! 3"
    "g_clientPaddleY (loop inp s) = float_at (d_bytes d) 28"
    using s1 assms(8)
    by (simp_all add: loop_def Let_def net handleConnectionTimeout_def loop_Playing_def
        updateClientGameplay_def)
qed

subsection \<open>Scores stay within 0..7\<close>

lemma goal_frame_fields:
  "in_datagrams goal_frame = []" "in_millis goal_frame = 20125"
  "in_millis_later goal_frame = 20125" "in_millis_timeout goal_frame = 20125"
  "\<not> jp_esc goal_frame" "\<not> jp_Q goal_frame" "\<not> held_semicolon goal_frame"
  "\<not> held_dot goal_frame"
  by (simp_all add: goal_frame_def idle_inputs_def)

lemma host_match_point_fields:
  "g_role host_match_point = Host" "g_screen host_match_point = Playing"
  "g_hasPeer host_match_point" "g_matchActive host_match_point"
  "\<not> g_waitingForServe host_match_point" "\<not> g_gamePaused host_match_point"
  "g_hostScore host_match_point = 6" "g_clientScore host_match_point = 3"
  "g_ballX host_match_point = FVal 244" "g_ballY host_match_point = FVal 60"
  "g_ballVX host_match_point = FVal 170" "g_ballVY host_match_point = FVal 0"
  "g_lastFrameTick host_match_point = 20000" "g_lastStateSent host_match_point = 20000"
  "g_hostPaddleY host_match_point = FVal (135 / 2)"
  "g_clientPaddleY host_match_point = FVal (135 / 2)"
  by (simp_all add: host_match_point_def host_in_lobby_def initial_globals_def half_screen)

text \<open>The frame in which the host scores its seventh point: the match is over.\<close>

lemma goal_scored:
  "g_hostScore (loop goal_frame host_match_point) = 7"
  "g_clientScore (loop goal_frame host_match_point) = 3"
  "g_screen (loop goal_frame host_match_point) = GameOver"
  "g_role (loop goal_frame host_match_point) = Host"
  using host_match_point_fields goal_frame_fields
  by (simp_all add: loop_def Let_def handleConnectionTimeout_def loop_Playing_def
      updateHostGameplay_def host_move_paddle_def checkForServeLaunch_def ball_integrate_def
      ball_walls_def host_paddle_collision_def client_paddle_collision_def host_scoring_def
      float_of_int_def fsub_def fgt_def fge_def clampValue_def PADDLE_HALF_HEIGHT_def
      PADDLE_HEIGHT_def
      BALL_RADIUS_def SCREEN_WIDTH_def SCREEN_HEIGHT_def CLIENT_PADDLE_X_def HOST_PADDLE_X_def
      PADDLE_WIDTH_def PADDLE_SPEED_def MAX_SCORE_def STATE_SEND_INTERVAL_MS_def)

lemma host_state_datagram_fields:
  "d_bytes host_state_datagram ! 0 = 3" "d_bytes host_state_datagram ! 1 = 1"
  "32 \<le> length (d_bytes host_state_datagram)" "length (d_bytes host_state_datagram) \<le> 128"
  "d_bytes host_state_datagram ! 2 = 5" "d_bytes host_state_datagram ! 3 = 3"
  "float_at (d_bytes host_state_datagram) 24 = FVal 40"
  "float_at (d_bytes host_state_datagram) 28 = FVal 90"
  "is_State host_state_datagram" "\<not> is_Paddle host_state_datagram"
  by (simp_all add: host_state_datagram_def float_at_def u32_at_def float_of_bits_def Let_def
      is_State_def is_Paddle_def sizeof_values)

lemma client_applies_host_state:
  "g_role (run frames_host_state (arduino_setup False Connected 0 initial_globals)) = Client"
  "g_hostScore (run frames_host_state (arduino_setup False Connected 0 initial_globals)) = 5"
  "g_clientScore (run frames_host_state (arduino_setup False Connected 0 initial_globals)) = 3"
  "g_hostPaddleY (run frames_host_state (arduino_setup False Connected 0 initial_globals))
     = FVal 40"
  "g_clientPaddleY (run frames_host_state (arduino_setup False Connected 0 initial_globals))
     = FVal 90"
proof -
  let ?s = "run frames_to_client (arduino_setup False Connected 0 initial_globals)"
  let ?i = "idle_inputs\<lparr>in_millis := 7001, in_datagrams := [host_state_datagram]\<rparr>"
  have eq: "run frames_host_state (arduino_setup False Connected 0 initial_globals) = loop ?i ?s"
    by (simp add: frames_host_state_def frames_to_client_def)
  have a: "g_role ?s = Client" "\<not> g_hasPeer ?s" "in_datagrams ?i = [host_state_datagram]"
    "\<not> jp_Q ?i"
    by (simp_all add: client_after_frames_to_client idle_inputs_def)
  note f = frame_client_state_datagram[OF a(1,2,3) host_state_datagram_fields(1,2,3,4) a(4)]
  show "g_role (run frames_host_state (arduino_setup False Connected 0 initial_globals)) = Client"
  "g_hostScore (run frames_host_state (arduino_setup False Connected 0 initial_globals)) = 5"
  "g_clientScore (run frames_host_state (arduino_setup False Connected 0 initial_globals)) = 3"
  "g_hostPaddleY (run frames_host_state (arduino_setup False Connected 0 initial_globals))
     = FVal 40"
  "g_clientPaddleY (run frames_host_state (arduino_setup False Connected 0 initial_globals))
     = FVal 90"
    unfolding eq using f host_state_datagram_fields by simp_all
qed

lemma scores_ok_frames_host_state:
  "run_ok applied_scores_ok frames_host_state s"
  using host_state_datagram_fields
  by (simp add: frames_host_state_def frames_to_client_def idle_inputs_def
      applied_scores_ok_def MAX_SCORE_def)

text \<open>
  C4 (as amended). A session starts at power-up, or in any state in which both scores
  are within 0..7 and a host's running match has no winner yet. After any sequence of
  frames, both scores are within 0..7 on a peer that is not a client (a host, or a peer
  with no role); on a client they are too, provided every datagram that the client
  applied as a State packet carried scores within 0..7 (\<open>applied_scores_ok\<close>).
\<close>

theorem scores_within_bounds:
  assumes "s0 = arduino_setup stored r millis initial_globals
           \<or> (scores_bounded s0 \<and> host_scores_inv s0)"
    and "g_role (run inps s0) \<noteq> Client \<or> run_ok applied_scores_ok inps s0"
  shows "unat (g_hostScore (run inps s0)) \<le> 7 \<and> unat (g_clientScore (run inps s0)) \<le> 7"
proof -
  have start: "score_inv b s0" for b
    using assms(1) score_inv_setup[of b stored r millis] by (auto simp add: score_inv_def)
  have bounded: "scores_bounded (run inps s0)"
  proof (cases "run_ok applied_scores_ok inps s0")
    case True
    then have "True \<longrightarrow> run_ok applied_scores_ok inps s0" by simp
    with start[of True] have "score_inv True (run inps s0)" by (rule score_inv_run)
    then show ?thesis by (simp add: score_inv_def)
  next
    case False
    with assms(2) have role: "g_role (run inps s0) \<noteq> Client" by simp
    have "False \<longrightarrow> run_ok applied_scores_ok inps s0" by simp
    with start[of False] have "score_inv False (run inps s0)" by (rule score_inv_run)
    with role show ?thesis by (simp add: score_inv_def)
  qed
  have "g_hostScore (run inps s0) \<le> 7" "g_clientScore (run inps s0) \<le> 7"
    using bounded by (simp_all add: scores_bounded_def MAX_SCORE_def)
  then show ?thesis by (simp add: word_le_nat_alt)
qed

text \<open>
  A host at match point scores: 7 to 3, and the match is over. A searching client, four
  frames after power-up, applies the State datagram of a host: 5 to 3.
\<close>

theorem scores_within_bounds_witness:
  "scores_bounded host_match_point \<and> host_scores_inv host_match_point
   \<and> g_role (run [goal_frame] host_match_point) = Host
   \<and> g_hostScore (run [goal_frame] host_match_point) = 7
   \<and> g_clientScore (run [goal_frame] host_match_point) = 3
   \<and> unat (g_hostScore (run [goal_frame] host_match_point)) \<le> 7
   \<and> unat (g_clientScore (run [goal_frame] host_match_point)) \<le> 7
   \<and> run_ok applied_scores_ok frames_host_state (arduino_setup False Connected 0 initial_globals)
   \<and> g_role (run frames_host_state (arduino_setup False Connected 0 initial_globals)) = Client
   \<and> g_hostScore (run frames_host_state (arduino_setup False Connected 0 initial_globals)) = 5
   \<and> g_clientScore (run frames_host_state (arduino_setup False Connected 0 initial_globals)) = 3
   \<and> unat (g_hostScore (run frames_host_state (arduino_setup False Connected 0 initial_globals)))
       \<le> 7
   \<and> unat (g_clientScore (run frames_host_state (arduino_setup False Connected 0 initial_globals)))
       \<le> 7"
proof -
  have h: "scores_bounded host_match_point" "host_scores_inv host_match_point"
    using host_match_point_fields
    by (simp_all add: scores_bounded_def host_scores_inv_def MAX_SCORE_def)
  have g: "g_role (run [goal_frame] host_match_point) = Host"
    "g_hostScore (run [goal_frame] host_match_point) = 7"
    "g_clientScore (run [goal_frame] host_match_point) = 3"
    using goal_scored by simp_all
  have ok: "run_ok applied_scores_ok frames_host_state
              (arduino_setup False Connected 0 initial_globals)"
    by (rule scores_ok_frames_host_state)
  from scores_within_bounds[of host_match_point False Connected 0 "[goal_frame]"]
    scores_within_bounds[of "arduino_setup False Connected 0 initial_globals"
      False Connected 0 frames_host_state]
    h g ok client_applies_host_state
  show ?thesis by simp
qed


text \<open>
  The claim as stated fails on a client: a searching client applies a datagram of the
  State layout whose host score byte is 200.
\<close>

theorem client_score_above_seven:
  "g_hostScore (run frames_forged_state (arduino_setup False Connected 0 initial_globals)) = 200"
proof -
  let ?s = "run frames_to_client (arduino_setup False Connected 0 initial_globals)"
  let ?i = "idle_inputs\<lparr>in_millis := 7001, in_datagrams := [forged_state_datagram]\<rparr>"
  have "g_hostScore (loop ?i ?s) = d_bytes forged_state_datagram ! 2"
    by (rule frame_client_state_datagram(1)[where d = forged_state_datagram])
       (simp_all add: client_after_frames_to_client idle_inputs_def forged_state_datagram_def)
  moreover have "run frames_forged_state (arduino_setup False Connected 0 initial_globals)
      = loop ?i ?s"
    by (simp add: frames_forged_state_def frames_to_client_def)
  ultimately show ?thesis by (simp add: forged_state_datagram_def)
qed

subsection \<open>A client never counts points itself\<close>

lemma g_role_processDatagram [simp]: "g_role (processDatagram d s) = g_role s"
proof (cases rule: processDatagram_cases[of d s])
  case drop then show ?thesis by simp
next
  case join from join(6) show ?thesis by simp
next
  case joinack from joinack(6) show ?thesis by simp
next
  case start_host from start_host(5) show ?thesis by simp
next
  case start_other from start_other(5) show ?thesis by simp
next
  case state from state(5) show ?thesis by simp
next
  case paddle from paddle(6) show ?thesis by simp
qed

lemma g_role_processNetwork [simp]: "g_role (processNetwork ds s) = g_role s"
  by (induction ds arbitrary: s) simp_all

lemma client_scores_processDatagram:
  assumes "g_role s = Client"
  shows "g_hostScore (processDatagram d s)
           \<in> {g_hostScore s, 0} \<union> (\<lambda>d. d_bytes d ! 2) ` set (filter is_State [d])"
    and "g_clientScore (processDatagram d s)
           \<in> {g_clientScore s, 0} \<union> (\<lambda>d. d_bytes d ! 3) ` set (filter is_State [d])"
proof -
  have "g_hostScore (processDatagram d s)
           \<in> {g_hostScore s, 0} \<union> (\<lambda>d. d_bytes d ! 2) ` set (filter is_State [d])
      \<and> g_clientScore (processDatagram d s)
           \<in> {g_clientScore s, 0} \<union> (\<lambda>d. d_bytes d ! 3) ` set (filter is_State [d])"
  proof (cases rule: processDatagram_cases[of d s])
    case drop then show ?thesis by simp
  next
    case join from join(6) show ?thesis by simp
  next
    case joinack from joinack(6) show ?thesis by simp
  next
    case start_host from start_host(5) show ?thesis by simp
  next
    case start_other from start_other(5) show ?thesis by simp
  next
    case state
    then have "is_State d" by (auto simp add: is_State_def sizeof_values)
    with state(5) show ?thesis by (simp add: decode_StatePacket_def)
  next
    case paddle from paddle(6) show ?thesis by simp
  qed
  then show "g_hostScore (processDatagram d s)
           \<in> {g_hostScore s, 0} \<union> (\<lambda>d. d_bytes d ! 2) ` set (filter is_State [d])"
    and "g_clientScore (processDatagram d s)
           \<in> {g_clientScore s, 0} \<union> (\<lambda>d. d_bytes d ! 3) ` set (filter is_State [d])"
    by simp_all
qed

lemma client_scores_processNetwork:
  assumes "g_role s = Client"
  shows "g_hostScore (processNetwork ds s)
           \<in> {g_hostScore s, 0} \<union> (\<lambda>d. d_bytes d ! 2) ` set (filter is_State ds)
       \<and> g_clientScore (processNetwork ds s)
           \<in> {g_clientScore s, 0} \<union> (\<lambda>d. d_bytes d ! 3) ` set (filter is_State ds)"
  using assms
proof (induction ds arbitrary: s)
  case Nil
  then show ?case by simp
next
  case (Cons d ds)
  show ?case
  proof (cases "length (d_bytes d) > 0")
    case False
    then show ?thesis by simp
  next
    case True
    let ?s1 = "processDatagram d s"
    have r1: "g_role ?s1 = Client" using Cons.prems by simp
    from Cons.IH[OF r1] client_scores_processDatagram[OF Cons.prems, of d] True
    show ?thesis by (cases "is_State d") auto
  qed
qed

lemma client_scores_screen:
  assumes "g_role s \<noteq> Host"
    and s'_def: "s' = (case g_screen s of
        WifiSelect \<Rightarrow> loop_WifiSelect inp s
      | WifiPassword \<Rightarrow> loop_WifiPassword inp s
      | NameEntry \<Rightarrow> loop_NameEntry inp s
      | RoleSelect \<Rightarrow> loop_RoleSelect inp s
      | HostWaiting \<Rightarrow> loop_HostWaiting inp s
      | ClientSearching \<Rightarrow> loop_ClientSearching now inp s
      | Lobby \<Rightarrow> loop_Lobby inp s
      | Playing \<Rightarrow> loop_Playing now dt inp s
      | GameOver \<Rightarrow> loop_GameOver inp s
      | Error \<Rightarrow> loop_Error inp s)"
  shows "g_hostScore s' \<in> {g_hostScore s, 0} \<and> g_clientScore s' \<in> {g_clientScore s, 0}"
proof (cases "g_screen s")
  case WifiSelect
  then show ?thesis by (simp add: s'_def loop_WifiSelect_def Let_def)
next
  case WifiPassword
  then show ?thesis
    by (cases "wifi_connect inp")
       (simp_all add: s'_def loop_WifiPassword_def Let_def connectToWiFi_def)
next
  case NameEntry
  then show ?thesis by (simp add: s'_def loop_NameEntry_def Let_def)
next
  case RoleSelect
  then show ?thesis
    by (simp add: s'_def loop_RoleSelect_def startHosting_def startJoining_def resetUdp_def)
next
  case HostWaiting
  then show ?thesis by (simp add: s'_def loop_HostWaiting_def)
next
  case ClientSearching
  then show ?thesis by (simp add: s'_def loop_ClientSearching_def)
next
  case Lobby
  then show ?thesis using assms(1) by (simp add: s'_def loop_Lobby_def)
next
  case Playing
  then show ?thesis using assms(1)
    by (simp add: s'_def loop_Playing_def Let_def updateClientGameplay_def)
next
  case GameOver
  then show ?thesis using assms(1) by (simp add: s'_def loop_GameOver_def)
next
  case Error
  then show ?thesis by (simp add: s'_def loop_Error_def)
qed


lemma client_scores_loop:
  assumes "g_role s = Client"
  shows "g_hostScore (loop inp s)
           \<in> {g_hostScore s, 0}
             \<union> (\<lambda>d. d_bytes d ! 2) ` set (filter is_State (in_datagrams inp))
       \<and> g_clientScore (loop inp s)
           \<in> {g_clientScore s, 0}
             \<union> (\<lambda>d. d_bytes d ! 3) ` set (filter is_State (in_datagrams inp))"
proof -
  define s3 where "s3 = (handleConnectionTimeout (in_millis_timeout inp)
                           (processNetwork (in_datagrams inp) s))
                          \<lparr>g_lastFrameTick := in_millis inp\<rparr>"
  define dt where "dt = fdiv (float_of_int (uint (in_millis inp - g_lastFrameTick
      (handleConnectionTimeout (in_millis_timeout inp) (processNetwork (in_datagrams inp) s)))))
      (FVal 1000)"
  define s4 where "s4 =
     (case g_screen s3 of
        WifiSelect \<Rightarrow> loop_WifiSelect inp s3
      | WifiPassword \<Rightarrow> loop_WifiPassword inp s3
      | NameEntry \<Rightarrow> loop_NameEntry inp s3
      | RoleSelect \<Rightarrow> loop_RoleSelect inp s3
      | HostWaiting \<Rightarrow> loop_HostWaiting inp s3
      | ClientSearching \<Rightarrow> loop_ClientSearching (in_millis inp) inp s3
      | Lobby \<Rightarrow> loop_Lobby inp s3
      | Playing \<Rightarrow> loop_Playing (in_millis inp) dt inp s3
      | GameOver \<Rightarrow> loop_GameOver inp s3
      | Error \<Rightarrow> loop_Error inp s3)"
  have s3: "g_role s3 = Client"
    "g_hostScore s3 = g_hostScore (processNetwork (in_datagrams inp) s)"
    "g_clientScore s3 = g_clientScore (processNetwork (in_datagrams inp) s)"
    using assms by (simp_all add: s3_def)
  then have "g_role s3 \<noteq> Host" by simp
  from client_scores_screen[OF this s4_def]
  have s4: "g_hostScore s4 \<in> {g_hostScore s3, 0}" "g_clientScore s4 \<in> {g_clientScore s3, 0}"
    by simp_all
  have "loop inp s = (if g_screen s4 \<noteq> Playing \<and> g_screenDirty s4
                      then s4\<lparr>g_screenDirty := False\<rparr> else s4)"
    unfolding loop_def Let_def s4_def s3_def dt_def by (rule refl)
  then have l: "g_hostScore (loop inp s) = g_hostScore s4"
    "g_clientScore (loop inp s) = g_clientScore s4"
    by simp_all
  from client_scores_processNetwork[OF assms, of "in_datagrams inp"] s3(2,3) s4 l
  show ?thesis by auto
qed

subsection \<open>Waiting for a serve implies an active match\<close>

lemma serve_inv_view: "score_view s' = score_view s \<Longrightarrow> serve_inv s' = serve_inv s"
  by (simp add: score_view_def serve_inv_def)

lemma serve_inv_step:
  assumes "serve_inv s"
    and "score_view s' = score_view s \<or> \<not> g_waitingForServe s' \<or> g_matchActive s'"
  shows "serve_inv s'"
  using assms serve_inv_view[of s' s] by (auto simp add: serve_inv_def)

lemma serve_inv_processDatagram:
  assumes "serve_inv s" shows "serve_inv (processDatagram d s)"
proof (cases rule: processDatagram_cases[of d s])
  case drop with assms show ?thesis by simp
next
  case join from join(6) show ?thesis by (simp add: serve_inv_def)
next
  case joinack from joinack(6) show ?thesis by (simp add: serve_inv_def)
next
  case start_host from start_host(5) show ?thesis by (simp add: serve_inv_def)
next
  case start_other from start_other(5) show ?thesis by (simp add: serve_inv_def)
next
  case state from state(5) show ?thesis by (simp add: serve_inv_def)
next
  case paddle
  from paddle(6) assms show ?thesis by (simp add: serve_inv_def)
qed

lemma serve_inv_processNetwork: "serve_inv s \<Longrightarrow> serve_inv (processNetwork ds s)"
  by (induction ds arbitrary: s) (simp_all add: serve_inv_processDatagram)

lemma serve_inv_host_scoring: "serve_inv s \<Longrightarrow> serve_inv (host_scoring millis s)"
  by (simp add: host_scoring_def Let_def serve_inv_def)

lemma serve_inv_updateHostGameplay:
  assumes "serve_inv s" shows "serve_inv (updateHostGameplay dt inp s)"
proof -
  define s2 where "s2 = checkForServeLaunch (in_millis_later inp) (in_random inp)
                          (host_move_paddle dt inp s)"
  define s3 where "s3 = client_paddle_collision (host_paddle_collision
                            (ball_walls (ball_integrate dt s2)))"
  have i2: "serve_inv s2"
    using assms score_view_gameplay(1)[of dt inp s]
    by (simp add: s2_def checkForServeLaunch_def serve_inv_def score_view_def)
  have "score_view s3 = score_view s2" by (simp add: s3_def)
  from serve_inv_view[OF this] i2 have "serve_inv s3" by simp
  then have "serve_inv (host_scoring (in_millis_later inp) s3)" by (rule serve_inv_host_scoring)
  with assms i2 show ?thesis
    by (simp add: updateHostGameplay_def Let_def s2_def s3_def)
qed

lemma serve_inv_loop_WifiSelect:
  assumes "serve_inv s" shows "serve_inv (loop_WifiSelect inp s)"
proof -
  have "score_view (loop_WifiSelect inp s) = score_view s
      \<or> \<not> g_waitingForServe (loop_WifiSelect inp s) \<or> g_matchActive (loop_WifiSelect inp s)"
    by (simp add: loop_WifiSelect_def Let_def score_view_def)
  with assms show ?thesis by (rule serve_inv_step)
qed

lemma serve_inv_loop_NameEntry:
  assumes "serve_inv s" shows "serve_inv (loop_NameEntry inp s)"
proof -
  have "score_view (loop_NameEntry inp s) = score_view s
      \<or> \<not> g_waitingForServe (loop_NameEntry inp s) \<or> g_matchActive (loop_NameEntry inp s)"
    by (simp add: loop_NameEntry_def Let_def score_view_def)
  with assms show ?thesis by (rule serve_inv_step)
qed

lemma serve_inv_loop_RoleSelect:
  assumes "serve_inv s" shows "serve_inv (loop_RoleSelect inp s)"
proof -
  have "score_view (loop_RoleSelect inp s) = score_view s
      \<or> \<not> g_waitingForServe (loop_RoleSelect inp s) \<or> g_matchActive (loop_RoleSelect inp s)"
    by (simp add: loop_RoleSelect_def startHosting_def startJoining_def resetUdp_def score_view_def)
  with assms show ?thesis by (rule serve_inv_step)
qed

lemma serve_inv_loop_HostWaiting:
  assumes "serve_inv s" shows "serve_inv (loop_HostWaiting inp s)"
proof -
  have "score_view (loop_HostWaiting inp s) = score_view s
      \<or> \<not> g_waitingForServe (loop_HostWaiting inp s) \<or> g_matchActive (loop_HostWaiting inp s)"
    by (simp add: loop_HostWaiting_def score_view_def)
  with assms show ?thesis by (rule serve_inv_step)
qed

lemma serve_inv_loop_ClientSearching:
  assumes "serve_inv s" shows "serve_inv (loop_ClientSearching now inp s)"
proof -
  have "score_view (loop_ClientSearching now inp s) = score_view s
      \<or> \<not> g_waitingForServe (loop_ClientSearching now inp s) \<or> g_matchActive (loop_ClientSearching now inp s)"
    by (simp add: loop_ClientSearching_def score_view_def)
  with assms show ?thesis by (rule serve_inv_step)
qed

lemma serve_inv_loop_Lobby:
  assumes "serve_inv s" shows "serve_inv (loop_Lobby inp s)"
proof -
  have "score_view (loop_Lobby inp s) = score_view s
      \<or> \<not> g_waitingForServe (loop_Lobby inp s) \<or> g_matchActive (loop_Lobby inp s)"
    by (simp add: loop_Lobby_def Let_def score_view_def)
  with assms show ?thesis by (rule serve_inv_step)
qed

lemma serve_inv_loop_GameOver:
  assumes "serve_inv s" shows "serve_inv (loop_GameOver inp s)"
proof -
  have "score_view (loop_GameOver inp s) = score_view s
      \<or> \<not> g_waitingForServe (loop_GameOver inp s) \<or> g_matchActive (loop_GameOver inp s)"
    by (simp add: loop_GameOver_def Let_def score_view_def)
  with assms show ?thesis by (rule serve_inv_step)
qed

lemma serve_inv_loop_Error:
  assumes "serve_inv s" shows "serve_inv (loop_Error inp s)"
proof -
  have "score_view (loop_Error inp s) = score_view s
      \<or> \<not> g_waitingForServe (loop_Error inp s) \<or> g_matchActive (loop_Error inp s)"
    by (simp add: loop_Error_def score_view_def)
  with assms show ?thesis by (rule serve_inv_step)
qed

lemma serve_inv_loop_WifiPassword:
  assumes "serve_inv s" shows "serve_inv (loop_WifiPassword inp s)"
proof -
  have "score_view (loop_WifiPassword inp s) = score_view s"
    by (cases "wifi_connect inp")
       (simp_all add: loop_WifiPassword_def Let_def score_view_def connectToWiFi_def)
  from serve_inv_view[OF this] assms show ?thesis by simp
qed

lemma serve_inv_loop_Playing:
  assumes "serve_inv s" shows "serve_inv (loop_Playing now dt inp s)"
proof -
  define s1 where "s1 = (if jp_esc inp \<and> g_role s = Host
                         then s\<lparr>g_gamePaused := \<not> g_gamePaused s\<rparr> else s)"
  have "score_view s1 = score_view s" by (simp add: s1_def score_view_def)
  from serve_inv_view[OF this] assms have inv1: "serve_inv s1" by simp
  define s1a where "s1a = (if \<not> g_gamePaused s1 then updateHostGameplay dt inp s1 else s1)"
  define s2 where "s2 =
     (if g_role s1 = Host
      then if jp_esc inp \<or> now - g_lastStateSent s1a > STATE_SEND_INTERVAL_MS
           then sendStatePacket (in_millis_later inp) s1a
           else s1a
      else if \<not> g_gamePaused s1 then updateClientGameplay dt inp s1
      else s1)"
  have "serve_inv s1a" using inv1 by (simp add: s1a_def serve_inv_updateHostGameplay)
  moreover have "score_view s2 = score_view s1a \<or> score_view s2 = score_view s1"
    by (simp add: s2_def)
  ultimately have inv2: "serve_inv s2"
    using inv1 serve_inv_view[of s2 s1a] serve_inv_view[of s2 s1] by blast
  have "loop_Playing now dt inp s = (if jp_Q inp then resetToMainMenu s2 else s2)"
    unfolding loop_Playing_def Let_def s2_def s1a_def s1_def by (rule refl)
  then have "score_view (loop_Playing now dt inp s) = score_view s2
      \<or> \<not> g_waitingForServe (loop_Playing now dt inp s)
      \<or> g_matchActive (loop_Playing now dt inp s)"
    by simp
  with inv2 show ?thesis by (rule serve_inv_step)
qed

lemma serve_inv_loop:
  assumes "serve_inv s" shows "serve_inv (loop inp s)"
proof -
  define s3 where "s3 = (handleConnectionTimeout (in_millis_timeout inp)
                           (processNetwork (in_datagrams inp) s))
                          \<lparr>g_lastFrameTick := in_millis inp\<rparr>"
  define dt where "dt = fdiv (float_of_int (uint (in_millis inp - g_lastFrameTick
      (handleConnectionTimeout (in_millis_timeout inp) (processNetwork (in_datagrams inp) s)))))
      (FVal 1000)"
  define s4 where "s4 =
     (case g_screen s3 of
        WifiSelect \<Rightarrow> loop_WifiSelect inp s3
      | WifiPassword \<Rightarrow> loop_WifiPassword inp s3
      | NameEntry \<Rightarrow> loop_NameEntry inp s3
      | RoleSelect \<Rightarrow> loop_RoleSelect inp s3
      | HostWaiting \<Rightarrow> loop_HostWaiting inp s3
      | ClientSearching \<Rightarrow> loop_ClientSearching (in_millis inp) inp s3
      | Lobby \<Rightarrow> loop_Lobby inp s3
      | Playing \<Rightarrow> loop_Playing (in_millis inp) dt inp s3
      | GameOver \<Rightarrow> loop_GameOver inp s3
      | Error \<Rightarrow> loop_Error inp s3)"
  have "serve_inv (processNetwork (in_datagrams inp) s)"
    using assms by (rule serve_inv_processNetwork)
  moreover have "score_view s3 = score_view (processNetwork (in_datagrams inp) s)"
    by (simp add: s3_def score_view_def)
  ultimately have inv3: "serve_inv s3"
    using serve_inv_view[of s3 "processNetwork (in_datagrams inp) s"] by simp
  have inv4: "serve_inv s4"
    unfolding s4_def using inv3
    by (cases "g_screen s3")
       (simp_all add: serve_inv_loop_WifiSelect serve_inv_loop_WifiPassword
         serve_inv_loop_NameEntry serve_inv_loop_RoleSelect serve_inv_loop_HostWaiting
         serve_inv_loop_ClientSearching serve_inv_loop_Lobby serve_inv_loop_Playing
         serve_inv_loop_GameOver serve_inv_loop_Error)
  have "loop inp s = (if g_screen s4 \<noteq> Playing \<and> g_screenDirty s4
                      then s4\<lparr>g_screenDirty := False\<rparr> else s4)"
    unfolding loop_def Let_def s4_def s3_def dt_def by (rule refl)
  then have "score_view (loop inp s) = score_view s4"
    by (simp add: score_view_def)
  with inv4 show ?thesis using serve_inv_view[of "loop inp s" s4] by simp
qed

lemma serve_inv_run: "serve_inv s \<Longrightarrow> serve_inv (run inps s)"
  by (induction inps arbitrary: s) (simp_all add: serve_inv_loop)

lemma serve_inv_setup: "serve_inv (arduino_setup stored r millis initial_globals)"
  by (cases r; simp add: serve_inv_def arduino_setup_def Let_def onScreenEnter_def
      connectToWiFi_def initial_globals_def)

text \<open>The bits of the flags byte that \<^verbatim>\<open>sendStatePacket\<close> builds.\<close>

lemma state_flags_bits:
  "bit (state_flags s) 0 = g_matchActive s"
  "bit (state_flags s) 1 = g_waitingForServe s"
  "bit (state_flags s) 2 = g_gameOver s"
  "bit (state_flags s) 3 = g_gamePaused s"
  by (cases "g_matchActive s"; cases "g_waitingForServe s"; cases "g_gameOver s";
      cases "g_gamePaused s";
      simp add: state_flags_def Let_def FLAG_MATCH_ACTIVE_def FLAG_WAITING_SERVE_def
        FLAG_GAME_OVER_def FLAG_PAUSED_def)+

text \<open>
  C1 (as amended). Applying a State packet leaves the client with the packet's two
  scores, and with gameOver, waitingForServe and paused equal to bits 2, 1 and 3 of
  the packet's flags byte. matchActive is not a plain copy of bit 0: it is set when
  bit 0 or the waiting-for-serve bit 1 is set. For a flags byte that
  \<^verbatim>\<open>sendStatePacket\<close> builds in a reachable state this is bit 0 itself, since in
  every reachable state waitingForServe implies matchActive; so a State packet sent by
  a host is mirrored flag for flag. A client never counts a point itself: after any
  frame each of its scores is what it was, or 0 (the match state was reset), or the
  score byte of a State datagram that arrived in that frame.
\<close>

theorem client_mirrors_state_packet:
  "g_hostScore (processStatePacket packet millis s) = hostScore packet
   \<and> g_clientScore (processStatePacket packet millis s) = clientScore packet
   \<and> g_gameOver (processStatePacket packet millis s) = bit (flags packet) 2
   \<and> g_waitingForServe (processStatePacket packet millis s) = bit (flags packet) 1
   \<and> g_gamePaused (processStatePacket packet millis s) = bit (flags packet) 3
   \<and> g_matchActive (processStatePacket packet millis s)
       = (bit (flags packet) 0 \<or> bit (flags packet) 1)
   \<and> (if flags packet = state_flags h \<and> serve_inv h
      then g_matchActive (processStatePacket packet millis s) = bit (flags packet) 0
           \<and> g_matchActive (processStatePacket packet millis s) = g_matchActive h
      else True)
   \<and> serve_inv (run inps (arduino_setup stored r millis0 initial_globals))
   \<and> (g_role s = Client \<longrightarrow>
        g_hostScore (loop inp s)
          \<in> {g_hostScore s, 0}
            \<union> (\<lambda>d. d_bytes d ! 2) ` set (filter is_State (in_datagrams inp))
        \<and> g_clientScore (loop inp s)
          \<in> {g_clientScore s, 0}
            \<union> (\<lambda>d. d_bytes d ! 3) ` set (filter is_State (in_datagrams inp)))"
proof -
  have b1: "bit (state_flags h) (Suc 0) = g_waitingForServe h"
    using state_flags_bits(2)[of h] by simp
  have "if flags packet = state_flags h \<and> serve_inv h
      then g_matchActive (processStatePacket packet millis s) = bit (flags packet) 0
           \<and> g_matchActive (processStatePacket packet millis s) = g_matchActive h
      else True"
    by (auto simp add: state_flags_bits(1) b1 serve_inv_def)
  moreover have "serve_inv (run inps (arduino_setup stored r millis0 initial_globals))"
    using serve_inv_setup by (rule serve_inv_run)
  ultimately show ?thesis
    using client_scores_loop[of s inp] by simp
qed

theorem client_mirrors_state_packet_witness:
  "g_role client_in_lobby = Client
   \<and> g_hostScore (processStatePacket serve_only_packet 8000 client_in_lobby) = 3
   \<and> g_clientScore (processStatePacket serve_only_packet 8000 client_in_lobby) = 2
   \<and> g_waitingForServe (processStatePacket serve_only_packet 8000 client_in_lobby)
   \<and> g_hostScore (loop idle_inputs client_in_lobby) = 0
   \<and> g_clientScore (loop idle_inputs client_in_lobby) = 0
   \<and> serve_inv (run frames_to_client (arduino_setup False Connected 0 initial_globals))
   \<and> flags (decode_StatePacket (d_bytes host_opening_state_datagram))
       = state_flags (hostStartMatch 0x01020304 5500 host_in_lobby)
   \<and> serve_inv (hostStartMatch 0x01020304 5500 host_in_lobby)
   \<and> g_matchActive (hostStartMatch 0x01020304 5500 host_in_lobby)
   \<and> g_matchActive (processStatePacket (decode_StatePacket (d_bytes host_opening_state_datagram))
         5500 client_in_lobby)
   \<and> bit (flags (decode_StatePacket (d_bytes host_opening_state_datagram))) 0"
proof -
  have c: "g_role client_in_lobby = Client" "g_hostScore client_in_lobby = 0"
    "g_clientScore client_in_lobby = 0"
    by (simp_all add: client_in_lobby_def initial_globals_def)
  have p: "hostScore serve_only_packet = 3" "clientScore serve_only_packet = 2"
    "bit (flags serve_only_packet) 1"
    by (simp_all add: serve_only_packet_def)
  have i: "in_datagrams idle_inputs = []" by (simp add: idle_inputs_def)
  have f: "flags (decode_StatePacket (d_bytes host_opening_state_datagram)) = 3"
    by (simp add: decode_StatePacket_def host_opening_state_datagram_def)
  have h: "state_flags (hostStartMatch 0x01020304 5500 host_in_lobby) = 3"
    "serve_inv (hostStartMatch 0x01020304 5500 host_in_lobby)"
    "g_matchActive (hostStartMatch 0x01020304 5500 host_in_lobby)"
    by (simp_all add: state_flags_def Let_def FLAG_MATCH_ACTIVE_def FLAG_WAITING_SERVE_def
        serve_inv_def)
  from client_mirrors_state_packet[where packet = serve_only_packet and millis = 8000
      and s = client_in_lobby and inp = idle_inputs and inps = frames_to_client
      and stored = False and r = Connected and ?millis0.0 = 0 and h = client_in_lobby]
    client_mirrors_state_packet[where
      packet = "decode_StatePacket (d_bytes host_opening_state_datagram)" and millis = 5500
      and s = client_in_lobby and inp = idle_inputs and inps = frames_to_client
      and stored = False and r = Connected and ?millis0.0 = 0
      and h = "hostStartMatch 0x01020304 5500 host_in_lobby"]
    c p i f h
  show ?thesis by simp
qed

text \<open>
  The claim as stated fails for the matchActive flag: a packet whose flags byte has
  only the waiting-for-serve bit leaves the client with matchActive set.
\<close>

theorem matchActive_not_mirrored:
  "g_matchActive (processStatePacket serve_only_packet 8000 client_in_lobby)
   \<and> flags serve_only_packet AND FLAG_MATCH_ACTIVE = 0"
  by (simp add: serve_only_packet_def FLAG_MATCH_ACTIVE_def)

subsection \<open>A Join datagram at a waiting host\<close>







subsection \<open>A Start datagram\<close>

lemma processDatagram_start:
  assumes "d_bytes d ! 0 = 5" "sizeof_StartPacket \<le> length (d_bytes d)"
    "length (d_bytes d) \<le> 128"
  shows "processDatagram d s =
           (if g_role s = Host then hostStartMatch (u32_at (d_bytes d) 1) (d_millis d) s
            else clientStartMatch (u32_at (d_bytes d) 1) s)"
proof -
  from assms(2) have "d_bytes d \<noteq> []" by (auto simp add: sizeof_values)
  with assms show ?thesis by (simp add: processDatagram_def Let_def)
qed

lemma state_flags_serving:
  "g_matchActive s \<Longrightarrow> g_waitingForServe s \<Longrightarrow> \<not> g_gameOver s \<Longrightarrow> \<not> g_gamePaused s
   \<Longrightarrow> state_flags s = 3"
  by (simp add: state_flags_def Let_def FLAG_MATCH_ACTIVE_def FLAG_WAITING_SERVE_def)

lemma state_flags_frameCounter [simp]:
  "state_flags (s\<lparr>g_frameCounter := n\<rparr>) = state_flags s"
  by (simp add: state_flags_def)

lemma udp_sent_sendStatePacket:
  "udp_sent (sendStatePacket millis s) =
     (if g_hasPeer s \<and> g_role s = Host
      then udp_sent s @ [(g_peerIp s, g_peerPort s, StatePkt
             \<lparr> flags = state_flags s, hostScore = g_hostScore s,
               clientScore = g_clientScore s, frameId = g_frameCounter s + 1,
               ballX = g_ballX s, ballY = g_ballY s, ballVX = g_ballVX s,
               ballVY = g_ballVY s, hostPaddleY = g_hostPaddleY s,
               clientPaddleY = g_clientPaddleY s \<rparr>)]
      else udp_sent s)"
  by (simp add: sendStatePacket_def Let_def)

text \<open>The State packet that opens a match.\<close>

lemma udp_sent_hostStartMatch:
  "udp_sent (hostStartMatch seed millis s) =
     (if g_hasPeer s \<and> g_role s = Host
      then udp_sent s @ [(g_peerIp s, g_peerPort s, StatePkt
             \<lparr> flags = 3, hostScore = 0, clientScore = 0, frameId = 1,
               ballX = FVal 120, ballY = FVal (135 / 2), ballVX = FVal 0, ballVY = FVal 0,
               hostPaddleY = FVal (135 / 2), clientPaddleY = FVal (135 / 2) \<rparr>)]
      else udp_sent s)"
  by (simp add: hostStartMatch_def udp_sent_sendStatePacket state_flags_serving)

lemma udp_sent_clientStartMatch [simp]:
  "udp_sent (clientStartMatch seed s) = udp_sent s"
  by (simp add: clientStartMatch_def)

text \<open>
  C10 (as amended). A Start datagram of at least 5 and at most 128 bytes is applied
  whatever the screen, the role and the peer link are. A host runs
  \<^verbatim>\<open>hostStartMatch\<close>, any other peer \<^verbatim>\<open>clientStartMatch\<close>; either way the seed of
  the datagram is given to the random generator, the match state is reset and put
  into waiting-for-serve with the serve going to the client, and the screen is
  Playing. A host with a linked peer then sends one State packet (frame id 1) to it; a
  host without a linked peer, like a client, sends nothing.
\<close>

theorem start_datagram_applied:
  assumes "d_bytes d ! 0 = 5" and "sizeof_StartPacket \<le> length (d_bytes d)"
    and "length (d_bytes d) \<le> 128"
  shows "g_screen (processDatagram d s) = Playing
         \<and> random_seed (processDatagram d s) = u32_at (d_bytes d) 1
         \<and> match_state (processDatagram d s)
             = ((0, 0), (FVal 120, FVal (135 / 2), FVal 0, FVal 0),
                (FVal (135 / 2), FVal (135 / 2)), (True, True, False, False))
         \<and> g_serveDirection (processDatagram d s) = 1
         \<and> g_role (processDatagram d s) = g_role s
         \<and> g_hasPeer (processDatagram d s) = g_hasPeer s
         \<and> processDatagram d s =
             (if g_role s = Host then hostStartMatch (u32_at (d_bytes d) 1) (d_millis d) s
              else clientStartMatch (u32_at (d_bytes d) 1) s)
         \<and> udp_sent (processDatagram d s) =
             (if g_role s = Host \<and> g_hasPeer s
              then udp_sent s @ [(g_peerIp s, g_peerPort s, StatePkt
                     \<lparr> flags = 3, hostScore = 0, clientScore = 0, frameId = 1,
                       ballX = FVal 120, ballY = FVal (135 / 2),
                       ballVX = FVal 0, ballVY = FVal 0,
                       hostPaddleY = FVal (135 / 2), clientPaddleY = FVal (135 / 2) \<rparr>)]
              else udp_sent s)"
proof (cases "g_role s = Host")
  case True
  with processDatagram_start[OF assms, of s]
  have eq: "processDatagram d s = hostStartMatch (u32_at (d_bytes d) 1) (d_millis d) s"
    by simp
  have "match_state (hostStartMatch (u32_at (d_bytes d) 1) (d_millis d) s)
             = ((0, 0), (FVal 120, FVal (135 / 2), FVal 0, FVal 0),
                (FVal (135 / 2), FVal (135 / 2)), (True, True, False, False))"
    by (simp add: match_state_def)
  with True show ?thesis by (simp add: eq udp_sent_hostStartMatch)
next
  case False
  with processDatagram_start[OF assms, of s]
  have eq: "processDatagram d s = clientStartMatch (u32_at (d_bytes d) 1) s"
    by simp
  have "match_state (clientStartMatch (u32_at (d_bytes d) 1) s)
             = ((0, 0), (FVal 120, FVal (135 / 2), FVal 0, FVal 0),
                (FVal (135 / 2), FVal (135 / 2)), (True, True, False, False))"
    by (simp add: match_state_def)
  with False show ?thesis by (simp add: eq)
qed

lemma start_datagram_facts:
  "d_bytes start_datagram ! 0 = 5" "sizeof_StartPacket \<le> length (d_bytes start_datagram)"
  "length (d_bytes start_datagram) \<le> 128" "u32_at (d_bytes start_datagram) 1 = 0x01020304"
  by (simp_all add: start_datagram_def sizeof_values u32_at_def)

theorem start_datagram_applied_witness:
  "g_screen (processDatagram start_datagram host_in_lobby) = Playing
   \<and> random_seed (processDatagram start_datagram host_in_lobby) = 0x01020304
   \<and> g_screen (processDatagram start_datagram client_in_lobby) = Playing
   \<and> random_seed (processDatagram start_datagram client_in_lobby) = 0x01020304
   \<and> udp_sent (processDatagram start_datagram client_in_lobby) = []"
proof -
  have c: "g_role client_in_lobby = Client" "udp_sent client_in_lobby = []"
    by (simp_all add: client_in_lobby_def initial_globals_def)
  from start_datagram_applied[OF start_datagram_facts(1,2,3), of host_in_lobby]
    start_datagram_applied[OF start_datagram_facts(1,2,3), of client_in_lobby]
    start_datagram_facts(4) c
  show ?thesis by simp
qed

text \<open>
  The claim as stated fails for a host that has no linked peer: it starts the match
  and no State packet leaves.
\<close>

theorem host_without_peer_sends_no_state:
  "g_role host_waiting = Host
   \<and> g_screen (processDatagram start_datagram host_waiting) = Playing
   \<and> udp_sent (processDatagram start_datagram host_waiting) = []"
proof -
  have h: "g_role host_waiting = Host" "\<not> g_hasPeer host_waiting"
    "udp_sent host_waiting = []"
    by (simp_all add: host_waiting_def initial_globals_def)
  have "processDatagram start_datagram host_waiting
        = hostStartMatch (u32_at (d_bytes start_datagram) 1) (d_millis start_datagram)
            host_waiting"
    using processDatagram_start[OF start_datagram_facts(1,2,3), of host_waiting] h(1)
    by simp
  with h show ?thesis by (simp add: udp_sent_hostStartMatch)
qed

subsection \<open>Connection timeout\<close>

lemma elapsed_word:
  assumes "elapsed < 2 ^ 32"
  shows "((of_nat elapsed :: u32) > CONNECTION_TIMEOUT_MS) = (elapsed > 4000)"
proof -
  have "unat (of_nat elapsed :: u32) = elapsed"
    using assms by (simp add: unat_of_nat)
  then show ?thesis
    by (simp add: word_less_nat_alt CONNECTION_TIMEOUT_MS_def)
qed

lemma g_errorMessage_setScreen_Error [simp]:
  "g_errorMessage (setScreen Error s) = g_errorMessage s"
  by (simp add: setScreen_def onScreenEnter_def)

text \<open>
  The check of \<^verbatim>\<open>handleConnectionTimeout\<close>, made \<open>elapsed\<close> milliseconds after the stamp
  of the last State packet (less than \<open>2^32\<close>, where the 32-bit clock wraps), for a
  client with a linked peer on the Playing screen or a later one: with
  \<open>elapsed > 4000\<close> it moves to the Error screen with the message
  \<open>Lost connection to host.\<close> and drops the peer link, with \<open>elapsed \<le> 4000\<close> it
  changes nothing.
\<close>

lemma handleConnectionTimeout_elapsed:
  assumes "g_hasPeer s" and "g_role s = Client"
    and "screen_index (g_screen s) \<ge> screen_index Playing"
    and "now = g_lastStateReceived s + of_nat elapsed" and "elapsed < 2 ^ 32"
  shows "if elapsed > 4000
         then g_screen (handleConnectionTimeout now s) = Error
              \<and> \<not> g_hasPeer (handleConnectionTimeout now s)
              \<and> g_errorMessage (handleConnectionTimeout now s) = ''Lost connection to host.''
         else handleConnectionTimeout now s = s"
proof -
  have "now - g_lastStateReceived s = of_nat elapsed" using assms(4) by simp
  then have "(now - g_lastStateReceived s > CONNECTION_TIMEOUT_MS) = (elapsed > 4000)"
    using assms(5) by (simp add: elapsed_word)
  with assms(1,2,3) show ?thesis
    by (simp add: handleConnectionTimeout_def)
qed

text \<open>
  The stamp is the clock reading of the last State datagram that was applied; every
  other datagram leaves it as it is.
\<close>

lemma stamp_processDatagram:
  "g_lastStateReceived (processDatagram d s) =
     (if is_State d \<and> g_role s = Client then d_millis d else g_lastStateReceived s)"
proof (cases "is_State d \<and> g_role s = Client")
  case True
  then have "processDatagram d s
             = processStatePacket (decode_StatePacket (d_bytes d)) (d_millis d) s"
    by (simp add: is_State_def processDatagram_state sizeof_values)
  with True show ?thesis by simp
next
  case False
  have "g_lastStateReceived (processDatagram d s) = g_lastStateReceived s"
  proof (cases rule: processDatagram_cases[of d s])
    case drop then show ?thesis by simp
  next
    case join from join(6) show ?thesis by simp
  next
    case joinack from joinack(6) show ?thesis by simp
  next
    case start_host from start_host(5) show ?thesis by simp
  next
    case start_other from start_other(5) show ?thesis by simp
  next
    case state
    then have "is_State d \<and> g_role s = Client"
      by (auto simp add: is_State_def sizeof_values)
    with False show ?thesis by simp
  next
    case paddle from paddle(6) show ?thesis by simp
  qed
  with False show ?thesis by auto
qed

lemma stamp_gameplay [simp]:
  "g_lastStateReceived (host_move_paddle dt inp s) = g_lastStateReceived s"
  "g_lastStateReceived (checkForServeLaunch millis r s) = g_lastStateReceived s"
  "g_lastStateReceived (ball_integrate dt s) = g_lastStateReceived s"
  "g_lastStateReceived (ball_walls s) = g_lastStateReceived s"
  "g_lastStateReceived (host_paddle_collision s) = g_lastStateReceived s"
  "g_lastStateReceived (client_paddle_collision s) = g_lastStateReceived s"
  "g_lastStateReceived (host_scoring millis s) = g_lastStateReceived s"
  "g_lastStateReceived (updateClientGameplay dt inp s) = g_lastStateReceived s"
  by (simp_all add: host_move_paddle_def checkForServeLaunch_def ball_integrate_def
      ball_walls_def host_paddle_collision_def client_paddle_collision_def host_scoring_def
      updateClientGameplay_def Let_def)

lemma stamp_updateHostGameplay [simp]:
  "g_lastStateReceived (updateHostGameplay dt inp s) = g_lastStateReceived s"
  by (simp add: updateHostGameplay_def Let_def)

lemma stamp_screens:
  "g_lastStateReceived (loop_WifiSelect inp s) = g_lastStateReceived s"
  "g_lastStateReceived (loop_WifiPassword inp s) = g_lastStateReceived s"
  "g_lastStateReceived (loop_NameEntry inp s) = g_lastStateReceived s"
  "g_lastStateReceived (loop_RoleSelect inp s) = g_lastStateReceived s"
  "g_lastStateReceived (loop_HostWaiting inp s) = g_lastStateReceived s"
  "g_lastStateReceived (loop_ClientSearching now inp s) = g_lastStateReceived s"
  "g_lastStateReceived (loop_Lobby inp s) = g_lastStateReceived s"
  "g_lastStateReceived (loop_Playing now dt inp s) = g_lastStateReceived s"
  "g_lastStateReceived (loop_GameOver inp s) = g_lastStateReceived s"
  "g_lastStateReceived (loop_Error inp s) = g_lastStateReceived s"
proof -
  show "g_lastStateReceived (loop_WifiPassword inp s) = g_lastStateReceived s"
    by (cases "wifi_connect inp")
       (simp_all add: loop_WifiPassword_def Let_def connectToWiFi_def)
qed (simp_all add: loop_WifiSelect_def loop_NameEntry_def loop_RoleSelect_def
      loop_HostWaiting_def loop_ClientSearching_def loop_Lobby_def loop_Playing_def
      loop_GameOver_def loop_Error_def startHosting_def startJoining_def resetUdp_def Let_def)

text \<open>
  The stamp is written by \<^verbatim>\<open>processStatePacket\<close> and by nothing else: after a frame it
  is what the network phase of the frame left.
\<close>

lemma stamp_loop:
  "g_lastStateReceived (loop inp s) = g_lastStateReceived (processNetwork (in_datagrams inp) s)"
proof -
  define s3 where "s3 = (handleConnectionTimeout (in_millis_timeout inp)
                           (processNetwork (in_datagrams inp) s))
                          \<lparr>g_lastFrameTick := in_millis inp\<rparr>"
  define dt where "dt = fdiv (float_of_int (uint (in_millis inp - g_lastFrameTick
      (handleConnectionTimeout (in_millis_timeout inp) (processNetwork (in_datagrams inp) s)))))
      (FVal 1000)"
  define s4 where "s4 =
     (case g_screen s3 of
        WifiSelect \<Rightarrow> loop_WifiSelect inp s3
      | WifiPassword \<Rightarrow> loop_WifiPassword inp s3
      | NameEntry \<Rightarrow> loop_NameEntry inp s3
      | RoleSelect \<Rightarrow> loop_RoleSelect inp s3
      | HostWaiting \<Rightarrow> loop_HostWaiting inp s3
      | ClientSearching \<Rightarrow> loop_ClientSearching (in_millis inp) inp s3
      | Lobby \<Rightarrow> loop_Lobby inp s3
      | Playing \<Rightarrow> loop_Playing (in_millis inp) dt inp s3
      | GameOver \<Rightarrow> loop_GameOver inp s3
      | Error \<Rightarrow> loop_Error inp s3)"
  have "g_lastStateReceived s4 = g_lastStateReceived s3"
    unfolding s4_def by (cases "g_screen s3") (simp_all add: stamp_screens)
  moreover have "g_lastStateReceived s3
                 = g_lastStateReceived (processNetwork (in_datagrams inp) s)"
    by (simp add: s3_def)
  moreover have "loop inp s = (if g_screen s4 \<noteq> Playing \<and> g_screenDirty s4
                      then s4\<lparr>g_screenDirty := False\<rparr> else s4)"
    unfolding loop_def Let_def s4_def s3_def dt_def by (rule refl)
  ultimately show ?thesis by simp
qed

text \<open>
  The check that each frame makes: for a client that, after the network phase of the
  frame, has a linked peer and is on the Playing screen or a later one.
\<close>

lemma loop_timeout_check:
  assumes "processNetwork (in_datagrams inp) s = s1" and "g_hasPeer s1"
    and "g_role s1 = Client" and "screen_index (g_screen s1) \<ge> screen_index Playing"
    and "\<not> jp_Q inp"
  shows "in_millis_timeout inp - g_lastStateReceived s1 > CONNECTION_TIMEOUT_MS
         \<Longrightarrow> g_screen (loop inp s) = Error \<and> \<not> g_hasPeer (loop inp s)
             \<and> g_errorMessage (loop inp s) = ''Lost connection to host.''"
    and "\<not> in_millis_timeout inp - g_lastStateReceived s1 > CONNECTION_TIMEOUT_MS
         \<Longrightarrow> g_screen (loop inp s) = g_screen s1 \<and> g_hasPeer (loop inp s)"
proof -
  assume late: "in_millis_timeout inp - g_lastStateReceived s1 > CONNECTION_TIMEOUT_MS"
  show "g_screen (loop inp s) = Error \<and> \<not> g_hasPeer (loop inp s)
             \<and> g_errorMessage (loop inp s) = ''Lost connection to host.''"
    using assms(2-5) late
    by (simp add: loop_def Let_def assms(1) handleConnectionTimeout_def loop_Error_def)
next
  assume ok: "\<not> in_millis_timeout inp - g_lastStateReceived s1 > CONNECTION_TIMEOUT_MS"
  then have t: "handleConnectionTimeout (in_millis_timeout inp) s1 = s1"
    by (simp add: handleConnectionTimeout_def)
  from assms(4) consider "g_screen s1 = Playing" | "g_screen s1 = GameOver"
    | "g_screen s1 = Error"
    by (cases "g_screen s1") simp_all
  then show "g_screen (loop inp s) = g_screen s1 \<and> g_hasPeer (loop inp s)"
  proof cases
    case 1
    with assms(2,3,5) show ?thesis
      by (simp add: loop_def Let_def assms(1) t loop_Playing_def updateClientGameplay_def
          sendPaddlePacket_def udp_write_def)
  next
    case 2
    with assms(2,3,5) show ?thesis
      by (simp add: loop_def Let_def assms(1) t loop_GameOver_def)
  next
    case 3
    with assms(2,3,5) show ?thesis
      by (simp add: loop_def Let_def assms(1) t loop_Error_def)
  qed
qed


lemma run_append: "run (xs @ ys) s = run ys (run xs s)"
  by (induction xs arbitrary: s) simp_all

lemma processDatagram_joinack:
  assumes "g_role s = Client" "g_screen s = ClientSearching" "d_bytes d ! 0 = 2"
    "sizeof_JoinAckPacket \<le> length (d_bytes d)" "length (d_bytes d) \<le> 128"
  shows "processDatagram d s =
           setScreen Lobby (resetMatchState
             ((setRemotePlayerName (wire_to_cstring (d_bytes d)) s)
                \<lparr>g_peerIp := d_remoteIP d, g_peerPort := d_remotePort d, g_hasPeer := True\<rparr>))"
proof -
  from assms(4) have "d_bytes d \<noteq> []" by (auto simp add: sizeof_values)
  with assms show ?thesis by (simp add: processDatagram_def Let_def)
qed

text \<open>A searching client that handles a JoinAck datagram is linked and in the lobby.\<close>

lemma frame_client_joinack:
  assumes "g_role s = Client" "g_screen s = ClientSearching" "in_datagrams inp = [d]"
    "d_bytes d ! 0 = 2" "sizeof_JoinAckPacket \<le> length (d_bytes d)"
    "length (d_bytes d) \<le> 128" "\<not> jp_Q inp"
  shows "g_role (loop inp s) = Client" "g_screen (loop inp s) = Lobby"
    "g_hasPeer (loop inp s)" "g_lastStateReceived (loop inp s) = g_lastStateReceived s"
    "g_peerIp (loop inp s) = d_remoteIP d"
proof -
  define s1 where "s1 = processDatagram d s"
  from assms(5) have ne: "length (d_bytes d) > 0" by (auto simp add: sizeof_values)
  have net: "processNetwork (in_datagrams inp) s = s1"
    using assms(3) ne by (simp add: s1_def)
  have s1: "g_role s1 = Client" "g_screen s1 = Lobby" "g_hasPeer s1"
    "g_lastStateReceived s1 = g_lastStateReceived s" "g_peerIp s1 = d_remoteIP d"
    unfolding s1_def processDatagram_joinack[OF assms(1,2,4,5,6)]
    using assms(1) by simp_all
  show "g_role (loop inp s) = Client" "g_screen (loop inp s) = Lobby"
    "g_hasPeer (loop inp s)" "g_lastStateReceived (loop inp s) = g_lastStateReceived s"
    "g_peerIp (loop inp s) = d_remoteIP d"
    using s1 assms(7)
    by (simp_all add: loop_def Let_def net handleConnectionTimeout_def loop_Lobby_def)
qed

text \<open>
  A linked client whose frame handles a Start datagram and nothing else: the datagram
  takes it to Playing, and the timeout check of the same frame compares the clock
  with the stamp as it is.
\<close>

lemma frame_client_start_only:
  assumes "g_role s = Client" "g_hasPeer s" "in_datagrams inp = [d]" "is_Start d"
    "\<not> jp_Q inp"
    "in_millis_timeout inp - g_lastStateReceived s > CONNECTION_TIMEOUT_MS"
  shows "g_screen (processNetwork (in_datagrams inp) s) = Playing"
    "g_hasPeer (processNetwork (in_datagrams inp) s)"
    "g_screen (loop inp s) = Error" "\<not> g_hasPeer (loop inp s)"
    "g_errorMessage (loop inp s) = ''Lost connection to host.''"
    "g_role (loop inp s) = Client"
proof -
  define s1 where "s1 = clientStartMatch (u32_at (d_bytes d) 1) s"
  from assms(4) have d: "d_bytes d ! 0 = 5" "sizeof_StartPacket \<le> length (d_bytes d)"
    "length (d_bytes d) \<le> 128" "length (d_bytes d) > 0"
    by (simp_all add: is_Start_def)
  have "processDatagram d s = s1"
    using processDatagram_start[OF d(1,2,3), of s] assms(1) by (simp add: s1_def)
  then have net: "processNetwork (in_datagrams inp) s = s1"
    using assms(3) d(4) by simp
  have s1: "g_role s1 = Client" "g_hasPeer s1" "g_screen s1 = Playing"
    "g_lastStateReceived s1 = g_lastStateReceived s"
    using assms(1,2) by (simp_all add: s1_def)
  show "g_screen (processNetwork (in_datagrams inp) s) = Playing"
    "g_hasPeer (processNetwork (in_datagrams inp) s)"
    using s1 by (simp_all add: net)
  show "g_screen (loop inp s) = Error" "\<not> g_hasPeer (loop inp s)"
    "g_errorMessage (loop inp s) = ''Lost connection to host.''"
    "g_role (loop inp s) = Client"
    using s1 assms(5,6)
    by (simp_all add: loop_def Let_def net handleConnectionTimeout_def loop_Error_def)
qed

lemma udp_sent_start_only:
  assumes "g_role s = Client" "g_hasPeer s" "in_datagrams inp = [d]" "is_Start d"
    "\<not> jp_Q inp"
    "in_millis_timeout inp - g_lastStateReceived s > CONNECTION_TIMEOUT_MS"
  shows "udp_sent (loop inp s) = udp_sent s"
proof -
  define s1 where "s1 = clientStartMatch (u32_at (d_bytes d) 1) s"
  from assms(4) have d: "d_bytes d ! 0 = 5" "sizeof_StartPacket \<le> length (d_bytes d)"
    "length (d_bytes d) \<le> 128" "length (d_bytes d) > 0"
    by (simp_all add: is_Start_def)
  have "processDatagram d s = s1"
    using processDatagram_start[OF d(1,2,3), of s] assms(1) by (simp add: s1_def)
  then have net: "processNetwork (in_datagrams inp) s = s1"
    using assms(3) d(4) by simp
  have s1: "g_role s1 = Client" "g_hasPeer s1" "g_screen s1 = Playing"
    "g_lastStateReceived s1 = g_lastStateReceived s" "udp_sent s1 = udp_sent s"
    using assms(1,2) by (simp_all add: s1_def)
  show ?thesis
    using s1 assms(5,6)
    by (simp add: loop_def Let_def net handleConnectionTimeout_def loop_Error_def)
qed

lemma host_joinack_datagram_fields:
  "d_bytes host_joinack_datagram ! 0 = 2"
  "sizeof_JoinAckPacket \<le> length (d_bytes host_joinack_datagram)"
  "length (d_bytes host_joinack_datagram) \<le> 128"
  "d_remoteIP host_joinack_datagram = 0xC0A80102"
  by (simp_all add: host_joinack_datagram_def sizeof_values)

lemma joinack_frame_fields:
  "in_datagrams joinack_frame = [host_joinack_datagram]" "\<not> jp_Q joinack_frame"
  by (simp_all add: joinack_frame_def idle_inputs_def)

lemma start_only_frame_fields:
  "in_datagrams start_only_frame = [host_start_datagram]" "\<not> jp_Q start_only_frame"
  "in_millis_timeout start_only_frame = 5500"
  by (simp_all add: start_only_frame_def idle_inputs_def)

lemma is_Start_host_start_datagram: "is_Start host_start_datagram"
  by (simp add: is_Start_def host_start_datagram_def sizeof_values)

lemma client_joined:
  "g_role (run frames_joined (arduino_setup False Connected 0 initial_globals)) = Client"
  "g_screen (run frames_joined (arduino_setup False Connected 0 initial_globals)) = Lobby"
  "g_hasPeer (run frames_joined (arduino_setup False Connected 0 initial_globals))"
  "g_lastStateReceived (run frames_joined (arduino_setup False Connected 0 initial_globals)) = 0"
  "g_peerIp (run frames_joined (arduino_setup False Connected 0 initial_globals)) = 0xC0A80102"
proof -
  let ?s = "run frames_to_client (arduino_setup False Connected 0 initial_globals)"
  have eq: "run frames_joined (arduino_setup False Connected 0 initial_globals)
            = loop joinack_frame ?s"
    by (simp add: frames_joined_def run_append)
  note f = frame_client_joinack[OF client_after_frames_to_client(2,1) joinack_frame_fields(1)
      host_joinack_datagram_fields(1,2,3) joinack_frame_fields(2)]
  show "g_role (run frames_joined (arduino_setup False Connected 0 initial_globals)) = Client"
  "g_screen (run frames_joined (arduino_setup False Connected 0 initial_globals)) = Lobby"
  "g_hasPeer (run frames_joined (arduino_setup False Connected 0 initial_globals))"
  "g_lastStateReceived (run frames_joined (arduino_setup False Connected 0 initial_globals)) = 0"
  "g_peerIp (run frames_joined (arduino_setup False Connected 0 initial_globals)) = 0xC0A80102"
    unfolding eq using f client_after_frames_to_client(4) host_joinack_datagram_fields(4)
    by simp_all
qed

text \<open>
  A linked client whose frame handles a Start datagram and then the State datagram that
  opens the match.
\<close>

lemma frame_client_start_and_state:
  assumes "g_role s = Client" "g_hasPeer s" "in_datagrams inp = [d1, d2]" "is_Start d1"
    "is_State d2" "d_bytes d2 ! 1 = 3" "\<not> jp_Q inp"
    "\<not> in_millis_timeout inp - d_millis d2 > CONNECTION_TIMEOUT_MS"
  shows "g_screen (loop inp s) = Playing" "g_hasPeer (loop inp s)"
    "g_lastStateReceived (loop inp s) = d_millis d2"
proof -
  define s1 where "s1 = clientStartMatch (u32_at (d_bytes d1) 1) s"
  define s2 where "s2 = processStatePacket (decode_StatePacket (d_bytes d2)) (d_millis d2) s1"
  from assms(4) have d1: "d_bytes d1 ! 0 = 5" "sizeof_StartPacket \<le> length (d_bytes d1)"
    "length (d_bytes d1) \<le> 128" "length (d_bytes d1) > 0"
    by (simp_all add: is_Start_def)
  from assms(5) have d2: "d_bytes d2 ! 0 = 3" "32 \<le> length (d_bytes d2)"
    "length (d_bytes d2) \<le> 128" "length (d_bytes d2) > 0"
    by (simp_all add: is_State_def sizeof_values)
  have p1: "processDatagram d1 s = s1"
    using processDatagram_start[OF d1(1,2,3), of s] assms(1) by (simp add: s1_def)
  have s1: "g_role s1 = Client" "g_hasPeer s1" "g_screen s1 = Playing"
    using assms(1,2) by (simp_all add: s1_def)
  have p2: "processDatagram d2 s1 = s2"
    using processDatagram_state[OF s1(1) d2(1,2,3)] by (simp add: s2_def)
  have net: "processNetwork (in_datagrams inp) s = s2"
    using assms(3) d1(4) d2(4) p1 p2 by simp
  have fl: "flags (decode_StatePacket (d_bytes d2)) = 3"
    using assms(6) by (simp add: decode_StatePacket_def)
  have s2: "g_role s2 = Client" "g_hasPeer s2" "g_screen s2 = Playing"
    "g_lastStateReceived s2 = d_millis d2"
    using s1 fl by (simp_all add: s2_def g_screen_processStatePacket)
  have idx: "screen_index (g_screen s2) \<ge> screen_index Playing"
    by (simp add: s2(3))
  have ok: "\<not> in_millis_timeout inp - g_lastStateReceived s2 > CONNECTION_TIMEOUT_MS"
    using assms(8) by (simp add: s2(4))
  from loop_timeout_check(2)[OF net s2(2,1) idx assms(7) ok] s2(3)
  show "g_screen (loop inp s) = Playing" "g_hasPeer (loop inp s)" by simp_all
  show "g_lastStateReceived (loop inp s) = d_millis d2"
    by (simp add: stamp_loop net s2(4))
qed

text \<open>
  A client that has lost its peer link and handles a State datagram of a running match:
  it is on the Playing screen again, without a peer link, and sends nothing.
\<close>

lemma frame_unlinked_client_state:
  assumes "g_role s = Client" "\<not> g_hasPeer s" "in_datagrams inp = [d]" "is_State d"
    "d_bytes d ! 1 = 3" "\<not> jp_Q inp"
  shows "g_screen (loop inp s) = Playing" "\<not> g_hasPeer (loop inp s)"
    "udp_sent (loop inp s) = udp_sent s"
proof -
  define s1 where "s1 = processStatePacket (decode_StatePacket (d_bytes d)) (d_millis d) s"
  from assms(4) have d: "d_bytes d ! 0 = 3" "32 \<le> length (d_bytes d)"
    "length (d_bytes d) \<le> 128" "length (d_bytes d) > 0"
    by (simp_all add: is_State_def sizeof_values)
  have net: "processNetwork (in_datagrams inp) s = s1"
    using assms(3) d(4) processDatagram_state[OF assms(1) d(1,2,3)] by (simp add: s1_def)
  have fl: "flags (decode_StatePacket (d_bytes d)) = 3"
    using assms(5) by (simp add: decode_StatePacket_def)
  have s1: "g_role s1 = Client" "\<not> g_hasPeer s1" "g_screen s1 = Playing"
    "udp_sent s1 = udp_sent s"
    using assms(1,2) fl by (simp_all add: s1_def g_screen_processStatePacket)
  show "g_screen (loop inp s) = Playing" "\<not> g_hasPeer (loop inp s)"
    "udp_sent (loop inp s) = udp_sent s"
    using s1 assms(6)
    by (simp_all add: loop_def Let_def net handleConnectionTimeout_def loop_Playing_def
        updateClientGameplay_def)
qed

lemma start_and_state_frame_fields:
  "in_datagrams start_and_state_frame = [host_start_datagram, host_opening_state_datagram]"
  "\<not> jp_Q start_and_state_frame" "in_millis_timeout start_and_state_frame = 5500"
  by (simp_all add: start_and_state_frame_def idle_inputs_def)

lemma host_opening_state_datagram_fields:
  "is_State host_opening_state_datagram" "d_bytes host_opening_state_datagram ! 1 = 3"
  "d_millis host_opening_state_datagram = 5500"
  "is_State (host_opening_state_datagram\<lparr>d_millis := 5516\<rparr>)"
  "d_bytes (host_opening_state_datagram\<lparr>d_millis := 5516\<rparr>) ! 1 = 3"
  by (simp_all add: is_State_def host_opening_state_datagram_def sizeof_values)

lemma state_late_frame_fields:
  "in_datagrams state_late_frame = [host_opening_state_datagram\<lparr>d_millis := 5516\<rparr>]"
  "\<not> jp_Q state_late_frame" "held_dot state_late_frame"
  by (simp_all add: state_late_frame_def idle_inputs_def)

text \<open>
  C3 (the code departs from the claim). The stamp that the check reads is renewed by
  State packets only; neither joining a host nor the start of a match renews it. A
  client joins a host 5000 ms after power-up and, at 5500 ms, handles the host's Start
  datagram in a frame in which the State datagram that the host sends right after it
  has not arrived yet. The Start datagram takes the client to Playing, and the timeout
  check of the same frame finds the stamp at its initial 0, more than 4000 ms before
  the clock reading of 5500: the client goes to the Error screen with the message
  \<open>Lost connection to host.\<close> and drops the peer link, although it has been linked for
  500 ms, has been in the match for none, and no State packet has been missing for
  4000 ms. When the State datagram arrives a frame later, the client shows the match
  again but has no peer link and so sends no paddle position, also while the player
  holds a paddle key. When the frame at 5500 ms handles both datagrams, the client
  stays in the match with its peer link.
\<close>

theorem timeout_at_match_start:
  "g_role (run frames_joined (arduino_setup False Connected 0 initial_globals)) = Client
   \<and> g_screen (run frames_joined (arduino_setup False Connected 0 initial_globals)) = Lobby
   \<and> g_hasPeer (run frames_joined (arduino_setup False Connected 0 initial_globals))
   \<and> g_lastStateReceived (run frames_joined (arduino_setup False Connected 0 initial_globals)) = 0
   \<and> g_screen (processNetwork (in_datagrams start_only_frame)
        (run frames_joined (arduino_setup False Connected 0 initial_globals))) = Playing
   \<and> in_millis_timeout start_only_frame = 5500
   \<and> g_screen (run frames_start_only (arduino_setup False Connected 0 initial_globals)) = Error
   \<and> \<not> g_hasPeer (run frames_start_only (arduino_setup False Connected 0 initial_globals))
   \<and> g_errorMessage (run frames_start_only (arduino_setup False Connected 0 initial_globals))
       = ''Lost connection to host.''
   \<and> g_screen (run frames_state_late (arduino_setup False Connected 0 initial_globals)) = Playing
   \<and> \<not> g_hasPeer (run frames_state_late (arduino_setup False Connected 0 initial_globals))
   \<and> udp_sent (run frames_state_late (arduino_setup False Connected 0 initial_globals))
       = udp_sent (run frames_joined (arduino_setup False Connected 0 initial_globals))
   \<and> g_screen (run frames_start_and_state (arduino_setup False Connected 0 initial_globals))
       = Playing
   \<and> g_hasPeer (run frames_start_and_state (arduino_setup False Connected 0 initial_globals))"
proof -
  let ?s = "run frames_joined (arduino_setup False Connected 0 initial_globals)"
  have eq: "run frames_start_only (arduino_setup False Connected 0 initial_globals)
            = loop start_only_frame ?s"
    by (simp add: frames_start_only_def run_append)
  have eq2: "run frames_start_and_state (arduino_setup False Connected 0 initial_globals)
            = loop start_and_state_frame ?s"
    by (simp add: frames_start_and_state_def run_append)
  have eq3: "run frames_state_late (arduino_setup False Connected 0 initial_globals)
            = loop state_late_frame (loop start_only_frame ?s)"
    by (simp add: frames_state_late_def frames_start_only_def run_append)
  have late: "in_millis_timeout start_only_frame - g_lastStateReceived ?s
              > CONNECTION_TIMEOUT_MS"
    unfolding client_joined(4) start_only_frame_fields(3)
    by (simp add: CONNECTION_TIMEOUT_MS_def)
  note f = frame_client_start_only[OF client_joined(1,3) start_only_frame_fields(1)
      is_Start_host_start_datagram start_only_frame_fields(2) late]
  have sent: "udp_sent (loop start_only_frame ?s) = udp_sent ?s"
    by (simp add: udp_sent_start_only[OF client_joined(1,3) start_only_frame_fields(1)
      is_Start_host_start_datagram start_only_frame_fields(2) late])
  have intime: "\<not> in_millis_timeout start_and_state_frame
                   - d_millis host_opening_state_datagram > CONNECTION_TIMEOUT_MS"
    unfolding start_and_state_frame_fields(3) host_opening_state_datagram_fields(3)
    by (simp add: CONNECTION_TIMEOUT_MS_def)
  note g = frame_client_start_and_state[OF client_joined(1,3) start_and_state_frame_fields(1)
      is_Start_host_start_datagram host_opening_state_datagram_fields(1,2)
      start_and_state_frame_fields(2) intime]
  note h = frame_unlinked_client_state[OF f(6,4) state_late_frame_fields(1)
      host_opening_state_datagram_fields(4,5) state_late_frame_fields(2)]
  show ?thesis
    unfolding eq eq2 eq3 using f g h sent client_joined start_only_frame_fields(3) by simp
qed

subsection \<open>From the lobby to a match\<close>

lemma host_lobby_datagram:
  assumes "g_role s = Host" and "g_screen s = Lobby" and "\<not> is_Start d"
  shows "\<exists>y. processDatagram d s = s\<lparr>g_clientPaddleY := y\<rparr>"
proof (cases rule: processDatagram_cases[of d s])
  case drop
  then have "processDatagram d s = s\<lparr>g_clientPaddleY := g_clientPaddleY s\<rparr>" by simp
  then show ?thesis by blast
next
  case join with assms(2) show ?thesis by simp
next
  case joinack with assms(1) show ?thesis by simp
next
  case start_host
  then have "is_Start d" by (auto simp add: is_Start_def sizeof_values)
  with assms(3) show ?thesis by simp
next
  case start_other with assms(1) show ?thesis by simp
next
  case state with assms(1) show ?thesis by simp
next
  case paddle then show ?thesis by blast
qed

lemma host_lobby_network:
  assumes "g_role s = Host" and "g_screen s = Lobby"
    and "\<not> list_ex is_Start (handled_datagrams ds)"
  shows "\<exists>y. processNetwork ds s = s\<lparr>g_clientPaddleY := y\<rparr>"
  using assms
proof (induction ds arbitrary: s)
  case Nil
  have "processNetwork [] s = s\<lparr>g_clientPaddleY := g_clientPaddleY s\<rparr>" by simp
  then show ?case by blast
next
  case (Cons d ds)
  show ?case
  proof (cases "length (d_bytes d) > 0")
    case False
    then have "processNetwork (d # ds) s = s\<lparr>g_clientPaddleY := g_clientPaddleY s\<rparr>"
      by simp
    then show ?thesis by blast
  next
    case True
    with Cons.prems(3) have ns: "\<not> is_Start d"
      and rest: "\<not> list_ex is_Start (handled_datagrams ds)"
      by (simp_all add: handled_datagrams_def)
    from host_lobby_datagram[OF Cons.prems(1,2) ns]
    obtain v where v: "processDatagram d s = s\<lparr>g_clientPaddleY := v\<rparr>" by blast
    have "g_role (s\<lparr>g_clientPaddleY := v\<rparr>) = Host" "g_screen (s\<lparr>g_clientPaddleY := v\<rparr>) = Lobby"
      using Cons.prems by simp_all
    from Cons.IH[OF this rest]
    obtain y where "processNetwork ds (s\<lparr>g_clientPaddleY := v\<rparr>)
        = s\<lparr>g_clientPaddleY := v\<rparr>\<lparr>g_clientPaddleY := y\<rparr>"
      by auto
    then have "processNetwork (d # ds) s = s\<lparr>g_clientPaddleY := y\<rparr>"
      using True v by simp
    then show ?thesis by blast
  qed
qed


lemma handleConnectionTimeout_not_client:
  "g_role s \<noteq> Client \<Longrightarrow> handleConnectionTimeout now s = s"
  by (simp add: handleConnectionTimeout_def)

lemma loop_in_lobby:
  assumes "processNetwork (in_datagrams inp) s = s1" and "g_role s1 = Host"
    and "g_screen s1 = Lobby"
  shows "loop inp s =
     (if jp_Q inp
      then (resetToMainMenu (s1\<lparr>g_lastFrameTick := in_millis inp\<rparr>))\<lparr>g_screenDirty := False\<rparr>
      else if jp_space inp
      then hostStartMatch (nextRandomSeed (in_millis_later inp) (in_micros inp)) (in_millis_later inp)
             (sendStartPacket (nextRandomSeed (in_millis_later inp) (in_micros inp))
                (s1\<lparr>g_lastFrameTick := in_millis inp\<rparr>))
      else if g_screenDirty s1
      then s1\<lparr>g_lastFrameTick := in_millis inp, g_screenDirty := False\<rparr>
      else s1\<lparr>g_lastFrameTick := in_millis inp\<rparr>)"
proof -
  have t: "handleConnectionTimeout (in_millis_timeout inp) s1 = s1"
    using assms(2) by (simp add: handleConnectionTimeout_not_client)
  have d: "g_screenDirty (resetToMainMenu (s1\<lparr>g_lastFrameTick := in_millis inp\<rparr>))"
    using assms(3) by (simp add: resetToMainMenu_def setScreen_def onScreenEnter_def)
  show ?thesis
    using assms(2,3) d
    by (simp add: loop_def Let_def assms(1) t loop_Lobby_def)
qed


lemma match_opened_hostStartMatch:
  "g_role s = Host \<Longrightarrow> match_opened (hostStartMatch seed millis s)"
  by (simp add: match_opened_def)

lemma match_opened_start:
  assumes "g_role s = Host" and "is_Start d"
  shows "match_opened (processDatagram d s)"
proof -
  from assms(2) have "d_bytes d ! 0 = 5" "sizeof_StartPacket \<le> length (d_bytes d)"
    "length (d_bytes d) \<le> 128"
    by (simp_all add: is_Start_def)
  from processDatagram_start[OF this, of s] assms(1) show ?thesis
    by (simp add: match_opened_hostStartMatch)
qed

lemma match_opened_processDatagram:
  assumes "match_opened s" shows "match_opened (processDatagram d s)"
proof (cases rule: processDatagram_cases[of d s])
  case drop with assms show ?thesis by simp
next
  case join with assms show ?thesis by (simp add: match_opened_def)
next
  case joinack with assms show ?thesis by (simp add: match_opened_def)
next
  case start_host
  from start_host(5) assms show ?thesis
    by (simp add: match_opened_hostStartMatch match_opened_def)
next
  case start_other with assms show ?thesis by (simp add: match_opened_def)
next
  case state with assms show ?thesis by (simp add: match_opened_def)
next
  case paddle
  from paddle(6) assms show ?thesis by (simp add: match_opened_def)
qed

lemma host_lobby_network_start:
  assumes "(g_role s = Host \<and> g_screen s = Lobby \<and> list_ex is_Start (handled_datagrams ds))
           \<or> match_opened s"
  shows "match_opened (processNetwork ds s)"
  using assms
proof (induction ds arbitrary: s)
  case Nil
  then show ?case by (simp add: handled_datagrams_def)
next
  case (Cons d ds)
  show ?case
  proof (cases "length (d_bytes d) > 0")
    case False
    with Cons.prems show ?thesis by (simp add: handled_datagrams_def)
  next
    case True
    have "(g_role (processDatagram d s) = Host \<and> g_screen (processDatagram d s) = Lobby
            \<and> list_ex is_Start (handled_datagrams ds))
          \<or> match_opened (processDatagram d s)"
    proof (cases "match_opened s")
      case True
      then show ?thesis by (simp add: match_opened_processDatagram)
    next
      case False
      with Cons.prems have h: "g_role s = Host" "g_screen s = Lobby"
        and ex: "list_ex is_Start (handled_datagrams (d # ds))"
        by simp_all
      show ?thesis
      proof (cases "is_Start d")
        case True
        with h(1) show ?thesis by (simp add: match_opened_start)
      next
        case ns: False
        from host_lobby_datagram[OF h ns]
        obtain v where v: "processDatagram d s = s\<lparr>g_clientPaddleY := v\<rparr>" by blast
        from ex ns \<open>length (d_bytes d) > 0\<close>
        have "list_ex is_Start (handled_datagrams ds)"
          by (simp add: handled_datagrams_def)
        with h v show ?thesis by simp
      qed
    qed
    from Cons.IH[OF this] True show ?thesis by simp
  qed
qed

lemma first_point: "\<not> (0::u8) + 1 \<ge> MAX_SCORE"
  unfolding MAX_SCORE_def by unat_arith

lemma g_screen_host_scoring:
  assumes "g_hostScore s = 0" and "g_clientScore s = 0"
  shows "g_screen (host_scoring millis s) = g_screen s"
    and "g_role (host_scoring millis s) = g_role s"
  using assms first_point by (simp_all add: host_scoring_def Let_def)

lemma g_screen_gameplay [simp]:
  "g_screen (host_move_paddle dt inp s) = g_screen s"
  "g_screen (checkForServeLaunch millis r s) = g_screen s"
  "g_screen (ball_integrate dt s) = g_screen s"
  "g_screen (ball_walls s) = g_screen s"
  "g_screen (host_paddle_collision s) = g_screen s"
  "g_screen (client_paddle_collision s) = g_screen s"
  by (simp_all add: host_move_paddle_def checkForServeLaunch_def ball_integrate_def
      ball_walls_def host_paddle_collision_def client_paddle_collision_def Let_def)

lemma scores_checkForServeLaunch [simp]:
  "g_hostScore (checkForServeLaunch millis r s) = g_hostScore s"
  "g_clientScore (checkForServeLaunch millis r s) = g_clientScore s"
  "g_role (checkForServeLaunch millis r s) = g_role s"
  by (simp_all add: checkForServeLaunch_def)

lemma g_screen_updateHostGameplay:
  assumes "g_hostScore s = 0" and "g_clientScore s = 0"
  shows "g_screen (updateHostGameplay dt inp s) = g_screen s"
    and "g_role (updateHostGameplay dt inp s) = g_role s"
proof -
  define s2 where "s2 = checkForServeLaunch (in_millis_later inp) (in_random inp)
                          (host_move_paddle dt inp s)"
  define s3 where "s3 = client_paddle_collision (host_paddle_collision
                            (ball_walls (ball_integrate dt s2)))"
  have "score_view (host_move_paddle dt inp s) = score_view s" by simp
  then have s2: "g_screen s2 = g_screen s" "g_role s2 = g_role s"
    "g_hostScore s2 = 0" "g_clientScore s2 = 0"
    using assms by (simp_all add: s2_def score_view_def)
  have "score_view s3 = score_view s2" by (simp add: s3_def)
  then have s3: "g_screen s3 = g_screen s" "g_role s3 = g_role s"
    "g_hostScore s3 = 0" "g_clientScore s3 = 0"
    using s2 by (simp_all add: s3_def score_view_def)
  have eq: "updateHostGameplay dt inp s =
      (if \<not> g_matchActive s \<and> \<not> g_waitingForServe s then s
       else if g_waitingForServe s2 then s2 else host_scoring (in_millis_later inp) s3)"
    unfolding updateHostGameplay_def Let_def s3_def s2_def by (rule refl)
  show "g_screen (updateHostGameplay dt inp s) = g_screen s"
    and "g_role (updateHostGameplay dt inp s) = g_role s"
    using s2 s3 g_screen_host_scoring[OF s3(3,4)] by (simp_all add: eq)
qed

lemma loop_Playing_opened:
  assumes "match_opened s"
  shows "g_screen (loop_Playing now dt inp s) = (if jp_Q inp then RoleSelect else Playing)"
proof -
  define s1 where "s1 = (if jp_esc inp \<and> g_role s = Host
                         then s\<lparr>g_gamePaused := \<not> g_gamePaused s\<rparr> else s)"
  have s1: "g_role s1 = Host" "g_screen s1 = Playing" "g_hostScore s1 = 0"
    "g_clientScore s1 = 0"
    using assms by (simp_all add: s1_def match_opened_def)
  define s1a where "s1a = (if \<not> g_gamePaused s1 then updateHostGameplay dt inp s1 else s1)"
  have s1a: "g_screen s1a = Playing"
    using s1 g_screen_updateHostGameplay(1)[OF s1(3,4)] by (simp add: s1a_def)
  define s2 where "s2 = (if jp_esc inp \<or> now - g_lastStateSent s1a > STATE_SEND_INTERVAL_MS
                         then sendStatePacket (in_millis_later inp) s1a else s1a)"
  have s2: "g_screen s2 = Playing" using s1a by (simp add: s2_def)
  have "loop_Playing now dt inp s = (if jp_Q inp then resetToMainMenu s2 else s2)"
    using s1(1) unfolding loop_Playing_def Let_def s2_def s1a_def s1_def by simp
  with s2 show ?thesis by simp
qed

lemma loop_after_start:
  assumes "processNetwork (in_datagrams inp) s = s1" and "match_opened s1"
  shows "g_screen (loop inp s) = (if jp_Q inp then RoleSelect else Playing)"
proof -
  have t: "handleConnectionTimeout (in_millis_timeout inp) s1 = s1"
    using assms(2) by (simp add: handleConnectionTimeout_not_client match_opened_def)
  define dt where "dt = fdiv (float_of_int (uint (in_millis inp - g_lastFrameTick s1)))
                          (FVal 1000)"
  define s4 where "s4 = loop_Playing (in_millis inp) dt inp
                          (s1\<lparr>g_lastFrameTick := in_millis inp\<rparr>)"
  have "match_opened (s1\<lparr>g_lastFrameTick := in_millis inp\<rparr>)"
    using assms(2) by (simp add: match_opened_def)
  then have s4: "g_screen s4 = (if jp_Q inp then RoleSelect else Playing)"
    unfolding s4_def by (rule loop_Playing_opened)
  have "g_screen (s1\<lparr>g_lastFrameTick := in_millis inp\<rparr>) = Playing"
    using assms(2) by (simp add: match_opened_def)
  then have "loop inp s = (if g_screen s4 \<noteq> Playing \<and> g_screenDirty s4
                           then s4\<lparr>g_screenDirty := False\<rparr> else s4)"
    by (simp add: loop_def Let_def assms(1) t s4_def dt_def)
  then have "g_screen (loop inp s) = g_screen s4" by simp
  with s4 show ?thesis by simp
qed

text \<open>
  C6 (as amended). For a host in the lobby, the screen after a frame is Playing exactly
  when the quit key was not pressed in the frame and either the serve key was pressed
  or a Start datagram (first byte 5, 5 to 128 bytes) was among the datagrams the frame
  handled. In a frame that handled no Start datagram, the serve key (without the quit
  key) of a host with a linked peer draws the seed \<open>millis XOR (micros << 8)\<close>, sends a
  Start packet with it and then the opening State packet to the peer, gives the seed to
  the random generator, resets the match state, starts the serve toward the client and
  is on the Playing screen at the end of the frame: nothing is awaited.
\<close>

theorem lobby_to_playing:
  assumes "g_role s = Host" and "g_screen s = Lobby"
  shows "(g_screen (loop inp s) = Playing)
           = (\<not> jp_Q inp
              \<and> (jp_space inp \<or> list_ex is_Start (handled_datagrams (in_datagrams inp))))
         \<and> (if jp_space inp \<and> \<not> jp_Q inp \<and> g_hasPeer s
               \<and> \<not> list_ex is_Start (handled_datagrams (in_datagrams inp))
            then random_seed (loop inp s) = nextRandomSeed (in_millis_later inp) (in_micros inp)
                 \<and> udp_sent (loop inp s)
                     = udp_sent s @
                       [(g_peerIp s, g_peerPort s,
                         StartPacket (nextRandomSeed (in_millis_later inp) (in_micros inp))),
                        (g_peerIp s, g_peerPort s, StatePkt
                          \<lparr> flags = 3, hostScore = 0, clientScore = 0, frameId = 1,
                            ballX = FVal 120, ballY = FVal (135 / 2),
                            ballVX = FVal 0, ballVY = FVal 0,
                            hostPaddleY = FVal (135 / 2), clientPaddleY = FVal (135 / 2) \<rparr>)]
                 \<and> match_state (loop inp s)
                     = ((0, 0), (FVal 120, FVal (135 / 2), FVal 0, FVal 0),
                        (FVal (135 / 2), FVal (135 / 2)), (True, True, False, False))
                 \<and> g_serveDirection (loop inp s) = 1
                 \<and> g_serveRequestTs (loop inp s) = in_millis_later inp
            else True)"
proof (cases "list_ex is_Start (handled_datagrams (in_datagrams inp))")
  case True
  with assms have "match_opened (processNetwork (in_datagrams inp) s)"
    by (simp add: host_lobby_network_start)
  from loop_after_start[OF refl this] True show ?thesis by simp
next
  case False
  from host_lobby_network[OF assms False]
  obtain y where net: "processNetwork (in_datagrams inp) s = s\<lparr>g_clientPaddleY := y\<rparr>"
    by blast
  let ?s1 = "s\<lparr>g_clientPaddleY := y\<rparr>"
  have s1: "g_role ?s1 = Host" "g_screen ?s1 = Lobby"
    using assms(1,2) by simp_all
  note eq = loop_in_lobby[OF net s1]
  show ?thesis
  proof (cases "jp_Q inp")
    case True
    then show ?thesis by (simp add: eq)
  next
    case noQ: False
    show ?thesis
    proof (cases "jp_space inp")
      case True
      with noQ assms(1) False show ?thesis
        by (simp add: eq udp_sent_hostStartMatch match_state_def)
    next
      case sp: False
      with noQ assms(2) False show ?thesis by (simp add: eq)
    qed
  qed
qed


text \<open>A frame of a host that is waiting for the serve delay to pass, with no key down.\<close>

lemma loop_host_before_serve:
  assumes "processNetwork (in_datagrams inp) s = s1" and "g_role s1 = Host"
    and "g_screen s1 = Playing" and "g_waitingForServe s1" and "\<not> g_gamePaused s1"
    and "\<not> jp_esc inp" and "\<not> jp_Q inp"
    and "\<not> in_millis_later inp - g_serveRequestTs s1 \<ge> SERVE_DELAY_MS"
    and "\<not> in_millis inp - g_lastStateSent s1 > STATE_SEND_INTERVAL_MS"
  shows "g_screen (loop inp s) = Playing" and "udp_sent (loop inp s) = udp_sent s1"
    and "g_frameCounter (loop inp s) = g_frameCounter s1"
proof -
  have t: "handleConnectionTimeout (in_millis_timeout inp) s1 = s1"
    using assms(2) by (simp add: handleConnectionTimeout_not_client)
  show "g_screen (loop inp s) = Playing" and "udp_sent (loop inp s) = udp_sent s1"
    and "g_frameCounter (loop inp s) = g_frameCounter s1"
    using assms(2-9)
    by (simp_all add: loop_def Let_def assms(1) t loop_Playing_def updateHostGameplay_def
        checkForServeLaunch_def host_move_paddle_def)
qed

lemma host_in_lobby_fields:
  "g_role host_in_lobby = Host" "g_screen host_in_lobby = Lobby" "g_hasPeer host_in_lobby"
  "udp_sent host_in_lobby = []" "g_peerIp host_in_lobby = 0xC0A80103"
  "g_peerPort host_in_lobby = 41000"
  by (simp_all add: host_in_lobby_def initial_globals_def UDP_PORT_def)

lemma start_datagram_frame_fields:
  "in_datagrams start_datagram_frame = [start_datagram]" "in_millis start_datagram_frame = 9000"
  "\<not> jp_esc start_datagram_frame" "\<not> jp_Q start_datagram_frame"
  "\<not> jp_space start_datagram_frame" "d_millis start_datagram = 9000"
  "length (d_bytes start_datagram) > 0" "in_millis_later start_datagram_frame = 9000"
  by (simp_all add: start_datagram_frame_def idle_inputs_def start_datagram_def)

text \<open>Any host that handles the Start datagram frame.\<close>

lemma loop_start_datagram_frame:
  assumes "g_role s = Host" and "g_hasPeer s"
  shows "g_screen (loop start_datagram_frame s) = Playing"
    and "udp_sent (loop start_datagram_frame s)
         = udp_sent (hostStartMatch 0x01020304 9000 s)"
proof -
  let ?s1 = "hostStartMatch 0x01020304 9000 s"
  have "processDatagram start_datagram s = ?s1"
    using processDatagram_start[OF start_datagram_facts(1,2,3), of s] assms(1)
    unfolding start_datagram_facts(4) start_datagram_frame_fields(6) by simp
  then have net: "processNetwork (in_datagrams start_datagram_frame) s = ?s1"
    using start_datagram_frame_fields(7)
    unfolding start_datagram_frame_fields(1) by simp
  have a: "g_role ?s1 = Host" "g_screen ?s1 = Playing" "g_waitingForServe ?s1"
    "\<not> g_gamePaused ?s1"
    using assms by simp_all
  have b: "\<not> in_millis_later start_datagram_frame - g_serveRequestTs ?s1 \<ge> SERVE_DELAY_MS"
    by (simp add: start_datagram_frame_fields SERVE_DELAY_MS_def)
  have c: "\<not> in_millis start_datagram_frame - g_lastStateSent ?s1 > STATE_SEND_INTERVAL_MS"
    using assms by (simp add: start_datagram_frame_fields STATE_SEND_INTERVAL_MS_def)
  show "g_screen (loop start_datagram_frame s) = Playing"
    and "udp_sent (loop start_datagram_frame s) = udp_sent ?s1"
    using loop_host_before_serve[OF net a(1-4) start_datagram_frame_fields(3,4) b c]
    by simp_all
qed

text \<open>
  The claim as stated fails: with no key pressed, an inbound Start datagram takes the
  host from the lobby to Playing.
\<close>

theorem lobby_to_playing_by_start_datagram:
  "g_role host_in_lobby = Host \<and> g_screen host_in_lobby = Lobby
   \<and> \<not> jp_space start_datagram_frame
   \<and> g_screen (loop start_datagram_frame host_in_lobby) = Playing"
  using loop_start_datagram_frame(1)[OF host_in_lobby_fields(1,3)]
    host_in_lobby_fields(1,2) start_datagram_frame_fields(5)
  by simp

lemma serve_frame_fields:
  "in_datagrams serve_frame = []" "in_millis serve_frame = 8990"
  "in_micros serve_frame = 8990123" "jp_space serve_frame" "\<not> jp_Q serve_frame"
  "in_millis_later serve_frame = 8990"
  by (simp_all add: serve_frame_def idle_inputs_def)

lemma start_datagram_quit_frame_fields:
  "in_datagrams start_datagram_quit_frame = [start_datagram]" "jp_Q start_datagram_quit_frame"
  by (simp_all add: start_datagram_quit_frame_def start_datagram_frame_def idle_inputs_def)

lemma is_Start_start_datagram: "is_Start start_datagram"
  using start_datagram_facts(1,2,3) start_datagram_frame_fields(7)
  by (simp add: is_Start_def)

text \<open>
  The serve key takes the host of \<open>host_in_lobby\<close> to Playing and sends the Start and
  the State packet; a frame that handles a Start datagram while the quit key is
  pressed does not end in Playing.
\<close>

theorem lobby_to_playing_witness:
  "g_role host_in_lobby = Host \<and> g_screen host_in_lobby = Lobby
   \<and> \<not> list_ex is_Start (handled_datagrams (in_datagrams serve_frame))
   \<and> g_screen (loop serve_frame host_in_lobby) = Playing
   \<and> random_seed (loop serve_frame host_in_lobby) = nextRandomSeed 8990 8990123
   \<and> udp_sent (loop serve_frame host_in_lobby)
       = [(0xC0A80103, 41000, StartPacket (nextRandomSeed 8990 8990123)),
          (0xC0A80103, 41000, StatePkt
             \<lparr> flags = 3, hostScore = 0, clientScore = 0, frameId = 1,
               ballX = FVal 120, ballY = FVal (135 / 2), ballVX = FVal 0, ballVY = FVal 0,
               hostPaddleY = FVal (135 / 2), clientPaddleY = FVal (135 / 2) \<rparr>)]
   \<and> list_ex is_Start (handled_datagrams (in_datagrams start_datagram_quit_frame))
   \<and> g_screen (loop start_datagram_quit_frame host_in_lobby) \<noteq> Playing"
proof -
  have no: "\<not> list_ex is_Start (handled_datagrams (in_datagrams serve_frame))"
    by (simp add: serve_frame_fields handled_datagrams_def)
  have yes: "list_ex is_Start (handled_datagrams (in_datagrams start_datagram_quit_frame))"
    using is_Start_start_datagram start_datagram_frame_fields(7)
    by (simp add: start_datagram_quit_frame_fields handled_datagrams_def)
  from lobby_to_playing[OF host_in_lobby_fields(1,2), of serve_frame]
    lobby_to_playing[OF host_in_lobby_fields(1,2), of start_datagram_quit_frame]
    no yes serve_frame_fields host_in_lobby_fields start_datagram_quit_frame_fields(2)
  show ?thesis by simp
qed

subsection \<open>The frame counter\<close>

lemma sent_frameIds_append:
  "sent_frameIds (xs @ ys) = sent_frameIds xs @ sent_frameIds ys"
  by (induction xs rule: sent_frameIds.induct) simp_all








lemma fc_view_gameplay [simp]:
  "fc_view (host_move_paddle dt inp s) = fc_view s"
  "fc_view (checkForServeLaunch millis r s) = fc_view s"
  "fc_view (ball_integrate dt s) = fc_view s"
  "fc_view (ball_walls s) = fc_view s"
  "fc_view (host_paddle_collision s) = fc_view s"
  "fc_view (client_paddle_collision s) = fc_view s"
  by (simp_all add: fc_view_def host_move_paddle_def checkForServeLaunch_def
      ball_integrate_def ball_walls_def host_paddle_collision_def
      client_paddle_collision_def Let_def)

lemma fc_view_updateClientGameplay [simp]:
  "fc_view (updateClientGameplay dt inp s) = fc_view s"
  by (simp add: fc_view_def updateClientGameplay_def Let_def sent_frameIds_append)

lemma fc_view_resets [simp]:
  "fc_view (resetMatchState s) = (0, snd (fc_view s))"
  "fc_view (resetToMainMenu s) = (0, snd (fc_view s))"
  "fc_view (resetToWifiSetup s) = (0, snd (fc_view s))"
  by (simp_all add: fc_view_def)



























subsection \<open>Paddles stay on the screen\<close>





text \<open>Both comparisons of \<^verbatim>\<open>clampValue\<close> are false for a NaN, which is returned as it is.\<close>

lemma clampValue_NaN: "clampValue FNaN lo hi = FNaN"
  by (simp add: clampValue_def fgt_def)




lemma host_move_paddle_others [simp]:
  "g_clientPaddleY (host_move_paddle dt inp s) = g_clientPaddleY s"
  "g_role (host_move_paddle dt inp s) = g_role s"
  by (simp_all add: host_move_paddle_def Let_def)





lemma paddle_view_unchanged [simp]:
  "paddle_view (setScreen next s) = paddle_view s"
  "paddle_view (setRemotePlayerName name s) = paddle_view s"
  "paddle_view (sendJoinBroadcast s) = paddle_view s"
  "paddle_view (sendJoinAck s) = paddle_view s"
  "paddle_view (sendStartPacket seed s) = paddle_view s"
  "paddle_view (sendStatePacket millis s) = paddle_view s"
  "paddle_view (sendPaddlePacket millis s) = paddle_view s"
  "paddle_view (handleConnectionTimeout now s) = paddle_view s"
  "paddle_view (prepareServe direction millis s) = paddle_view s"
  "paddle_view (launchBall r s) = paddle_view s"
  "paddle_view (markGameOver millis s) = paddle_view s"
  by (simp_all add: paddle_view_def)

lemma paddle_view_gameplay [simp]:
  "paddle_view (checkForServeLaunch millis r s) = paddle_view s"
  "paddle_view (ball_integrate dt s) = paddle_view s"
  "paddle_view (ball_walls s) = paddle_view s"
  "paddle_view (host_paddle_collision s) = paddle_view s"
  "paddle_view (client_paddle_collision s) = paddle_view s"
  "paddle_view (host_scoring millis s) = paddle_view s"
  by (simp_all add: paddle_view_def checkForServeLaunch_def ball_integrate_def ball_walls_def
      host_paddle_collision_def client_paddle_collision_def host_scoring_def Let_def)































end
